theory Spec2Isabelle
  imports Main
begin

unbundle bit_operations_syntax

section \<open>Configuration engine of chan-sccp (\<^verbatim>\<open>sccp_config.c\<close>)\<close>

text \<open>
  The development embeds the option registry and the reconciliation functions of
  \<^verbatim>\<open>src/sccp_config.c\<close>: the option tables, \<^verbatim>\<open>sccp_find_segment\<close>,
  \<^verbatim>\<open>sccp_find_config\<close>, \<^verbatim>\<open>sccp_config_object_setValue\<close>, \<^verbatim>\<open>sccp_config_set_defaults\<close>,
  the three \<^verbatim>\<open>sccp_config_apply...Configuration\<close> functions, \<^verbatim>\<open>sccp_config_addButton\<close> and
  the soft key set reader.

  Conventions: a C string is a \<open>string\<close>; a pointer that may be \<^verbatim>\<open>NULL\<close> is an
  \<open>option\<close>; a function that dereferences \<^verbatim>\<open>NULL\<close> or reads outside an array has no
  defined result there and returns \<open>None\<close>. Calls to \<^verbatim>\<open>pbx_log\<close> and \<^verbatim>\<open>sccp_log\<close> only
  write to the log and are left out, as is the \<^verbatim>\<open>lineno\<close> argument that only they use;
  the \<^verbatim>\<open>description\<close> column of the option tables is only ever printed and is left
  out too. Memory allocation is taken to succeed unless a flag of the environment says
  otherwise. The option tables are taken with every \<^verbatim>\<open>CS_...\<close> feature macro defined.
\<close>

subsection \<open>C library\<close>

definition tolower :: "char \<Rightarrow> char" where
  "tolower c = (let n = (of_char c :: nat) in if 65 \<le> n \<and> n \<le> 90 then char_of (n + 32) else c)"

text \<open>\<^verbatim>\<open>strcasecmp(a, b) != 0\<close>; only this truth value is used by the source.\<close>

definition strcasecmp :: "string \<Rightarrow> string \<Rightarrow> bool" where
  "strcasecmp a b = (map tolower a \<noteq> map tolower b)"

text \<open>\<^verbatim>\<open>strcmp(a, b) != 0\<close>.\<close>

definition strcmp :: "string \<Rightarrow> string \<Rightarrow> bool" where
  "strcmp a b = (a \<noteq> b)"

definition isspace :: "char \<Rightarrow> bool" where
  "isspace c = (let n = (of_char c :: nat) in n = 32 \<or> (9 \<le> n \<and> n \<le> 13))"

definition isdigit :: "char \<Rightarrow> bool" where
  "isdigit c = (let n = (of_char c :: nat) in 48 \<le> n \<and> n \<le> 57)"

text \<open>
  \<^verbatim>\<open>atoi\<close>: leading white space, an optional sign, then decimal digits. The C library
  converts with \<^verbatim>\<open>strtol\<close>, which stops at the ends of the range of \<^verbatim>\<open>long\<close> (64 bits),
  and the result is converted to \<^verbatim>\<open>int\<close> (32 bits, two's complement): a number outside
  the range of \<^verbatim>\<open>int\<close> wraps around.
\<close>

definition strtol :: "string \<Rightarrow> int" where
  "strtol s =
     (let s1 = dropWhile isspace s;
          neg = (case s1 of [] \<Rightarrow> False | c # _ \<Rightarrow> c = CHR ''-'');
          s2 = (case s1 of [] \<Rightarrow> [] | c # r \<Rightarrow> if c = CHR ''-'' \<or> c = CHR ''+'' then r else s1);
          n = foldl (\<lambda>a c. 10 * a + (int (of_char c) - 48)) 0 (takeWhile isdigit s2);
          v = (if neg then - n else n)
      in if v < - (2 ^ 63) then - (2 ^ 63) else if 2 ^ 63 - 1 < v then 2 ^ 63 - 1 else v)"

definition atoi :: "string \<Rightarrow> int" where
  "atoi s = (strtol s + 2 ^ 31) mod 2 ^ 32 - 2 ^ 31"

text \<open>
  \<^verbatim>\<open>sccp_strlen_zero\<close>: true for \<^verbatim>\<open>NULL\<close> and for the empty string.
\<close>

definition sccp_strlen_zero :: "string option \<Rightarrow> bool" where
  "sccp_strlen_zero s = (case s of None \<Rightarrow> True | Some v \<Rightarrow> v = [])"

text \<open>
  \<^verbatim>\<open>pbx_copy_string(dst, src, size)\<close> and \<^verbatim>\<open>sccp_copy_string\<close>: the destination receives
  at most \<open>size - 1\<close> characters of the source, then the terminator.
\<close>

definition pbx_copy_string :: "string \<Rightarrow> nat \<Rightarrow> string" where
  "pbx_copy_string src sz = take (sz - 1) src"

definition sccp_copy_string :: "string \<Rightarrow> nat \<Rightarrow> string" where
  "sccp_copy_string src sz = take (sz - 1) src"

subsection \<open>Option descriptors\<close>

datatype SCCPConfigOptionType =
    SCCP_CONFIG_DATATYPE_BOOLEAN
  | SCCP_CONFIG_DATATYPE_INT
  | SCCP_CONFIG_DATATYPE_STRING
  | SCCP_CONFIG_DATATYPE_GENERIC
  | SCCP_CONFIG_DATATYPE_STRINGPTR
  | SCCP_CONFIG_DATATYPE_CHAR

text \<open>The flags are the bit values \<^verbatim>\<open>1 << 0\<close> to \<^verbatim>\<open>1 << 7\<close> of \<^verbatim>\<open>enum SCCPConfigOptionFlag\<close>.\<close>

definition SCCP_CONFIG_FLAG_IGNORE :: int where "SCCP_CONFIG_FLAG_IGNORE = 1"
definition SCCP_CONFIG_FLAG_NONE :: int where "SCCP_CONFIG_FLAG_NONE = 2"
definition SCCP_CONFIG_FLAG_DEPRECATED :: int where "SCCP_CONFIG_FLAG_DEPRECATED = 4"
definition SCCP_CONFIG_FLAG_OBSOLETE :: int where "SCCP_CONFIG_FLAG_OBSOLETE = 8"
definition SCCP_CONFIG_FLAG_CHANGED :: int where "SCCP_CONFIG_FLAG_CHANGED = 16"
definition SCCP_CONFIG_FLAG_REQUIRED :: int where "SCCP_CONFIG_FLAG_REQUIRED = 32"
definition SCCP_CONFIG_FLAG_GET_DEVICE_DEFAULT :: int where "SCCP_CONFIG_FLAG_GET_DEVICE_DEFAULT = 64"
definition SCCP_CONFIG_FLAG_GET_GLOBAL_DEFAULT :: int where "SCCP_CONFIG_FLAG_GET_GLOBAL_DEFAULT = 128"

text \<open>
  The two result enumerations and the segment enumeration are declared in
  \<^verbatim>\<open>sccp_config.h\<close>, which is not among the sources: their constants are kept symbolic
  here and their integer values are given by the environment below.
\<close>

datatype sccp_value_changed_t =
    SCCP_CONFIG_CHANGE_NOCHANGE
  | SCCP_CONFIG_CHANGE_CHANGED
  | SCCP_CONFIG_CHANGE_INVALIDVALUE

datatype sccp_configurationchange_t =
    SCCP_CONFIG_NOUPDATENEEDED
  | SCCP_CONFIG_NEEDDEVICERESET

datatype sccp_config_segment_t =
    SCCP_CONFIG_GLOBAL_SEGMENT
  | SCCP_CONFIG_DEVICE_SEGMENT
  | SCCP_CONFIG_LINE_SEGMENT
  | SCCP_CONFIG_SOFTKEY_SEGMENT

text \<open>The converter functions named in the option tables.\<close>

datatype converter =
    sccp_config_parse_addons
  | sccp_config_parse_allow_codec
  | sccp_config_parse_amaflags
  | sccp_config_parse_blindtransferindication
  | sccp_config_parse_button
  | sccp_config_parse_callanswerorder
  | sccp_config_parse_context
  | sccp_config_parse_cos
  | sccp_config_parse_debug
  | sccp_config_parse_deny
  | sccp_config_parse_disallow_codec
  | sccp_config_parse_dnd
  | sccp_config_parse_dtmfmode
  | sccp_config_parse_earlyrtp
  | sccp_config_parse_group
  | sccp_config_parse_ipaddress
  | sccp_config_parse_mailbox
  | sccp_config_parse_mwilamp
  | sccp_config_parse_permit
  | sccp_config_parse_permithosts
  | sccp_config_parse_privacyFeature
  | sccp_config_parse_regcontext
  | sccp_config_parse_secondaryDialtoneDigits
  | sccp_config_parse_smallint
  | sccp_config_parse_tos
  | sccp_config_parse_variables

record SCCPConfigOption =
  opt_name :: string
  opt_offset :: int
  opt_size :: nat
  opt_type :: SCCPConfigOptionType
  opt_flags :: int
  opt_change :: sccp_configurationchange_t
  opt_defaultValue :: "string option"
  opt_converter_f :: "converter option"

text \<open>One row of an option table; the reference macros expand to an offset and a size.\<close>

definition option_entry ::
  "string \<Rightarrow> int \<times> nat \<Rightarrow> SCCPConfigOptionType \<Rightarrow> int \<Rightarrow> sccp_configurationchange_t \<Rightarrow>
   string option \<Rightarrow> converter option \<Rightarrow> SCCPConfigOption" where
  "option_entry n r ty fl ch dv cv =
     \<lparr>opt_name = n, opt_offset = fst r, opt_size = snd r, opt_type = ty, opt_flags = fl,
      opt_change = ch, opt_defaultValue = dv, opt_converter_f = cv\<rparr>"

subsection \<open>Environment\<close>

text \<open>
  What the translation unit takes from headers and collaborators that are not among the
  sources is collected in one record:
  \<^item> \<open>offset_size\<close>: \<^verbatim>\<open>offsetof\<close> and \<^verbatim>\<open>sizeof\<close> of a member of the structure of a segment
    (\<^verbatim>\<open>struct sccp_global_vars\<close>, \<^verbatim>\<open>sccp_device\<close>, \<^verbatim>\<open>sccp_line\<close>, \<^verbatim>\<open>softKeySetConfiguration\<close>);
  \<^item> \<open>value_changed_int\<close>, \<open>configurationchange_int\<close>: the integer values of the
    constants of the two result enumerations;
  \<^item> \<open>sccp_true\<close>: the truth value the PBX reads from a string;
  \<^item> \<open>converter_f\<close>: the converters of generic options, from the old content of the
    destination, the size, the value and the segment to the new content and a
    \<^verbatim>\<open>sccp_value_changed_t\<close>;
  \<^item> \<open>pbx_variable_retrieve\<close>: the lookup of a key in a category of the loaded
    configuration file \<^verbatim>\<open>GLOB(cfg)\<close>;
  \<^item> \<open>list_head_init\<close>, \<open>null_pointer\<close>: the content of an emptied list head and of a
    \<^verbatim>\<open>NULL\<close> pointer member.
\<close>

record 'g pbx_env =
  offset_size :: "sccp_config_segment_t \<Rightarrow> string \<Rightarrow> int \<times> nat"
  value_changed_int :: "sccp_value_changed_t \<Rightarrow> int"
  configurationchange_int :: "sccp_configurationchange_t \<Rightarrow> int"
  sccp_true :: "string option \<Rightarrow> int"
  converter_f :: "converter \<Rightarrow> 'g \<Rightarrow> nat \<Rightarrow> string option \<Rightarrow> sccp_config_segment_t \<Rightarrow> 'g \<times> int"
  pbx_variable_retrieve :: "string \<Rightarrow> string \<Rightarrow> string option"
  list_head_init :: 'g
  null_pointer :: 'g

definition G_OBJ_REF :: "'g pbx_env \<Rightarrow> string \<Rightarrow> int \<times> nat" where
  "G_OBJ_REF env x = offset_size env SCCP_CONFIG_GLOBAL_SEGMENT x"

definition D_OBJ_REF :: "'g pbx_env \<Rightarrow> string \<Rightarrow> int \<times> nat" where
  "D_OBJ_REF env x = offset_size env SCCP_CONFIG_DEVICE_SEGMENT x"

definition L_OBJ_REF :: "'g pbx_env \<Rightarrow> string \<Rightarrow> int \<times> nat" where
  "L_OBJ_REF env x = offset_size env SCCP_CONFIG_LINE_SEGMENT x"

definition S_OBJ_REF :: "'g pbx_env \<Rightarrow> string \<Rightarrow> int \<times> nat" where
  "S_OBJ_REF env x = offset_size env SCCP_CONFIG_SOFTKEY_SEGMENT x"

subsection \<open>Option tables\<close>

definition sccpGlobalConfigOptions :: "'g pbx_env \<Rightarrow> SCCPConfigOption list" where
  "sccpGlobalConfigOptions env = [
    option_entry ''servername'' (G_OBJ_REF env ''servername'') SCCP_CONFIG_DATATYPE_STRING SCCP_CONFIG_FLAG_NONE SCCP_CONFIG_NOUPDATENEEDED (Some ''Asterisk'') None,
    option_entry ''keepalive'' (G_OBJ_REF env ''keepalive'') SCCP_CONFIG_DATATYPE_INT SCCP_CONFIG_FLAG_NONE SCCP_CONFIG_NEEDDEVICERESET (Some ''60'') None,
    option_entry ''debug'' (G_OBJ_REF env ''debug'') SCCP_CONFIG_DATATYPE_GENERIC SCCP_CONFIG_FLAG_NONE SCCP_CONFIG_NOUPDATENEEDED (Some ''core'') (Some sccp_config_parse_debug),
    option_entry ''context'' (G_OBJ_REF env ''context'') SCCP_CONFIG_DATATYPE_STRING SCCP_CONFIG_FLAG_NONE SCCP_CONFIG_NEEDDEVICERESET (Some ''sccp'') (Some sccp_config_parse_context),
    option_entry ''dateformat'' (G_OBJ_REF env ''dateformat'') SCCP_CONFIG_DATATYPE_STRING SCCP_CONFIG_FLAG_NONE SCCP_CONFIG_NEEDDEVICERESET (Some ''D.M.Y'') None,
    option_entry ''bindaddr'' (G_OBJ_REF env ''bindaddr'') SCCP_CONFIG_DATATYPE_GENERIC SCCP_CONFIG_FLAG_NONE SCCP_CONFIG_NEEDDEVICERESET (Some ''0.0.0.0'') (Some sccp_config_parse_ipaddress),
    option_entry ''port'' (G_OBJ_REF env ''bindaddr'') SCCP_CONFIG_DATATYPE_GENERIC SCCP_CONFIG_FLAG_NONE SCCP_CONFIG_NEEDDEVICERESET (Some ''2000'') None,
    option_entry ''disallow'' (G_OBJ_REF env ''global_preferences'') SCCP_CONFIG_DATATYPE_GENERIC SCCP_CONFIG_FLAG_NONE SCCP_CONFIG_NEEDDEVICERESET (Some '''') (Some sccp_config_parse_disallow_codec),
    option_entry ''allow'' (G_OBJ_REF env ''global_preferences'') SCCP_CONFIG_DATATYPE_GENERIC SCCP_CONFIG_FLAG_NONE SCCP_CONFIG_NEEDDEVICERESET (Some '''') (Some sccp_config_parse_allow_codec),
    option_entry ''deny'' (G_OBJ_REF env ''ha'') SCCP_CONFIG_DATATYPE_GENERIC SCCP_CONFIG_FLAG_NONE SCCP_CONFIG_NEEDDEVICERESET (Some ''0.0.0.0/0.0.0.0'') (Some sccp_config_parse_deny),
    option_entry ''permit'' (G_OBJ_REF env ''ha'') SCCP_CONFIG_DATATYPE_GENERIC SCCP_CONFIG_FLAG_NONE SCCP_CONFIG_NEEDDEVICERESET (Some ''internal'') (Some sccp_config_parse_permit),
    option_entry ''quality_over_size'' (G_OBJ_REF env ''prefer_quality_over_size'') SCCP_CONFIG_DATATYPE_BOOLEAN SCCP_CONFIG_FLAG_NONE SCCP_CONFIG_NOUPDATENEEDED (Some ''true'') None,
    option_entry ''localnet'' (G_OBJ_REF env ''localaddr'') SCCP_CONFIG_DATATYPE_GENERIC SCCP_CONFIG_FLAG_NONE SCCP_CONFIG_NEEDDEVICERESET (Some '' '') (Some sccp_config_parse_permit),
    option_entry ''externip'' (G_OBJ_REF env ''externip'') SCCP_CONFIG_DATATYPE_GENERIC SCCP_CONFIG_FLAG_NONE SCCP_CONFIG_NEEDDEVICERESET (Some '''') (Some sccp_config_parse_ipaddress),
    option_entry ''externhost'' (G_OBJ_REF env ''externhost'') SCCP_CONFIG_DATATYPE_STRING SCCP_CONFIG_FLAG_NONE SCCP_CONFIG_NEEDDEVICERESET (Some '''') None,
    option_entry ''externrefresh'' (G_OBJ_REF env ''externrefresh'') SCCP_CONFIG_DATATYPE_GENERIC SCCP_CONFIG_FLAG_NONE SCCP_CONFIG_NEEDDEVICERESET (Some ''60'') (Some sccp_config_parse_smallint),
    option_entry ''firstdigittimeout'' (G_OBJ_REF env ''firstdigittimeout'') SCCP_CONFIG_DATATYPE_GENERIC SCCP_CONFIG_FLAG_NONE SCCP_CONFIG_NOUPDATENEEDED (Some ''16'') (Some sccp_config_parse_smallint),
    option_entry ''digittimeout'' (G_OBJ_REF env ''digittimeout'') SCCP_CONFIG_DATATYPE_GENERIC SCCP_CONFIG_FLAG_NONE SCCP_CONFIG_NOUPDATENEEDED (Some ''8'') (Some sccp_config_parse_smallint),
    option_entry ''digittimeoutchar'' (G_OBJ_REF env ''digittimeoutchar'') SCCP_CONFIG_DATATYPE_CHAR SCCP_CONFIG_FLAG_NONE SCCP_CONFIG_NOUPDATENEEDED (Some ''#'') None,
    option_entry ''recorddigittimeoutchar'' (G_OBJ_REF env ''recorddigittimeoutchar'') SCCP_CONFIG_DATATYPE_BOOLEAN SCCP_CONFIG_FLAG_NONE SCCP_CONFIG_NOUPDATENEEDED (Some ''false'') None,
    option_entry ''simulate_enbloc'' (G_OBJ_REF env ''simulate_enbloc'') SCCP_CONFIG_DATATYPE_BOOLEAN SCCP_CONFIG_FLAG_NONE SCCP_CONFIG_NOUPDATENEEDED (Some ''true'') None,
    option_entry ''autoanswer_ring_time'' (G_OBJ_REF env ''autoanswer_ring_time'') SCCP_CONFIG_DATATYPE_GENERIC SCCP_CONFIG_FLAG_NONE SCCP_CONFIG_NOUPDATENEEDED (Some ''1'') (Some sccp_config_parse_smallint),
    option_entry ''autoanswer_tone'' (G_OBJ_REF env ''autoanswer_tone'') SCCP_CONFIG_DATATYPE_GENERIC SCCP_CONFIG_FLAG_NONE SCCP_CONFIG_NOUPDATENEEDED (Some ''0x32'') (Some sccp_config_parse_smallint),
    option_entry ''remotehangup_tone'' (G_OBJ_REF env ''remotehangup_tone'') SCCP_CONFIG_DATATYPE_GENERIC SCCP_CONFIG_FLAG_NONE SCCP_CONFIG_NOUPDATENEEDED (Some ''0x32'') (Some sccp_config_parse_smallint),
    option_entry ''transfer_tone'' (G_OBJ_REF env ''transfer_tone'') SCCP_CONFIG_DATATYPE_GENERIC SCCP_CONFIG_FLAG_NONE SCCP_CONFIG_NOUPDATENEEDED (Some ''0'') (Some sccp_config_parse_smallint),
    option_entry ''callwaiting_tone'' (G_OBJ_REF env ''callwaiting_tone'') SCCP_CONFIG_DATATYPE_GENERIC SCCP_CONFIG_FLAG_NONE SCCP_CONFIG_NOUPDATENEEDED (Some ''0x2d'') (Some sccp_config_parse_smallint),
    option_entry ''musicclass'' (G_OBJ_REF env ''musicclass'') SCCP_CONFIG_DATATYPE_STRING SCCP_CONFIG_FLAG_NONE SCCP_CONFIG_NOUPDATENEEDED (Some ''default'') None,
    option_entry ''language'' (G_OBJ_REF env ''language'') SCCP_CONFIG_DATATYPE_STRING SCCP_CONFIG_FLAG_NONE SCCP_CONFIG_NEEDDEVICERESET (Some ''en'') None,
    option_entry ''callevents'' (G_OBJ_REF env ''callevents'') SCCP_CONFIG_DATATYPE_BOOLEAN SCCP_CONFIG_FLAG_NONE SCCP_CONFIG_NOUPDATENEEDED (Some ''on '') None,
    option_entry ''accountcode'' (G_OBJ_REF env ''accountcode'') SCCP_CONFIG_DATATYPE_STRING SCCP_CONFIG_FLAG_NONE SCCP_CONFIG_NOUPDATENEEDED (Some ''skinny'') None,
    option_entry ''sccp_tos'' (G_OBJ_REF env ''sccp_tos'') SCCP_CONFIG_DATATYPE_GENERIC SCCP_CONFIG_FLAG_NONE SCCP_CONFIG_NEEDDEVICERESET (Some ''0x68'') (Some sccp_config_parse_tos),
    option_entry ''sccp_cos'' (G_OBJ_REF env ''sccp_cos'') SCCP_CONFIG_DATATYPE_GENERIC SCCP_CONFIG_FLAG_NONE SCCP_CONFIG_NEEDDEVICERESET (Some ''4'') (Some sccp_config_parse_cos),
    option_entry ''audio_tos'' (G_OBJ_REF env ''audio_tos'') SCCP_CONFIG_DATATYPE_GENERIC SCCP_CONFIG_FLAG_NONE SCCP_CONFIG_NEEDDEVICERESET (Some ''0xB8'') (Some sccp_config_parse_tos),
    option_entry ''audio_cos'' (G_OBJ_REF env ''audio_cos'') SCCP_CONFIG_DATATYPE_GENERIC SCCP_CONFIG_FLAG_NONE SCCP_CONFIG_NEEDDEVICERESET (Some ''6'') (Some sccp_config_parse_cos),
    option_entry ''video_tos'' (G_OBJ_REF env ''video_tos'') SCCP_CONFIG_DATATYPE_GENERIC SCCP_CONFIG_FLAG_NONE SCCP_CONFIG_NEEDDEVICERESET (Some ''0x88'') (Some sccp_config_parse_tos),
    option_entry ''video_cos'' (G_OBJ_REF env ''video_cos'') SCCP_CONFIG_DATATYPE_GENERIC SCCP_CONFIG_FLAG_NONE SCCP_CONFIG_NEEDDEVICERESET (Some ''5'') (Some sccp_config_parse_cos),
    option_entry ''echocancel'' (G_OBJ_REF env ''echocancel'') SCCP_CONFIG_DATATYPE_BOOLEAN SCCP_CONFIG_FLAG_NONE SCCP_CONFIG_NOUPDATENEEDED (Some ''on'') None,
    option_entry ''silencesuppression'' (G_OBJ_REF env ''silencesuppression'') SCCP_CONFIG_DATATYPE_BOOLEAN SCCP_CONFIG_FLAG_NONE SCCP_CONFIG_NOUPDATENEEDED (Some ''off'') None,
    option_entry ''trustphoneip'' (G_OBJ_REF env ''trustphoneip'') SCCP_CONFIG_DATATYPE_BOOLEAN SCCP_CONFIG_FLAG_NONE SCCP_CONFIG_NOUPDATENEEDED (Some ''no'') None,
    option_entry ''earlyrtp'' (G_OBJ_REF env ''earlyrtp'') SCCP_CONFIG_DATATYPE_GENERIC SCCP_CONFIG_FLAG_NONE SCCP_CONFIG_NOUPDATENEEDED (Some ''progress'') (Some sccp_config_parse_earlyrtp),
    option_entry ''dnd'' (G_OBJ_REF env ''dndmode'') SCCP_CONFIG_DATATYPE_GENERIC SCCP_CONFIG_FLAG_NONE SCCP_CONFIG_NOUPDATENEEDED (Some ''reject'') (Some sccp_config_parse_dnd),
    option_entry ''private'' (G_OBJ_REF env ''privacy'') SCCP_CONFIG_DATATYPE_BOOLEAN SCCP_CONFIG_FLAG_NONE SCCP_CONFIG_NOUPDATENEEDED (Some ''on'') None,
    option_entry ''mwilamp'' (G_OBJ_REF env ''mwilamp'') SCCP_CONFIG_DATATYPE_GENERIC SCCP_CONFIG_FLAG_NONE SCCP_CONFIG_NOUPDATENEEDED (Some ''on'') (Some sccp_config_parse_mwilamp),
    option_entry ''mwioncall'' (G_OBJ_REF env ''mwioncall'') SCCP_CONFIG_DATATYPE_BOOLEAN SCCP_CONFIG_FLAG_NONE SCCP_CONFIG_NOUPDATENEEDED (Some ''off'') None,
    option_entry ''blindtransferindication'' (G_OBJ_REF env ''blindtransferindication'') SCCP_CONFIG_DATATYPE_GENERIC SCCP_CONFIG_FLAG_NONE SCCP_CONFIG_NOUPDATENEEDED (Some ''ring'') (Some sccp_config_parse_blindtransferindication),
    option_entry ''cfwdall'' (G_OBJ_REF env ''cfwdall'') SCCP_CONFIG_DATATYPE_BOOLEAN SCCP_CONFIG_FLAG_NONE SCCP_CONFIG_NEEDDEVICERESET (Some ''on'') None,
    option_entry ''cfwdbusy'' (G_OBJ_REF env ''cfwdbusy'') SCCP_CONFIG_DATATYPE_BOOLEAN SCCP_CONFIG_FLAG_NONE SCCP_CONFIG_NEEDDEVICERESET (Some ''on'') None,
    option_entry ''cfwdnoanswer'' (G_OBJ_REF env ''cfwdnoanswer'') SCCP_CONFIG_DATATYPE_BOOLEAN SCCP_CONFIG_FLAG_NONE SCCP_CONFIG_NEEDDEVICERESET (Some ''on'') None,
    option_entry ''nat'' (G_OBJ_REF env ''nat'') SCCP_CONFIG_DATATYPE_BOOLEAN SCCP_CONFIG_FLAG_NONE SCCP_CONFIG_NEEDDEVICERESET (Some ''off'') None,
    option_entry ''directrtp'' (G_OBJ_REF env ''directrtp'') SCCP_CONFIG_DATATYPE_BOOLEAN SCCP_CONFIG_FLAG_NONE SCCP_CONFIG_NOUPDATENEEDED (Some ''off'') None,
    option_entry ''allowoverlap'' (G_OBJ_REF env ''useoverlap'') SCCP_CONFIG_DATATYPE_BOOLEAN SCCP_CONFIG_FLAG_NONE SCCP_CONFIG_NOUPDATENEEDED (Some ''off '') None,
    option_entry ''callgroup'' (G_OBJ_REF env ''callgroup'') SCCP_CONFIG_DATATYPE_GENERIC SCCP_CONFIG_FLAG_NONE SCCP_CONFIG_NOUPDATENEEDED (Some '''') (Some sccp_config_parse_group),
    option_entry ''pickupgroup'' (G_OBJ_REF env ''pickupgroup'') SCCP_CONFIG_DATATYPE_GENERIC SCCP_CONFIG_FLAG_NONE SCCP_CONFIG_NOUPDATENEEDED (Some '''') (Some sccp_config_parse_group),
    option_entry ''pickupmodeanswer'' (G_OBJ_REF env ''pickupmodeanswer'') SCCP_CONFIG_DATATYPE_BOOLEAN SCCP_CONFIG_FLAG_NONE SCCP_CONFIG_NOUPDATENEEDED (Some '''') None,
    option_entry ''amaflags'' (G_OBJ_REF env ''amaflags'') SCCP_CONFIG_DATATYPE_GENERIC SCCP_CONFIG_FLAG_NONE SCCP_CONFIG_NOUPDATENEEDED (Some '''') (Some sccp_config_parse_amaflags),
    option_entry ''protocolversion'' (G_OBJ_REF env ''protocolversion'') SCCP_CONFIG_DATATYPE_GENERIC SCCP_CONFIG_FLAG_OBSOLETE SCCP_CONFIG_NOUPDATENEEDED (Some ''20'') None,
    option_entry ''callanswerorder'' (G_OBJ_REF env ''callanswerorder'') SCCP_CONFIG_DATATYPE_GENERIC SCCP_CONFIG_FLAG_NONE SCCP_CONFIG_NOUPDATENEEDED (Some ''oldestfirst'') (Some sccp_config_parse_callanswerorder),
    option_entry ''regcontext'' (G_OBJ_REF env ''regcontext'') SCCP_CONFIG_DATATYPE_STRING SCCP_CONFIG_FLAG_NONE SCCP_CONFIG_NEEDDEVICERESET (Some ''sccpregistration'') (Some sccp_config_parse_regcontext),
    option_entry ''devicetable'' (G_OBJ_REF env ''realtimedevicetable'') SCCP_CONFIG_DATATYPE_STRING SCCP_CONFIG_FLAG_NONE SCCP_CONFIG_NOUPDATENEEDED (Some ''sccpdevice'') None,
    option_entry ''linetable'' (G_OBJ_REF env ''realtimelinetable'') SCCP_CONFIG_DATATYPE_STRING SCCP_CONFIG_FLAG_NONE SCCP_CONFIG_NOUPDATENEEDED (Some ''sccpline'') None,
    option_entry ''meetme'' (G_OBJ_REF env ''meetme'') SCCP_CONFIG_DATATYPE_BOOLEAN SCCP_CONFIG_FLAG_NONE SCCP_CONFIG_NOUPDATENEEDED (Some ''on'') None,
    option_entry ''meetmeopts'' (G_OBJ_REF env ''meetmeopts'') SCCP_CONFIG_DATATYPE_STRING SCCP_CONFIG_FLAG_NONE SCCP_CONFIG_NOUPDATENEEDED (Some ''qxd'') None,
    option_entry ''hotline_enabled'' (G_OBJ_REF env ''allowAnonymous'') SCCP_CONFIG_DATATYPE_BOOLEAN SCCP_CONFIG_FLAG_NONE SCCP_CONFIG_NOUPDATENEEDED (Some ''no'') None,
    option_entry ''fallback'' (G_OBJ_REF env ''token_fallback'') SCCP_CONFIG_DATATYPE_STRING SCCP_CONFIG_FLAG_NONE SCCP_CONFIG_NOUPDATENEEDED (Some ''false'') None,
    option_entry ''backoff_time'' (G_OBJ_REF env ''token_backoff_time'') SCCP_CONFIG_DATATYPE_INT SCCP_CONFIG_FLAG_NONE SCCP_CONFIG_NOUPDATENEEDED (Some ''60'') None]"

definition sccpDeviceConfigOptions :: "'g pbx_env \<Rightarrow> SCCPConfigOption list" where
  "sccpDeviceConfigOptions env = [
    option_entry ''name'' ((0, 0)) SCCP_CONFIG_DATATYPE_STRING SCCP_CONFIG_FLAG_IGNORE SCCP_CONFIG_NOUPDATENEEDED None None,
    option_entry ''type'' ((0, 0)) SCCP_CONFIG_DATATYPE_STRING SCCP_CONFIG_FLAG_IGNORE SCCP_CONFIG_NOUPDATENEEDED None None,
    option_entry ''device'' (D_OBJ_REF env ''config_type'') SCCP_CONFIG_DATATYPE_STRING SCCP_CONFIG_FLAG_NONE SCCP_CONFIG_NEEDDEVICERESET None None,
    option_entry ''devicetype'' (D_OBJ_REF env ''config_type'') SCCP_CONFIG_DATATYPE_STRING SCCP_CONFIG_FLAG_NONE SCCP_CONFIG_NEEDDEVICERESET None None,
    option_entry ''type'' (D_OBJ_REF env ''config_type'') SCCP_CONFIG_DATATYPE_STRING SCCP_CONFIG_FLAG_NONE SCCP_CONFIG_NEEDDEVICERESET None None,
    option_entry ''description'' (D_OBJ_REF env ''description'') SCCP_CONFIG_DATATYPE_STRING SCCP_CONFIG_FLAG_NONE SCCP_CONFIG_NEEDDEVICERESET None None,
    option_entry ''keepalive'' (D_OBJ_REF env ''keepalive'') SCCP_CONFIG_DATATYPE_INT SCCP_CONFIG_FLAG_GET_GLOBAL_DEFAULT SCCP_CONFIG_NEEDDEVICERESET None None,
    option_entry ''tzoffset'' (D_OBJ_REF env ''tz_offset'') SCCP_CONFIG_DATATYPE_INT SCCP_CONFIG_FLAG_NONE SCCP_CONFIG_NEEDDEVICERESET (Some ''0'') None,
    option_entry ''disallow'' (D_OBJ_REF env ''preferences'') SCCP_CONFIG_DATATYPE_GENERIC SCCP_CONFIG_FLAG_GET_GLOBAL_DEFAULT SCCP_CONFIG_NOUPDATENEEDED None (Some sccp_config_parse_disallow_codec),
    option_entry ''allow'' (D_OBJ_REF env ''preferences'') SCCP_CONFIG_DATATYPE_GENERIC SCCP_CONFIG_FLAG_GET_GLOBAL_DEFAULT SCCP_CONFIG_NOUPDATENEEDED None (Some sccp_config_parse_allow_codec),
    option_entry ''transfer'' (D_OBJ_REF env ''transfer'') SCCP_CONFIG_DATATYPE_BOOLEAN SCCP_CONFIG_FLAG_NONE SCCP_CONFIG_NOUPDATENEEDED (Some ''on'') None,
    option_entry ''park'' (D_OBJ_REF env ''park'') SCCP_CONFIG_DATATYPE_BOOLEAN SCCP_CONFIG_FLAG_NONE SCCP_CONFIG_NOUPDATENEEDED (Some ''on'') None,
    option_entry ''cfwdall'' (D_OBJ_REF env ''cfwdall'') SCCP_CONFIG_DATATYPE_BOOLEAN SCCP_CONFIG_FLAG_GET_GLOBAL_DEFAULT SCCP_CONFIG_NOUPDATENEEDED (Some ''off'') None,
    option_entry ''cfwdbusy'' (D_OBJ_REF env ''cfwdbusy'') SCCP_CONFIG_DATATYPE_BOOLEAN SCCP_CONFIG_FLAG_GET_GLOBAL_DEFAULT SCCP_CONFIG_NOUPDATENEEDED (Some ''off'') None,
    option_entry ''cfwdnoanswer'' (D_OBJ_REF env ''cfwdnoanswer'') SCCP_CONFIG_DATATYPE_BOOLEAN SCCP_CONFIG_FLAG_GET_GLOBAL_DEFAULT SCCP_CONFIG_NOUPDATENEEDED (Some ''off'') None,
    option_entry ''dnd'' (D_OBJ_REF env ''dndFeature.enabled'') SCCP_CONFIG_DATATYPE_BOOLEAN SCCP_CONFIG_FLAG_OBSOLETE SCCP_CONFIG_NOUPDATENEEDED None None,
    option_entry ''dndFeature'' (D_OBJ_REF env ''dndFeature.enabled'') SCCP_CONFIG_DATATYPE_BOOLEAN SCCP_CONFIG_FLAG_NONE SCCP_CONFIG_NOUPDATENEEDED (Some ''on'') None,
    option_entry ''dtmfmode'' (D_OBJ_REF env ''dtmfmode'') SCCP_CONFIG_DATATYPE_GENERIC SCCP_CONFIG_FLAG_GET_GLOBAL_DEFAULT SCCP_CONFIG_NOUPDATENEEDED (Some ''inband'') (Some sccp_config_parse_dtmfmode),
    option_entry ''imageversion'' (D_OBJ_REF env ''imageversion'') SCCP_CONFIG_DATATYPE_STRING SCCP_CONFIG_FLAG_GET_GLOBAL_DEFAULT SCCP_CONFIG_NEEDDEVICERESET None None,
    option_entry ''deny'' (D_OBJ_REF env ''ha'') SCCP_CONFIG_DATATYPE_GENERIC SCCP_CONFIG_FLAG_GET_GLOBAL_DEFAULT SCCP_CONFIG_NEEDDEVICERESET None (Some sccp_config_parse_deny),
    option_entry ''permit'' (D_OBJ_REF env ''ha'') SCCP_CONFIG_DATATYPE_GENERIC SCCP_CONFIG_FLAG_GET_GLOBAL_DEFAULT SCCP_CONFIG_NEEDDEVICERESET None (Some sccp_config_parse_permit),
    option_entry ''audio_tos'' (D_OBJ_REF env ''audio_tos'') SCCP_CONFIG_DATATYPE_GENERIC SCCP_CONFIG_FLAG_GET_DEVICE_DEFAULT SCCP_CONFIG_NEEDDEVICERESET None (Some sccp_config_parse_tos),
    option_entry ''audio_cos'' (D_OBJ_REF env ''audio_cos'') SCCP_CONFIG_DATATYPE_GENERIC SCCP_CONFIG_FLAG_GET_DEVICE_DEFAULT SCCP_CONFIG_NEEDDEVICERESET None (Some sccp_config_parse_cos),
    option_entry ''video_tos'' (D_OBJ_REF env ''video_tos'') SCCP_CONFIG_DATATYPE_GENERIC SCCP_CONFIG_FLAG_GET_DEVICE_DEFAULT SCCP_CONFIG_NEEDDEVICERESET None (Some sccp_config_parse_tos),
    option_entry ''video_cos'' (D_OBJ_REF env ''video_cos'') SCCP_CONFIG_DATATYPE_GENERIC SCCP_CONFIG_FLAG_GET_DEVICE_DEFAULT SCCP_CONFIG_NEEDDEVICERESET None (Some sccp_config_parse_cos),
    option_entry ''trustphoneip'' (D_OBJ_REF env ''trustphoneip'') SCCP_CONFIG_DATATYPE_BOOLEAN SCCP_CONFIG_FLAG_GET_GLOBAL_DEFAULT SCCP_CONFIG_NEEDDEVICERESET None None,
    option_entry ''nat'' (D_OBJ_REF env ''nat'') SCCP_CONFIG_DATATYPE_BOOLEAN (SCCP_CONFIG_FLAG_DEPRECATED OR SCCP_CONFIG_FLAG_GET_GLOBAL_DEFAULT) SCCP_CONFIG_NOUPDATENEEDED None None,
    option_entry ''directrtp'' (D_OBJ_REF env ''directrtp'') SCCP_CONFIG_DATATYPE_BOOLEAN SCCP_CONFIG_FLAG_GET_GLOBAL_DEFAULT SCCP_CONFIG_NOUPDATENEEDED None None,
    option_entry ''earlyrtp'' (D_OBJ_REF env ''earlyrtp'') SCCP_CONFIG_DATATYPE_GENERIC SCCP_CONFIG_FLAG_GET_GLOBAL_DEFAULT SCCP_CONFIG_NOUPDATENEEDED None (Some sccp_config_parse_earlyrtp),
    option_entry ''private'' (D_OBJ_REF env ''privacyFeature.enabled'') SCCP_CONFIG_DATATYPE_BOOLEAN SCCP_CONFIG_FLAG_GET_GLOBAL_DEFAULT SCCP_CONFIG_NOUPDATENEEDED None None,
    option_entry ''privacy'' (D_OBJ_REF env ''privacyFeature'') SCCP_CONFIG_DATATYPE_GENERIC SCCP_CONFIG_FLAG_NONE SCCP_CONFIG_NOUPDATENEEDED None (Some sccp_config_parse_privacyFeature),
    option_entry ''mwilamp'' (D_OBJ_REF env ''mwilamp'') SCCP_CONFIG_DATATYPE_GENERIC SCCP_CONFIG_FLAG_GET_GLOBAL_DEFAULT SCCP_CONFIG_NOUPDATENEEDED None (Some sccp_config_parse_mwilamp),
    option_entry ''mwioncall'' (D_OBJ_REF env ''mwioncall'') SCCP_CONFIG_DATATYPE_BOOLEAN SCCP_CONFIG_FLAG_GET_GLOBAL_DEFAULT SCCP_CONFIG_NOUPDATENEEDED None None,
    option_entry ''meetme'' (D_OBJ_REF env ''meetme'') SCCP_CONFIG_DATATYPE_BOOLEAN SCCP_CONFIG_FLAG_GET_GLOBAL_DEFAULT SCCP_CONFIG_NOUPDATENEEDED None None,
    option_entry ''meetmeopts'' (D_OBJ_REF env ''meetmeopts'') SCCP_CONFIG_DATATYPE_STRING SCCP_CONFIG_FLAG_GET_GLOBAL_DEFAULT SCCP_CONFIG_NOUPDATENEEDED None None,
    option_entry ''softkeyset'' (D_OBJ_REF env ''softkeyDefinition'') SCCP_CONFIG_DATATYPE_STRING SCCP_CONFIG_FLAG_NONE SCCP_CONFIG_NEEDDEVICERESET None None,
    option_entry ''useRedialMenu'' (D_OBJ_REF env ''useRedialMenu'') SCCP_CONFIG_DATATYPE_BOOLEAN SCCP_CONFIG_FLAG_NONE SCCP_CONFIG_NOUPDATENEEDED (Some ''off'') None,
    option_entry ''pickupexten'' (D_OBJ_REF env ''pickupexten'') SCCP_CONFIG_DATATYPE_BOOLEAN SCCP_CONFIG_FLAG_NONE SCCP_CONFIG_NOUPDATENEEDED (Some ''off'') None,
    option_entry ''pickupcontext'' (D_OBJ_REF env ''pickupcontext'') SCCP_CONFIG_DATATYPE_GENERIC SCCP_CONFIG_FLAG_NONE SCCP_CONFIG_NOUPDATENEEDED (Some ''sccp'') (Some sccp_config_parse_context),
    option_entry ''pickupmodeanswer'' (D_OBJ_REF env ''pickupmodeanswer'') SCCP_CONFIG_DATATYPE_BOOLEAN SCCP_CONFIG_FLAG_NONE SCCP_CONFIG_NOUPDATENEEDED (Some ''on'') None,
    option_entry ''monitor'' (D_OBJ_REF env ''monitorFeature.enabled'') SCCP_CONFIG_DATATYPE_BOOLEAN SCCP_CONFIG_FLAG_NONE SCCP_CONFIG_NOUPDATENEEDED None None,
    option_entry ''allowoverlap'' (D_OBJ_REF env ''overlapFeature.enabled'') SCCP_CONFIG_DATATYPE_BOOLEAN SCCP_CONFIG_FLAG_NONE SCCP_CONFIG_NOUPDATENEEDED None None,
    option_entry ''setvar'' (D_OBJ_REF env ''variables'') SCCP_CONFIG_DATATYPE_GENERIC SCCP_CONFIG_FLAG_NONE SCCP_CONFIG_NOUPDATENEEDED None (Some sccp_config_parse_variables),
    option_entry ''permithost'' (D_OBJ_REF env ''permithosts'') SCCP_CONFIG_DATATYPE_GENERIC SCCP_CONFIG_FLAG_NONE SCCP_CONFIG_NEEDDEVICERESET None (Some sccp_config_parse_permithosts),
    option_entry ''addon'' (D_OBJ_REF env ''addons'') SCCP_CONFIG_DATATYPE_GENERIC SCCP_CONFIG_FLAG_NONE SCCP_CONFIG_NEEDDEVICERESET None (Some sccp_config_parse_addons),
    option_entry ''dtmfmode'' (D_OBJ_REF env ''dtmfmode'') SCCP_CONFIG_DATATYPE_GENERIC SCCP_CONFIG_FLAG_GET_GLOBAL_DEFAULT SCCP_CONFIG_NOUPDATENEEDED None (Some sccp_config_parse_dtmfmode),
    option_entry ''button'' (D_OBJ_REF env ''buttonconfig'') SCCP_CONFIG_DATATYPE_GENERIC SCCP_CONFIG_FLAG_NONE SCCP_CONFIG_NEEDDEVICERESET None (Some sccp_config_parse_button),
    option_entry ''digittimeout'' (D_OBJ_REF env ''digittimeout'') SCCP_CONFIG_DATATYPE_GENERIC SCCP_CONFIG_FLAG_GET_GLOBAL_DEFAULT SCCP_CONFIG_NOUPDATENEEDED (Some ''8'') (Some sccp_config_parse_smallint)]"

definition sccpLineConfigOptions :: "'g pbx_env \<Rightarrow> SCCPConfigOption list" where
  "sccpLineConfigOptions env = [
    option_entry ''name'' ((0, 0)) SCCP_CONFIG_DATATYPE_STRING SCCP_CONFIG_FLAG_IGNORE SCCP_CONFIG_NOUPDATENEEDED None None,
    option_entry ''line'' ((0, 0)) SCCP_CONFIG_DATATYPE_STRING SCCP_CONFIG_FLAG_IGNORE SCCP_CONFIG_NOUPDATENEEDED None None,
    option_entry ''type'' ((0, 0)) SCCP_CONFIG_DATATYPE_STRING SCCP_CONFIG_FLAG_IGNORE SCCP_CONFIG_NOUPDATENEEDED None None,
    option_entry ''id'' (L_OBJ_REF env ''id'') SCCP_CONFIG_DATATYPE_STRING SCCP_CONFIG_FLAG_NONE SCCP_CONFIG_NOUPDATENEEDED None None,
    option_entry ''pin'' (L_OBJ_REF env ''pin'') SCCP_CONFIG_DATATYPE_STRING SCCP_CONFIG_FLAG_REQUIRED SCCP_CONFIG_NOUPDATENEEDED None None,
    option_entry ''label'' (L_OBJ_REF env ''label'') SCCP_CONFIG_DATATYPE_STRING SCCP_CONFIG_FLAG_REQUIRED SCCP_CONFIG_NEEDDEVICERESET None None,
    option_entry ''description'' (L_OBJ_REF env ''description'') SCCP_CONFIG_DATATYPE_STRING SCCP_CONFIG_FLAG_NONE SCCP_CONFIG_NOUPDATENEEDED None None,
    option_entry ''context'' (L_OBJ_REF env ''context'') SCCP_CONFIG_DATATYPE_STRING SCCP_CONFIG_FLAG_GET_GLOBAL_DEFAULT SCCP_CONFIG_NOUPDATENEEDED None None,
    option_entry ''cid_name'' (L_OBJ_REF env ''cid_name'') SCCP_CONFIG_DATATYPE_STRING SCCP_CONFIG_FLAG_REQUIRED SCCP_CONFIG_NOUPDATENEEDED None None,
    option_entry ''cid_num'' (L_OBJ_REF env ''cid_num'') SCCP_CONFIG_DATATYPE_STRING SCCP_CONFIG_FLAG_REQUIRED SCCP_CONFIG_NOUPDATENEEDED None None,
    option_entry ''defaultSubscriptionId_name'' (L_OBJ_REF env ''defaultSubscriptionId.name'') SCCP_CONFIG_DATATYPE_STRING SCCP_CONFIG_FLAG_NONE SCCP_CONFIG_NOUPDATENEEDED None None,
    option_entry ''defaultSubscriptionId_number'' (L_OBJ_REF env ''defaultSubscriptionId.number'') SCCP_CONFIG_DATATYPE_STRING SCCP_CONFIG_FLAG_NONE SCCP_CONFIG_NOUPDATENEEDED None None,
    option_entry ''callerid'' ((0, 0)) SCCP_CONFIG_DATATYPE_STRING SCCP_CONFIG_FLAG_OBSOLETE SCCP_CONFIG_NOUPDATENEEDED None None,
    option_entry ''mailbox'' (L_OBJ_REF env ''mailboxes'') SCCP_CONFIG_DATATYPE_GENERIC SCCP_CONFIG_FLAG_NONE SCCP_CONFIG_NOUPDATENEEDED None (Some sccp_config_parse_mailbox),
    option_entry ''vmnum'' (L_OBJ_REF env ''vmnum'') SCCP_CONFIG_DATATYPE_STRING SCCP_CONFIG_FLAG_NONE SCCP_CONFIG_NOUPDATENEEDED None None,
    option_entry ''adhocNumber'' (L_OBJ_REF env ''adhocNumber'') SCCP_CONFIG_DATATYPE_STRING SCCP_CONFIG_FLAG_NONE SCCP_CONFIG_NOUPDATENEEDED None None,
    option_entry ''meetme'' (L_OBJ_REF env ''meetme'') SCCP_CONFIG_DATATYPE_BOOLEAN SCCP_CONFIG_FLAG_GET_DEVICE_DEFAULT SCCP_CONFIG_NOUPDATENEEDED None None,
    option_entry ''meetmenum'' (L_OBJ_REF env ''meetmenum'') SCCP_CONFIG_DATATYPE_STRING SCCP_CONFIG_FLAG_GET_GLOBAL_DEFAULT SCCP_CONFIG_NOUPDATENEEDED None None,
    option_entry ''meetmeopts'' (L_OBJ_REF env ''meetmeopts'') SCCP_CONFIG_DATATYPE_STRING SCCP_CONFIG_FLAG_GET_DEVICE_DEFAULT SCCP_CONFIG_NOUPDATENEEDED None None,
    option_entry ''transfer'' (L_OBJ_REF env ''transfer'') SCCP_CONFIG_DATATYPE_BOOLEAN SCCP_CONFIG_FLAG_GET_DEVICE_DEFAULT SCCP_CONFIG_NOUPDATENEEDED None None,
    option_entry ''incominglimit'' (L_OBJ_REF env ''incominglimit'') SCCP_CONFIG_DATATYPE_INT SCCP_CONFIG_FLAG_NONE SCCP_CONFIG_NOUPDATENEEDED None None,
    option_entry ''echocancel'' (L_OBJ_REF env ''echocancel'') SCCP_CONFIG_DATATYPE_BOOLEAN SCCP_CONFIG_FLAG_GET_GLOBAL_DEFAULT SCCP_CONFIG_NOUPDATENEEDED None None,
    option_entry ''silencesuppression'' (L_OBJ_REF env ''silencesuppression'') SCCP_CONFIG_DATATYPE_BOOLEAN SCCP_CONFIG_FLAG_GET_GLOBAL_DEFAULT SCCP_CONFIG_NOUPDATENEEDED None None,
    option_entry ''language'' (L_OBJ_REF env ''language'') SCCP_CONFIG_DATATYPE_STRING SCCP_CONFIG_FLAG_GET_GLOBAL_DEFAULT SCCP_CONFIG_NOUPDATENEEDED None None,
    option_entry ''musicclass'' (L_OBJ_REF env ''musicclass'') SCCP_CONFIG_DATATYPE_STRING SCCP_CONFIG_FLAG_GET_GLOBAL_DEFAULT SCCP_CONFIG_NOUPDATENEEDED None None,
    option_entry ''accountcode'' (L_OBJ_REF env ''accountcode'') SCCP_CONFIG_DATATYPE_STRING SCCP_CONFIG_FLAG_NONE SCCP_CONFIG_NOUPDATENEEDED None None,
    option_entry ''amaflags'' (L_OBJ_REF env ''amaflags'') SCCP_CONFIG_DATATYPE_GENERIC SCCP_CONFIG_FLAG_NONE SCCP_CONFIG_NOUPDATENEEDED None (Some sccp_config_parse_amaflags),
    option_entry ''callgroup'' (L_OBJ_REF env ''callgroup'') SCCP_CONFIG_DATATYPE_GENERIC SCCP_CONFIG_FLAG_NONE SCCP_CONFIG_NOUPDATENEEDED None (Some sccp_config_parse_group),
    option_entry ''pickupgroup'' (L_OBJ_REF env ''pickupgroup'') SCCP_CONFIG_DATATYPE_GENERIC SCCP_CONFIG_FLAG_NONE SCCP_CONFIG_NOUPDATENEEDED None (Some sccp_config_parse_group),
    option_entry ''trnsfvm'' (L_OBJ_REF env ''trnsfvm'') SCCP_CONFIG_DATATYPE_STRINGPTR SCCP_CONFIG_FLAG_NONE SCCP_CONFIG_NOUPDATENEEDED None None,
    option_entry ''secondary_dialtone_digits'' (L_OBJ_REF env ''secondary_dialtone_digits'') SCCP_CONFIG_DATATYPE_GENERIC SCCP_CONFIG_FLAG_NONE SCCP_CONFIG_NOUPDATENEEDED (Some ''9'') (Some sccp_config_parse_secondaryDialtoneDigits),
    option_entry ''secondary_dialtone_tone'' (L_OBJ_REF env ''secondary_dialtone_tone'') SCCP_CONFIG_DATATYPE_INT SCCP_CONFIG_FLAG_NONE SCCP_CONFIG_NOUPDATENEEDED (Some ''0x22'') None,
    option_entry ''setvar'' (L_OBJ_REF env ''variables'') SCCP_CONFIG_DATATYPE_GENERIC SCCP_CONFIG_FLAG_NONE SCCP_CONFIG_NOUPDATENEEDED None (Some sccp_config_parse_variables),
    option_entry ''dnd'' (L_OBJ_REF env ''dndmode'') SCCP_CONFIG_DATATYPE_GENERIC SCCP_CONFIG_FLAG_GET_GLOBAL_DEFAULT SCCP_CONFIG_NOUPDATENEEDED (Some ''reject'') (Some sccp_config_parse_dnd),
    option_entry ''regexten'' (L_OBJ_REF env ''regexten'') SCCP_CONFIG_DATATYPE_STRING SCCP_CONFIG_FLAG_NONE SCCP_CONFIG_NOUPDATENEEDED None None,
    option_entry ''test1'' (L_OBJ_REF env ''regexten'') SCCP_CONFIG_DATATYPE_STRING SCCP_CONFIG_FLAG_OBSOLETE SCCP_CONFIG_NOUPDATENEEDED None None,
    option_entry ''test2'' (L_OBJ_REF env ''regexten'') SCCP_CONFIG_DATATYPE_STRING SCCP_CONFIG_FLAG_DEPRECATED SCCP_CONFIG_NOUPDATENEEDED None None]"

definition sccpSoftKeyConfigOptions :: "'g pbx_env \<Rightarrow> SCCPConfigOption list" where
  "sccpSoftKeyConfigOptions env = [
    option_entry ''type'' ((0, 0)) SCCP_CONFIG_DATATYPE_STRING SCCP_CONFIG_FLAG_IGNORE SCCP_CONFIG_NOUPDATENEEDED (Some ''softkeyset'') None,
    option_entry ''name'' (S_OBJ_REF env ''name'') SCCP_CONFIG_DATATYPE_STRING SCCP_CONFIG_FLAG_NONE SCCP_CONFIG_NOUPDATENEEDED None None,
    option_entry ''connected'' (S_OBJ_REF env ''modes[0]'') SCCP_CONFIG_DATATYPE_STRING SCCP_CONFIG_FLAG_NONE SCCP_CONFIG_NOUPDATENEEDED (Some ''hold,endcall,park,select,cfwdall,cfwdbusy,idivert'') None,
    option_entry ''onhold'' (S_OBJ_REF env ''modes[1]'') SCCP_CONFIG_DATATYPE_STRING SCCP_CONFIG_FLAG_NONE SCCP_CONFIG_NOUPDATENEEDED (Some ''resume,newcall,endcall,transfer,conflist,select,dirtrfr,idivert,meetme'') None,
    option_entry ''ringin'' (S_OBJ_REF env ''modes[2]'') SCCP_CONFIG_DATATYPE_STRING SCCP_CONFIG_FLAG_NONE SCCP_CONFIG_NOUPDATENEEDED (Some ''answer,endcall,transvm,idivert'') None,
    option_entry ''offhook'' (S_OBJ_REF env ''modes[3]'') SCCP_CONFIG_DATATYPE_STRING SCCP_CONFIG_FLAG_NONE SCCP_CONFIG_NOUPDATENEEDED (Some ''redial,endcall,private,cfwdall,cfwdbusy,pickup,gpickup,meetme,barge'') None,
    option_entry ''conntrans'' (S_OBJ_REF env ''modes[4]'') SCCP_CONFIG_DATATYPE_STRING SCCP_CONFIG_FLAG_NONE SCCP_CONFIG_NOUPDATENEEDED (Some ''hold,endcall,transfer,conf,park,select,dirtrfr,meetme,cfwdall,cfwdbusy'') None,
    option_entry ''digitsfoll'' (S_OBJ_REF env ''modes[5]'') SCCP_CONFIG_DATATYPE_STRING SCCP_CONFIG_FLAG_NONE SCCP_CONFIG_NOUPDATENEEDED (Some ''back,endcall'') None,
    option_entry ''connconf'' (S_OBJ_REF env ''modes[6]'') SCCP_CONFIG_DATATYPE_STRING SCCP_CONFIG_FLAG_NONE SCCP_CONFIG_NOUPDATENEEDED (Some ''conflist,endcall,join,hold'') None,
    option_entry ''ringout'' (S_OBJ_REF env ''modes[7]'') SCCP_CONFIG_DATATYPE_STRING SCCP_CONFIG_FLAG_NONE SCCP_CONFIG_NOUPDATENEEDED (Some ''endcall,transfer,cfwdall,idivert'') None,
    option_entry ''offhookfeat'' (S_OBJ_REF env ''modes[8]'') SCCP_CONFIG_DATATYPE_STRING SCCP_CONFIG_FLAG_NONE SCCP_CONFIG_NOUPDATENEEDED (Some ''redial,endcall'') None,
    option_entry ''onhint'' (S_OBJ_REF env ''modes[9]'') SCCP_CONFIG_DATATYPE_STRING SCCP_CONFIG_FLAG_NONE SCCP_CONFIG_NOUPDATENEEDED (Some ''newcall,pickup,barge'') None,
    option_entry ''onstealable'' (S_OBJ_REF env ''modes[10]'') SCCP_CONFIG_DATATYPE_STRING SCCP_CONFIG_FLAG_NONE SCCP_CONFIG_NOUPDATENEEDED (Some ''redial,newcall,cfwdall,pickup,gpickup,dnd,intrcpt'') None]"
subsection \<open>Segments and lookup\<close>

record SCCPConfigSegment =
  seg_name :: string
  seg_segment :: sccp_config_segment_t
  seg_config :: "SCCPConfigOption list"

definition sccpConfigSegments :: "'g pbx_env \<Rightarrow> SCCPConfigSegment list" where
  "sccpConfigSegments env = [
     \<lparr>seg_name = ''global'', seg_segment = SCCP_CONFIG_GLOBAL_SEGMENT, seg_config = sccpGlobalConfigOptions env\<rparr>,
     \<lparr>seg_name = ''device'', seg_segment = SCCP_CONFIG_DEVICE_SEGMENT, seg_config = sccpDeviceConfigOptions env\<rparr>,
     \<lparr>seg_name = ''line'', seg_segment = SCCP_CONFIG_LINE_SEGMENT, seg_config = sccpLineConfigOptions env\<rparr>,
     \<lparr>seg_name = ''softkey'', seg_segment = SCCP_CONFIG_SOFTKEY_SEGMENT, seg_config = sccpSoftKeyConfigOptions env\<rparr>]"

definition sccp_find_segment :: "'g pbx_env \<Rightarrow> sccp_config_segment_t \<Rightarrow> SCCPConfigSegment option" where
  "sccp_find_segment env segment = find (\<lambda>s. seg_segment s = segment) (sccpConfigSegments env)"

text \<open>
  \<^verbatim>\<open>sccp_find_config\<close> uses the segment without a check; every segment is in the table
  (lemma \<open>sccp_find_segment_total\<close>), so the first case below never occurs.
\<close>

definition sccp_find_config :: "'g pbx_env \<Rightarrow> sccp_config_segment_t \<Rightarrow> string \<Rightarrow> SCCPConfigOption option" where
  "sccp_find_config env segment name =
     (case sccp_find_segment env segment of
        None \<Rightarrow> None
      | Some sg \<Rightarrow> find (\<lambda>c. \<not> strcasecmp (opt_name c) name) (seg_config sg))"

subsection \<open>Live objects\<close>

text \<open>
  The option tables address the members of a live object (the global settings, a device
  or a line) by offset, and \<^verbatim>\<open>sccp_config_object_setValue\<close> reads and writes the member
  at the type of the option. The structures are not among the sources. An object is
  modelled by what is stored at each offset for each of the six data types; views of one
  offset at two different data types are kept apart.
  \<open>device_id\<close> is the string that \<^verbatim>\<open>((sccp_device_t *) obj)->id\<close> reads.
\<close>

record 'g sccp_object =
  device_id :: string
  pendingDelete :: bool
  char_at :: "int \<Rightarrow> char"
  string_at :: "int \<Rightarrow> string"
  stringptr_at :: "int \<Rightarrow> string option"
  int_at :: "int \<Rightarrow> int"
  boolean_at :: "int \<Rightarrow> int"
  generic_at :: "int \<Rightarrow> 'g"

subsection \<open>\<^verbatim>\<open>sccp_config_object_setValue\<close>\<close>

text \<open>
  The second \<^verbatim>\<open>switch\<close> of the function, on the data type. The result is the object
  and the two local variables \<^verbatim>\<open>changed\<close> and \<^verbatim>\<open>changes\<close> as they stand after the
  \<^verbatim>\<open>switch\<close>; \<open>changed0\<close> and \<open>changes0\<close> are their values before it. A string option
  passes \<^verbatim>\<open>value\<close> to \<^verbatim>\<open>strcasecmp\<close> unchecked.
\<close>

definition setValue_by_type ::
  "'g pbx_env \<Rightarrow> 'g sccp_object \<Rightarrow> SCCPConfigOption \<Rightarrow> string option \<Rightarrow> sccp_config_segment_t \<Rightarrow>
   int \<Rightarrow> int \<Rightarrow> ('g sccp_object \<times> int \<times> int) option" where
  "setValue_by_type env obj opt val segment changed0 changes0 =
     (let dst = opt_offset opt;
          CHANGED = value_changed_int env SCCP_CONFIG_CHANGE_CHANGED
      in case opt_type opt of
        SCCP_CONFIG_DATATYPE_CHAR \<Rightarrow>
          (case val of
             Some (c # _) \<Rightarrow>
               if char_at obj dst \<noteq> c
               then Some (obj\<lparr>char_at := (char_at obj)(dst := c)\<rparr>, changed0, CHANGED)
               else Some (obj, changed0, changes0)
           | _ \<Rightarrow> Some (obj, changed0, changes0))
      | SCCP_CONFIG_DATATYPE_STRING \<Rightarrow>
          (case val of
             None \<Rightarrow> None
           | Some v \<Rightarrow>
               if strcasecmp (string_at obj dst) v
               then Some (obj\<lparr>string_at := (string_at obj)(dst := pbx_copy_string v (opt_size opt))\<rparr>,
                          changed0, CHANGED)
               else Some (obj, changed0, changes0))
      | SCCP_CONFIG_DATATYPE_STRINGPTR \<Rightarrow>
          (let NOCHANGE = value_changed_int env SCCP_CONFIG_CHANGE_NOCHANGE;
               str = stringptr_at obj dst
           in case val of
                Some (c # cs) \<Rightarrow>
                  (case str of
                     Some s \<Rightarrow>
                       if strcasecmp s (c # cs)
                       then Some (obj\<lparr>stringptr_at := (stringptr_at obj)(dst := Some (c # cs))\<rparr>, CHANGED, changes0)
                       else Some (obj, NOCHANGE, changes0)
                   | None \<Rightarrow>
                       Some (obj\<lparr>stringptr_at := (stringptr_at obj)(dst := Some (c # cs))\<rparr>, CHANGED, changes0))
              | _ \<Rightarrow>
                  if \<not> sccp_strlen_zero str
                  then Some (obj\<lparr>stringptr_at := (stringptr_at obj)(dst := None)\<rparr>, CHANGED, changes0)
                  else Some (obj, NOCHANGE, changes0))
      | SCCP_CONFIG_DATATYPE_INT \<Rightarrow>
          (case val of
             Some (c # cs) \<Rightarrow>
               (let intnum = atoi (c # cs)
                in if int_at obj dst \<noteq> intnum
                   then Some (obj\<lparr>int_at := (int_at obj)(dst := intnum)\<rparr>, CHANGED, changes0)
                   else Some (obj, changed0, changes0))
           | _ \<Rightarrow> Some (obj, changed0, changes0))
      | SCCP_CONFIG_DATATYPE_BOOLEAN \<Rightarrow>
          (let bool = sccp_true env val
           in if boolean_at obj dst \<noteq> bool
              then Some (obj\<lparr>boolean_at := (boolean_at obj)(dst := sccp_true env val)\<rparr>, CHANGED, changes0)
              else Some (obj, changed0, changes0))
      | SCCP_CONFIG_DATATYPE_GENERIC \<Rightarrow>
          (case opt_converter_f opt of
             Some f \<Rightarrow>
               (let r = converter_f env f (generic_at obj dst) (opt_size opt) val segment
                in Some (obj\<lparr>generic_at := (generic_at obj)(dst := fst r)\<rparr>, snd r, changes0))
           | None \<Rightarrow> Some (obj, changed0, changes0)))"

text \<open>
  The whole function: the lookup, the offset check, the first \<^verbatim>\<open>switch\<close> on the flag
  word (the cases \<^verbatim>\<open>CHANGED\<close> and \<^verbatim>\<open>DEPRECATED\<close> have no \<^verbatim>\<open>break\<close> and run into the
  \<^verbatim>\<open>return\<close> of the case \<^verbatim>\<open>OBSOLETE\<close>), the second \<^verbatim>\<open>switch\<close> and the final test
  of \<^verbatim>\<open>changed\<close>.
\<close>

definition sccp_config_object_setValue ::
  "'g pbx_env \<Rightarrow> 'g sccp_object \<Rightarrow> string \<Rightarrow> string option \<Rightarrow> sccp_config_segment_t \<Rightarrow>
   ('g sccp_object \<times> int) option" where
  "sccp_config_object_setValue env obj name val segment =
     (let changed = value_changed_int env SCCP_CONFIG_CHANGE_NOCHANGE;
          changes = configurationchange_int env SCCP_CONFIG_NOUPDATENEEDED
      in case sccp_find_config env segment name of
        None \<Rightarrow> Some (obj, configurationchange_int env SCCP_CONFIG_NOUPDATENEEDED)
      | Some sccpConfigOption \<Rightarrow>
          if opt_offset sccpConfigOption \<le> 0
            then Some (obj, configurationchange_int env SCCP_CONFIG_NOUPDATENEEDED)
          else if opt_flags sccpConfigOption = SCCP_CONFIG_FLAG_IGNORE
            then Some (obj, configurationchange_int env SCCP_CONFIG_NOUPDATENEEDED)
          else if opt_flags sccpConfigOption = SCCP_CONFIG_FLAG_CHANGED
                \<or> opt_flags sccpConfigOption = SCCP_CONFIG_FLAG_DEPRECATED
                \<or> opt_flags sccpConfigOption = SCCP_CONFIG_FLAG_OBSOLETE
            then Some (obj, configurationchange_int env SCCP_CONFIG_NOUPDATENEEDED)
          else if opt_flags sccpConfigOption = SCCP_CONFIG_FLAG_REQUIRED \<and> val = None
            then Some (obj, value_changed_int env SCCP_CONFIG_CHANGE_INVALIDVALUE)
          else
            (case setValue_by_type env obj sccpConfigOption val segment changed changes of
               None \<Rightarrow> None
             | Some (obj', changed', changes') \<Rightarrow>
                 if value_changed_int env SCCP_CONFIG_CHANGE_CHANGED = changed'
                 then Some (obj', configurationchange_int env (opt_change sccpConfigOption))
                 else Some (obj', changes')))"

subsection \<open>\<^verbatim>\<open>sccp_config_set_defaults\<close>\<close>

text \<open>
  The lookup made by each of the two inheriting cases of the \<^verbatim>\<open>switch\<close>: the key in
  the category \<open>cat\<close> of the configuration file and, when it is absent, the default
  literal of the option of that name in the option table of \<open>source\<close>.
\<close>

definition default_from_segment ::
  "'g pbx_env \<Rightarrow> string \<Rightarrow> sccp_config_segment_t \<Rightarrow> string \<Rightarrow> string option" where
  "default_from_segment env cat source name =
     (case pbx_variable_retrieve env cat name of
        Some v \<Rightarrow> Some v
      | None \<Rightarrow>
          (case sccp_find_config env source name of
             Some sccpDefaultConfigOption \<Rightarrow> opt_defaultValue sccpDefaultConfigOption
           | None \<Rightarrow> None))"

text \<open>
  The \<^verbatim>\<open>switch (flags)\<close> of the loop body. Its cases have no \<^verbatim>\<open>break\<close>: the case
  \<^verbatim>\<open>GET_DEVICE_DEFAULT\<close> runs into the case \<^verbatim>\<open>GET_GLOBAL_DEFAULT\<close>, which assigns
  \<^verbatim>\<open>value\<close> again, and both run into \<^verbatim>\<open>default\<close>. \<open>val\<close> is the variable \<^verbatim>\<open>value\<close> on
  entry.
\<close>

definition default_value_switch ::
  "'g pbx_env \<Rightarrow> 'g sccp_object \<Rightarrow> SCCPConfigOption \<Rightarrow> string option \<Rightarrow> string option" where
  "default_value_switch env obj dst val =
     (let flags = opt_flags dst;
          value1 = (if flags = SCCP_CONFIG_FLAG_GET_DEVICE_DEFAULT
                    then default_from_segment env (device_id obj) SCCP_CONFIG_DEVICE_SEGMENT (opt_name dst)
                    else val);
          value2 = (if flags = SCCP_CONFIG_FLAG_GET_DEVICE_DEFAULT \<or> flags = SCCP_CONFIG_FLAG_GET_GLOBAL_DEFAULT
                    then default_from_segment env ''general'' SCCP_CONFIG_GLOBAL_SEGMENT (opt_name dst)
                    else value1)
      in if value2 = None then opt_defaultValue dst else value2)"

text \<open>
  The body of the loop for an option that was not set and is not obsolete: the
  resolved value, when it is not empty, goes through \<^verbatim>\<open>sccp_config_object_setValue\<close>
  (whose result code is dropped), and \<^verbatim>\<open>value\<close> is reset to \<^verbatim>\<open>NULL\<close> whenever it
  was not \<^verbatim>\<open>NULL\<close>.
\<close>

definition set_defaults_entry ::
  "'g pbx_env \<Rightarrow> 'g sccp_object \<Rightarrow> sccp_config_segment_t \<Rightarrow> SCCPConfigOption \<Rightarrow> string option \<Rightarrow>
   ('g sccp_object \<times> string option) option" where
  "set_defaults_entry env obj segment dst val =
     (case default_value_switch env obj dst val of
        None \<Rightarrow> Some (obj, None)
      | Some v \<Rightarrow>
          if v \<noteq> [] then
            (case sccp_config_object_setValue env obj (opt_name dst) (Some v) segment of
               None \<Rightarrow> None
             | Some r \<Rightarrow> Some (fst r, None))
          else Some (obj, None))"

text \<open>
  The loop over the indices; reading either array beyond its end has no defined result.
\<close>

fun set_defaults_loop ::
  "'g pbx_env \<Rightarrow> sccp_config_segment_t \<Rightarrow> SCCPConfigOption list \<Rightarrow> nat list \<Rightarrow> nat list \<Rightarrow>
   'g sccp_object \<times> string option \<Rightarrow> ('g sccp_object \<times> string option) option" where
  "set_defaults_loop env segment sccpDstConfig alreadySetEntries [] st = Some st"
| "set_defaults_loop env segment sccpDstConfig alreadySetEntries (i # is) st =
     (if i < length sccpDstConfig \<and> i < length alreadySetEntries then
        (if alreadySetEntries ! i = 0 \<and> (opt_flags (sccpDstConfig ! i) AND SCCP_CONFIG_FLAG_OBSOLETE) = 0 then
           (case set_defaults_entry env (fst st) segment (sccpDstConfig ! i) (snd st) of
              None \<Rightarrow> None
            | Some st' \<Rightarrow> set_defaults_loop env segment sccpDstConfig alreadySetEntries is st')
         else set_defaults_loop env segment sccpDstConfig alreadySetEntries is st)
      else None)"

text \<open>
  \<^verbatim>\<open>arraySize\<close> is replaced by the length of the table for the first three segments and
  kept for the soft key segment; \<^verbatim>\<open>value\<close> starts as the empty string.
\<close>

definition sccp_config_set_defaults ::
  "'g pbx_env \<Rightarrow> 'g sccp_object \<Rightarrow> sccp_config_segment_t \<Rightarrow> nat list \<Rightarrow> nat \<Rightarrow> 'g sccp_object option" where
  "sccp_config_set_defaults env obj segment alreadySetEntries arraySize =
     (case sccp_find_segment env segment of
        None \<Rightarrow> None
      | Some sg \<Rightarrow>
          (let n = (case segment of
                      SCCP_CONFIG_GLOBAL_SEGMENT \<Rightarrow> length (sccpGlobalConfigOptions env)
                    | SCCP_CONFIG_DEVICE_SEGMENT \<Rightarrow> length (sccpDeviceConfigOptions env)
                    | SCCP_CONFIG_LINE_SEGMENT \<Rightarrow> length (sccpLineConfigOptions env)
                    | SCCP_CONFIG_SOFTKEY_SEGMENT \<Rightarrow> arraySize)
           in map_option fst
                (set_defaults_loop env segment (seg_config sg) alreadySetEntries [0..<n] (obj, Some []))))"

subsection \<open>The three reconciliation passes\<close>

text \<open>The inner loop that marks every option of the table whose name matches.\<close>

definition mark_alreadySet :: "SCCPConfigOption list \<Rightarrow> string \<Rightarrow> nat list \<Rightarrow> nat list" where
  "mark_alreadySet opts name alreadySetEntries =
     map (\<lambda>(c, a). if \<not> strcasecmp (opt_name c) name then 1 else a) (zip opts alreadySetEntries)"

text \<open>
  The loop \<^verbatim>\<open>for (; v; v = v->next)\<close>, which the three functions share word for word:
  the result of each pair is accumulated with \<^verbatim>\<open>|=\<close>. The state is the object,
  \<^verbatim>\<open>res\<close> and \<^verbatim>\<open>alreadySetEntries\<close>.
\<close>

fun apply_variables ::
  "'g pbx_env \<Rightarrow> sccp_config_segment_t \<Rightarrow> SCCPConfigOption list \<Rightarrow> (string \<times> string option) list \<Rightarrow>
   'g sccp_object \<times> int \<times> nat list \<Rightarrow> ('g sccp_object \<times> int \<times> nat list) option" where
  "apply_variables env segment opts [] st = Some st"
| "apply_variables env segment opts (v # vs) (obj, res, alreadySetEntries) =
     (case sccp_config_object_setValue env obj (fst v) (snd v) segment of
        None \<Rightarrow> None
      | Some r \<Rightarrow>
          apply_variables env segment opts vs
            (fst r, res OR snd r, mark_alreadySet opts (fst v) alreadySetEntries))"

definition sccp_config_applyGlobalConfiguration ::
  "'g pbx_env \<Rightarrow> 'g sccp_object \<Rightarrow> (string \<times> string option) list \<Rightarrow> ('g sccp_object \<times> int) option" where
  "sccp_config_applyGlobalConfiguration env sccp_globals v =
     (case apply_variables env SCCP_CONFIG_GLOBAL_SEGMENT (sccpGlobalConfigOptions env) v
             (sccp_globals, configurationchange_int env SCCP_CONFIG_NOUPDATENEEDED,
              replicate (length (sccpGlobalConfigOptions env)) 0) of
        None \<Rightarrow> None
      | Some (g, res, alreadySetEntries) \<Rightarrow>
          (case sccp_config_set_defaults env g SCCP_CONFIG_GLOBAL_SEGMENT alreadySetEntries
                  (length (sccpGlobalConfigOptions env)) of
             None \<Rightarrow> None
           | Some g' \<Rightarrow> Some (g', res)))"

definition sccp_config_applyLineConfiguration ::
  "'g pbx_env \<Rightarrow> 'g sccp_object \<Rightarrow> (string \<times> string option) list \<Rightarrow> ('g sccp_object \<times> int) option" where
  "sccp_config_applyLineConfiguration env l v =
     (let l0 = (if pendingDelete l
                then l\<lparr>generic_at := (generic_at l)(fst (L_OBJ_REF env ''variables'') := null_pointer env)\<rparr>
                else l)
      in case apply_variables env SCCP_CONFIG_LINE_SEGMENT (sccpLineConfigOptions env) v
             (l0, configurationchange_int env SCCP_CONFIG_NOUPDATENEEDED,
              replicate (length (sccpLineConfigOptions env)) 0) of
        None \<Rightarrow> None
      | Some (l1, res, alreadySetEntries) \<Rightarrow>
          (case sccp_config_set_defaults env l1 SCCP_CONFIG_LINE_SEGMENT alreadySetEntries
                  (length alreadySetEntries) of
             None \<Rightarrow> None
           | Some l' \<Rightarrow> Some (l', res)))"

definition sccp_config_applyDeviceConfiguration ::
  "'g pbx_env \<Rightarrow> 'g sccp_object \<Rightarrow> (string \<times> string option) list \<Rightarrow> ('g sccp_object \<times> int) option" where
  "sccp_config_applyDeviceConfiguration env d v =
     (let d0 = (if pendingDelete d
                then d\<lparr>generic_at := (generic_at d)
                          (fst (D_OBJ_REF env ''addons'') := list_head_init env,
                           fst (D_OBJ_REF env ''variables'') := null_pointer env,
                           fst (D_OBJ_REF env ''permithosts'') := list_head_init env,
                           fst (D_OBJ_REF env ''ha'') := null_pointer env)\<rparr>
                else d)
      in case apply_variables env SCCP_CONFIG_DEVICE_SEGMENT (sccpDeviceConfigOptions env) v
             (d0, configurationchange_int env SCCP_CONFIG_NOUPDATENEEDED,
              replicate (length (sccpDeviceConfigOptions env)) 0) of
        None \<Rightarrow> None
      | Some (d1, res, alreadySetEntries) \<Rightarrow>
          (case sccp_config_set_defaults env d1 SCCP_CONFIG_DEVICE_SEGMENT alreadySetEntries
                  (length alreadySetEntries) of
             None \<Rightarrow> None
           | Some d' \<Rightarrow> Some (d', res)))"

subsection \<open>Buttons (\<^verbatim>\<open>sccp_config_addButton\<close>)\<close>

text \<open>
  The button structures are declared in a header that is not among the sources; the
  fields below are the ones the function reads and writes. The members of the union
  \<^verbatim>\<open>button\<close> are kept apart.
\<close>

datatype button_type_t = LINE | SPEEDDIAL | SERVICE | FEATURE | EMPTY

record subscriptionId =
  sub_number :: string
  sub_name :: string
  sub_aux :: string

record composedId =
  mainId :: string
  subscriptionId :: subscriptionId

record sccp_buttonconfig =
  bc_index :: int
  bc_pendingDelete :: bool
  bc_pendingUpdate :: bool
  bc_type :: button_type_t
  bc_label :: string
  line_name :: string
  line_subscriptionId :: subscriptionId
  line_options :: string
  speeddial_ext :: string
  speeddial_hint :: string
  service_url :: string
  feature_id :: int
  feature_options :: string

text \<open>
  What the function takes from outside the sources: the sizes of the character arrays,
  \<^verbatim>\<open>sccp_parseComposedId\<close>, \<^verbatim>\<open>sccp_featureStr2featureID\<close>, whether \<^verbatim>\<open>sccp_calloc\<close> fails,
  and the button type whose enumeration value is zero (the type of a fresh
  \<^verbatim>\<open>calloc\<close>ed entry).
\<close>

record button_env =
  sizeof_member :: "string \<Rightarrow> nat"
  sccp_parseComposedId :: "string \<Rightarrow> nat \<Rightarrow> composedId"
  sccp_featureStr2featureID :: "string option \<Rightarrow> int"
  calloc_fails :: bool
  zero_button_type :: button_type_t

text \<open>
  Modelled from the spec: \<^verbatim>\<open>sccp_strcmp\<close> and \<^verbatim>\<open>sccp_strcasecmp\<close> of \<^verbatim>\<open>sccp_utils.c\<close>, which is
  not among the sources; the spec has buttons compared "by type + all string fields".
  Both are true when the strings differ, the second ignoring the case of letters.
\<close>

definition sccp_strcmp :: "string \<Rightarrow> string \<Rightarrow> bool" where
  "sccp_strcmp a b = (a \<noteq> b)"

definition sccp_strcasecmp :: "string \<Rightarrow> string \<Rightarrow> bool" where
  "sccp_strcasecmp a b = (map tolower a \<noteq> map tolower b)"

text \<open>
  The traversal of the button list. The result is the position of the entry at which
  the loop was left by \<^verbatim>\<open>break\<close> (none when the loop ran to its end and \<^verbatim>\<open>config\<close> is
  \<^verbatim>\<open>NULL\<close>), \<^verbatim>\<open>index\<close> and \<^verbatim>\<open>highest_index\<close>. \<^verbatim>\<open>strcmp\<close> on a \<^verbatim>\<open>NULL\<close> name has no defined
  result.
\<close>

fun addButton_traverse ::
  "sccp_buttonconfig list \<Rightarrow> nat \<Rightarrow> int \<Rightarrow> button_type_t \<Rightarrow> string option \<Rightarrow> int \<Rightarrow>
   (nat option \<times> int \<times> int) option" where
  "addButton_traverse [] pos index type name highest_index = Some (None, index, highest_index)"
| "addButton_traverse (config # rest) pos index type name highest_index =
     (if index = 0 \<and> bc_pendingDelete config \<and> bc_type config = type then
        (if bc_type config = EMPTY then Some (Some pos, bc_index config, highest_index)
         else (case name of
                 None \<Rightarrow> None
               | Some n \<Rightarrow>
                   if \<not> strcmp (bc_label config) n
                   then Some (Some pos, bc_index config, highest_index)
                   else addButton_traverse rest (Suc pos) index type name (bc_index config)))
      else addButton_traverse rest (Suc pos) index type name (bc_index config))"

text \<open>An entry as \<^verbatim>\<open>sccp_calloc\<close> returns it.\<close>

definition calloc_buttonconfig :: "button_env \<Rightarrow> sccp_buttonconfig" where
  "calloc_buttonconfig benv =
     \<lparr>bc_index = 0, bc_pendingDelete = False, bc_pendingUpdate = False,
      bc_type = zero_button_type benv, bc_label = [],
      line_name = [], line_subscriptionId = \<lparr>sub_number = [], sub_name = [], sub_aux = []\<rparr>,
      line_options = [], speeddial_ext = [], speeddial_hint = [], service_url = [],
      feature_id = 0, feature_options = []\<rparr>"

text \<open>
  The \<^verbatim>\<open>switch (type)\<close>: the entry and \<^verbatim>\<open>changes\<close> after it. In the case \<^verbatim>\<open>LINE\<close> both
  branches of the test of the options assign \<^verbatim>\<open>SCCP_CONFIG_CHANGE_NOCHANGE\<close> and leave
  the \<^verbatim>\<open>switch\<close>. \<open>name\<close> is not empty and, unless the type is \<^verbatim>\<open>LINE\<close>, \<open>options\<close> is
  not \<^verbatim>\<open>NULL\<close> when a case other than \<^verbatim>\<open>EMPTY\<close> is reached.
\<close>

definition addButton_switch ::
  "'g pbx_env \<Rightarrow> button_env \<Rightarrow> sccp_buttonconfig \<Rightarrow> button_type_t \<Rightarrow> string \<Rightarrow> string option \<Rightarrow>
   string option \<Rightarrow> int \<Rightarrow> sccp_buttonconfig \<times> int" where
  "addButton_switch env benv config type name options args changes =
     (let NOCHANGE = value_changed_int env SCCP_CONFIG_CHANGE_NOCHANGE;
          opts = (case options of None \<Rightarrow> [] | Some s \<Rightarrow> s)
      in case type of
        LINE \<Rightarrow>
          (let composedLineRegistrationId = sccp_parseComposedId benv name 80
           in if bc_type config = LINE
                 \<and> \<not> sccp_strcmp (bc_label config) name
                 \<and> \<not> sccp_strcmp (line_name config) (mainId composedLineRegistrationId)
                 \<and> \<not> sccp_strcasecmp (sub_number (line_subscriptionId config))
                        (sub_number (subscriptionId composedLineRegistrationId))
                 \<and> \<not> sccp_strcmp (sub_name (line_subscriptionId config))
                        (sub_name (subscriptionId composedLineRegistrationId))
                 \<and> \<not> sccp_strcmp (sub_aux (line_subscriptionId config))
                        (sub_aux (subscriptionId composedLineRegistrationId))
              then (if options = None \<or> \<not> sccp_strcmp (line_options config) opts
                    then (config, NOCHANGE)
                    else (config, NOCHANGE))
              else
                (config\<lparr>bc_type := LINE,
                   bc_label := sccp_copy_string name (sizeof_member benv ''label''),
                   line_name := sccp_copy_string (mainId composedLineRegistrationId)
                                  (sizeof_member benv ''button.line.name''),
                   line_subscriptionId :=
                     \<lparr>sub_number = sccp_copy_string (sub_number (subscriptionId composedLineRegistrationId))
                                     (sizeof_member benv ''button.line.subscriptionId.number''),
                      sub_name = sccp_copy_string (sub_name (subscriptionId composedLineRegistrationId))
                                     (sizeof_member benv ''button.line.subscriptionId.name''),
                      sub_aux = sccp_copy_string (sub_aux (subscriptionId composedLineRegistrationId))
                                     (sizeof_member benv ''button.line.subscriptionId.aux'')\<rparr>,
                   line_options :=
                     (case options of
                        None \<Rightarrow> line_options config
                      | Some s \<Rightarrow> sccp_copy_string s (sizeof_member benv ''button.line.options''))\<rparr>,
                 changes))
      | SPEEDDIAL \<Rightarrow>
          if bc_type config = SPEEDDIAL
             \<and> \<not> sccp_strcmp (bc_label config) name
             \<and> \<not> sccp_strcmp (speeddial_ext config) opts
             \<and> (case args of None \<Rightarrow> True | Some a \<Rightarrow> \<not> sccp_strcmp (speeddial_hint config) a)
          then (config, NOCHANGE)
          else
            (config\<lparr>bc_type := SPEEDDIAL,
               bc_label := sccp_copy_string name (sizeof_member benv ''label''),
               speeddial_ext := sccp_copy_string opts (sizeof_member benv ''button.speeddial.ext''),
               speeddial_hint :=
                 (case args of
                    None \<Rightarrow> speeddial_hint config
                  | Some a \<Rightarrow> sccp_copy_string a (sizeof_member benv ''button.speeddial.hint''))\<rparr>,
             changes)
      | SERVICE \<Rightarrow>
          if bc_type config = SERVICE
             \<and> \<not> sccp_strcmp (bc_label config) name
             \<and> \<not> sccp_strcmp (service_url config) opts
          then (config, NOCHANGE)
          else
            (config\<lparr>bc_type := SERVICE,
               bc_label := sccp_copy_string name (sizeof_member benv ''label''),
               service_url := sccp_copy_string opts (sizeof_member benv ''button.service.url'')\<rparr>,
             changes)
      | FEATURE \<Rightarrow>
          if bc_type config = FEATURE
             \<and> \<not> sccp_strcmp (bc_label config) name
             \<and> feature_id config = sccp_featureStr2featureID benv options
             \<and> (case args of None \<Rightarrow> True | Some a \<Rightarrow> \<not> sccp_strcmp (feature_options config) a)
          then (config, NOCHANGE)
          else
            (config\<lparr>bc_type := FEATURE,
               bc_label := sccp_copy_string name (sizeof_member benv ''label''),
               feature_id := sccp_featureStr2featureID benv options,
               feature_options :=
                 (case args of
                    None \<Rightarrow> feature_options config
                  | Some a \<Rightarrow> sccp_copy_string a (sizeof_member benv ''button.feature.options''))\<rparr>,
             changes)
      | EMPTY \<Rightarrow>
          if bc_type config = EMPTY then (config, NOCHANGE)
          else (config\<lparr>bc_type := EMPTY\<rparr>, changes))"

text \<open>
  The whole function on the list of a device: the traversal, the entry to work on (the
  one found, marked for update, or a fresh one appended to the list), the test for a
  faulty configuration and the \<^verbatim>\<open>switch\<close>. The result is the list and the returned
  code.
\<close>

definition sccp_config_addButton ::
  "'g pbx_env \<Rightarrow> button_env \<Rightarrow> sccp_buttonconfig list \<Rightarrow> int \<Rightarrow> button_type_t \<Rightarrow> string option \<Rightarrow>
   string option \<Rightarrow> string option \<Rightarrow> (sccp_buttonconfig list \<times> int) option" where
  "sccp_config_addButton env benv buttonconfigList index0 type0 name options args =
     (case addButton_traverse buttonconfigList 0 index0 type0 name 0 of
        None \<Rightarrow> None
      | Some (found0, index1, highest_index) \<Rightarrow>
          (let index = (if index1 < 0 then highest_index + 1 else index1);
               found = (if index1 < 0 then None else found0);
               existing = (case found of
                             None \<Rightarrow> None
                           | Some p \<Rightarrow> if bc_index (buttonconfigList ! p) \<noteq> index then None else Some p)
           in if existing = None \<and> calloc_fails benv
              then Some (buttonconfigList, value_changed_int env SCCP_CONFIG_CHANGE_INVALIDVALUE)
              else
                (let pos = (case existing of None \<Rightarrow> length buttonconfigList | Some p \<Rightarrow> p);
                     config = (case existing of
                                 None \<Rightarrow> (calloc_buttonconfig benv)\<lparr>bc_index := index\<rparr>
                               | Some p \<Rightarrow> (buttonconfigList ! p)\<lparr>bc_pendingDelete := False,
                                                                  bc_pendingUpdate := True\<rparr>);
                     list1 = (case existing of
                                None \<Rightarrow> buttonconfigList @ [config]
                              | Some p \<Rightarrow> buttonconfigList);
                     changes = (case existing of
                                  None \<Rightarrow> configurationchange_int env SCCP_CONFIG_NOUPDATENEEDED
                                | Some p \<Rightarrow> value_changed_int env SCCP_CONFIG_CHANGE_CHANGED);
                     faulty = (sccp_strlen_zero name \<or> (type0 \<noteq> LINE \<and> options = None));
                     type = (if faulty then EMPTY else type0);
                     changes1 = (if faulty then value_changed_int env SCCP_CONFIG_CHANGE_INVALIDVALUE
                                 else changes);
                     r = addButton_switch env benv config type
                           (case name of None \<Rightarrow> [] | Some n \<Rightarrow> n) options args changes1
                 in Some (list1[pos := fst r], snd r))))"

subsection \<open>Soft key sets\<close>

text \<open>
  \<^verbatim>\<open>StationMaxSoftKeySetDefinition\<close> and the key modes are defined in \<^verbatim>\<open>common.h\<close>. The
  table \<^verbatim>\<open>SoftKeyModes\<close> lists the twelve key modes in the order of their numbers; only
  its column \<^verbatim>\<open>id\<close> is used here.
\<close>

definition StationMaxSoftKeySetDefinition :: nat where "StationMaxSoftKeySetDefinition = 16"

definition KEYMODE_ONHOOK :: int where "KEYMODE_ONHOOK = 0"
definition KEYMODE_CONNECTED :: int where "KEYMODE_CONNECTED = 1"
definition KEYMODE_ONHOLD :: int where "KEYMODE_ONHOLD = 2"
definition KEYMODE_RINGIN :: int where "KEYMODE_RINGIN = 3"
definition KEYMODE_OFFHOOK :: int where "KEYMODE_OFFHOOK = 4"
definition KEYMODE_CONNTRANS :: int where "KEYMODE_CONNTRANS = 5"
definition KEYMODE_DIGITSFOLL :: int where "KEYMODE_DIGITSFOLL = 6"
definition KEYMODE_CONNCONF :: int where "KEYMODE_CONNCONF = 7"
definition KEYMODE_RINGOUT :: int where "KEYMODE_RINGOUT = 8"
definition KEYMODE_OFFHOOKFEAT :: int where "KEYMODE_OFFHOOKFEAT = 9"
definition KEYMODE_INUSEHINT :: int where "KEYMODE_INUSEHINT = 10"
definition KEYMODE_ONHOOKSTEALABLE :: int where "KEYMODE_ONHOOKSTEALABLE = 11"

definition SoftKeyModes :: "int list" where
  "SoftKeyModes =
     [KEYMODE_ONHOOK, KEYMODE_CONNECTED, KEYMODE_ONHOLD, KEYMODE_RINGIN, KEYMODE_OFFHOOK,
      KEYMODE_CONNTRANS, KEYMODE_DIGITSFOLL, KEYMODE_CONNCONF, KEYMODE_RINGOUT,
      KEYMODE_OFFHOOKFEAT, KEYMODE_INUSEHINT, KEYMODE_ONHOOKSTEALABLE]"

text \<open>
  The label table \<^verbatim>\<open>softKeyTemplate\<close> (pairs of a configuration word and a label number),
  the label number \<^verbatim>\<open>SKINNY_LBL_EMPTY\<close> and the size of the name of a configuration come
  from headers that are not among the sources.
\<close>

record softkey_env =
  softKeyTemplate :: "(string \<times> int) list"
  SKINNY_LBL_EMPTY :: int
  sizeof_name :: nat

record softkey_modes =
  sm_id :: nat
  sm_ptr :: "nat list option"
  sm_count :: nat

record sccp_softKeySetConfiguration_t =
  sk_name :: string
  sk_modes :: "nat \<Rightarrow> softkey_modes"
  numberOfSoftKeySets :: int

definition sccp_config_getSoftkeyLbl :: "softkey_env \<Rightarrow> string \<Rightarrow> int" where
  "sccp_config_getSoftkeyLbl senv key =
     (case find (\<lambda>t. \<not> strcasecmp (fst t) key) (softKeyTemplate senv) of
        Some t \<Rightarrow> snd t
      | None \<Rightarrow> SKINNY_LBL_EMPTY senv)"

text \<open>
  \<^verbatim>\<open>strsep\<close>: the token up to the first delimiter and the new value of the string
  pointer, which is \<^verbatim>\<open>NULL\<close> when there was no delimiter; no token when the pointer was
  \<^verbatim>\<open>NULL\<close>.
\<close>

definition strsep :: "string option \<Rightarrow> char \<Rightarrow> (string \<times> string option) option" where
  "strsep stringp delim =
     (case stringp of
        None \<Rightarrow> None
      | Some s \<Rightarrow>
          Some (takeWhile (\<lambda>c. c \<noteq> delim) s,
                case dropWhile (\<lambda>c. c \<noteq> delim) s of [] \<Rightarrow> None | _ # rest \<Rightarrow> Some rest))"

text \<open>
  The \<^verbatim>\<open>while\<close> loop of \<^verbatim>\<open>sccp_config_readSoftSet\<close>; a label number is stored in a
  \<^verbatim>\<open>uint8_t\<close>.
\<close>

function readSoftSet_loop :: "softkey_env \<Rightarrow> nat list \<Rightarrow> nat \<Rightarrow> string option \<Rightarrow> nat list \<times> nat" where
  "readSoftSet_loop senv softkeyset i splitter =
     (case strsep splitter (CHR '','') of
        None \<Rightarrow> (softkeyset, i)
      | Some t \<Rightarrow>
          if i + 1 < StationMaxSoftKeySetDefinition
          then readSoftSet_loop senv
                 (softkeyset[i := nat (sccp_config_getSoftkeyLbl senv (fst t) mod 256)]) (i + 1) (snd t)
          else (softkeyset, i))"
  by pat_completeness auto
termination
  by (relation "measure (\<lambda>(senv, softkeyset, i, splitter). StationMaxSoftKeySetDefinition - i)") auto

declare readSoftSet_loop.simps [simp del]

text \<open>
  The function: nothing is done for a \<^verbatim>\<open>NULL\<close> string; \<^verbatim>\<open>strcpy\<close> into the \<open>256\<close> bytes
  of \<^verbatim>\<open>labels\<close> has no defined result for a longer string, nor has a write beyond a
  shorter array; after the loop the slots from \<open>i + 1\<close> on are set to the empty label.
  The result is the array and the returned count.
\<close>

definition sccp_config_readSoftSet :: "softkey_env \<Rightarrow> nat list \<Rightarrow> string option \<Rightarrow> (nat list \<times> nat) option" where
  "sccp_config_readSoftSet senv softkeyset data =
     (case data of
        None \<Rightarrow> Some (softkeyset, 0)
      | Some d \<Rightarrow>
          if 256 < length d + 1 \<or> length softkeyset < StationMaxSoftKeySetDefinition then None
          else
            (let r = readSoftSet_loop senv softkeyset 0 (Some d)
             in Some (foldl (\<lambda>ks j. ks[j := nat (SKINNY_LBL_EMPTY senv mod 256)]) (fst r)
                        [snd r + 1..<StationMaxSoftKeySetDefinition],
                      snd r)))"

text \<open>The chain of comparisons that maps the name of a variable to a key mode, or to \<open>-1\<close>.\<close>

definition softKeySet_keyMode :: "string \<Rightarrow> int" where
  "softKeySet_keyMode name =
     (if \<not> strcasecmp name ''type'' then - 1
      else if \<not> strcasecmp name ''onhook'' then KEYMODE_ONHOOK
      else if \<not> strcasecmp name ''connected'' then KEYMODE_CONNECTED
      else if \<not> strcasecmp name ''onhold'' then KEYMODE_ONHOLD
      else if \<not> strcasecmp name ''ringin'' then KEYMODE_RINGIN
      else if \<not> strcasecmp name ''offhook'' then KEYMODE_OFFHOOK
      else if \<not> strcasecmp name ''conntrans'' then KEYMODE_CONNTRANS
      else if \<not> strcasecmp name ''digitsfoll'' then KEYMODE_DIGITSFOLL
      else if \<not> strcasecmp name ''connconf'' then KEYMODE_CONNCONF
      else if \<not> strcasecmp name ''ringout'' then KEYMODE_RINGOUT
      else if \<not> strcasecmp name ''offhookfeat'' then KEYMODE_OFFHOOKFEAT
      else if \<not> strcasecmp name ''onhint'' then KEYMODE_INUSEHINT
      else - 1)"

text \<open>
  The body of the inner \<^verbatim>\<open>for\<close> loop for one index of \<^verbatim>\<open>SoftKeyModes\<close>: a fresh array of
  sixteen zero bytes is filled from the value, and stored when the count is positive.
\<close>

definition softKeySet_store ::
  "softkey_env \<Rightarrow> sccp_softKeySetConfiguration_t \<Rightarrow> int \<Rightarrow> string option \<Rightarrow> nat \<Rightarrow>
   sccp_softKeySetConfiguration_t option" where
  "softKeySet_store senv cfg keyMode val i =
     (if SoftKeyModes ! i = keyMode then
        (case sccp_config_readSoftSet senv (replicate StationMaxSoftKeySetDefinition 0) val of
           None \<Rightarrow> None
         | Some r \<Rightarrow>
             if 0 < snd r
             then Some (cfg\<lparr>sk_modes := (sk_modes cfg)
                          (i := \<lparr>sm_id = nat keyMode, sm_ptr = Some (fst r), sm_count = snd r\<rparr>)\<rparr>)
             else Some (cfg\<lparr>sk_modes := (sk_modes cfg)
                          (i := (sk_modes cfg i)\<lparr>sm_ptr := None, sm_count := 0\<rparr>)\<rparr>))
      else Some cfg)"

fun softKeySet_modes ::
  "softkey_env \<Rightarrow> int \<Rightarrow> string option \<Rightarrow> nat list \<Rightarrow> sccp_softKeySetConfiguration_t \<Rightarrow>
   sccp_softKeySetConfiguration_t option" where
  "softKeySet_modes senv keyMode val [] cfg = Some cfg"
| "softKeySet_modes senv keyMode val (i # is) cfg =
     (case softKeySet_store senv cfg keyMode val i of
        None \<Rightarrow> None
      | Some cfg' \<Rightarrow> softKeySet_modes senv keyMode val is cfg')"

text \<open>The \<^verbatim>\<open>while (variable)\<close> loop over the variables of the section.\<close>

fun softKeySet_variables ::
  "softkey_env \<Rightarrow> (string \<times> string option) list \<Rightarrow> sccp_softKeySetConfiguration_t \<Rightarrow>
   sccp_softKeySetConfiguration_t option" where
  "softKeySet_variables senv [] cfg = Some cfg"
| "softKeySet_variables senv (variable # rest) cfg =
     (let keyMode = softKeySet_keyMode (fst variable)
      in if keyMode = - 1 then softKeySet_variables senv rest cfg
         else
           (let cfg1 = (if numberOfSoftKeySets cfg < keyMode + 1
                        then cfg\<lparr>numberOfSoftKeySets := keyMode + 1\<rparr> else cfg)
            in case softKeySet_modes senv keyMode (snd variable) [0..<length SoftKeyModes] cfg1 of
                 None \<Rightarrow> None
               | Some cfg2 \<Rightarrow> softKeySet_variables senv rest cfg2))"

text \<open>
  \<^verbatim>\<open>sccp_config_softKeySet\<close> on the list \<^verbatim>\<open>softKeySetConfig\<close>: the first configuration
  whose name matches is updated in place; when there is none, a fresh one is inserted
  at the head.
\<close>

fun softKeySet_find :: "sccp_softKeySetConfiguration_t list \<Rightarrow> string \<Rightarrow> nat \<Rightarrow> nat option" where
  "softKeySet_find [] name pos = None"
| "softKeySet_find (c # cs) name pos =
     (if \<not> strcasecmp (sk_name c) name then Some pos else softKeySet_find cs name (Suc pos))"

definition sccp_config_softKeySet ::
  "softkey_env \<Rightarrow> sccp_softKeySetConfiguration_t list \<Rightarrow> (string \<times> string option) list \<Rightarrow> string \<Rightarrow>
   sccp_softKeySetConfiguration_t list option" where
  "sccp_config_softKeySet senv softKeySetConfig variable name =
     (case softKeySet_find softKeySetConfig name 0 of
        Some p \<Rightarrow>
          (case softKeySet_variables senv variable (softKeySetConfig ! p) of
             None \<Rightarrow> None
           | Some cfg \<Rightarrow> Some (softKeySetConfig[p := cfg]))
      | None \<Rightarrow>
          (case softKeySet_variables senv variable
                  \<lparr>sk_name = sccp_copy_string name (sizeof_name senv),
                   sk_modes = (\<lambda>_. \<lparr>sm_id = 0, sm_ptr = None, sm_count = 0\<rparr>),
                   numberOfSoftKeySets = 0\<rparr> of
             None \<Rightarrow> None
           | Some cfg \<Rightarrow> Some (cfg # softKeySetConfig)))"

subsection \<open>An example environment\<close>

text \<open>
  A concrete environment on which the definitions can be evaluated. Every member is
  given a positive offset that is an injective code of its name, and forty bytes. The
  enumeration constants are numbered \<open>0, 1, 2\<close> for \<^verbatim>\<open>sccp_value_changed_t\<close>, and \<open>0\<close> and
  \<^verbatim>\<open>1 << 1\<close> for \<^verbatim>\<open>sccp_configurationchange_t\<close>. The truth value of a string is read
  as the PBX reads it, \<open>-1\<close> for the words of assent. The converters leave the destination
  as it is, and the configuration file is empty.
\<close>

definition example_offset_size :: "sccp_config_segment_t \<Rightarrow> string \<Rightarrow> int \<times> nat" where
  "example_offset_size segment member = (1 + foldl (\<lambda>a c. 256 * a + int (of_char c)) 0 member, 40)"

definition example_true :: "string option \<Rightarrow> int" where
  "example_true s =
     (case s of
        None \<Rightarrow> 0
      | Some v \<Rightarrow>
          if \<not> strcasecmp v ''yes'' \<or> \<not> strcasecmp v ''true'' \<or> \<not> strcasecmp v ''y''
             \<or> \<not> strcasecmp v ''t'' \<or> \<not> strcasecmp v ''1'' \<or> \<not> strcasecmp v ''on''
          then - 1 else 0)"

definition example_env :: "unit pbx_env" where
  "example_env =
     \<lparr>offset_size = example_offset_size,
      value_changed_int = (\<lambda>c. case c of SCCP_CONFIG_CHANGE_NOCHANGE \<Rightarrow> 0
                                 | SCCP_CONFIG_CHANGE_CHANGED \<Rightarrow> 1
                                 | SCCP_CONFIG_CHANGE_INVALIDVALUE \<Rightarrow> 2),
      configurationchange_int = (\<lambda>c. case c of SCCP_CONFIG_NOUPDATENEEDED \<Rightarrow> 0
                                       | SCCP_CONFIG_NEEDDEVICERESET \<Rightarrow> 2),
      sccp_true = example_true,
      converter_f = (\<lambda>f g sz v segment. (g, 0)),
      pbx_variable_retrieve = (\<lambda>category variable. None),
      list_head_init = (),
      null_pointer = ()\<rparr>"

text \<open>An object as \<^verbatim>\<open>calloc\<close> returns it, with a device identifier.\<close>

definition example_object :: "unit sccp_object" where
  "example_object =
     \<lparr>device_id = ''SEP001122334455'', pendingDelete = False,
      char_at = (\<lambda>_. CHR 0x00), string_at = (\<lambda>_. []), stringptr_at = (\<lambda>_. None),
      int_at = (\<lambda>_. 0), boolean_at = (\<lambda>_. 0), generic_at = (\<lambda>_. ())\<rparr>"

text \<open>
  The example environment with a configuration file loaded: a \<^verbatim>\<open>[general]\<close> section
  with \<^verbatim>\<open>keepalive=45\<close>, \<^verbatim>\<open>nat=on\<close> and an empty \<^verbatim>\<open>imageversion=\<close>, and the section of
  the device with \<^verbatim>\<open>devicetype=7960\<close> and \<^verbatim>\<open>meetmeopts=abc\<close>.
\<close>

definition example_retrieve :: "string \<Rightarrow> string \<Rightarrow> string option" where
  "example_retrieve category variable =
     map_of [((''general'', ''keepalive''), ''45''),
             ((''general'', ''nat''), ''on''),
             ((''general'', ''imageversion''), []),
             ((''SEP001122334455'', ''devicetype''), ''7960''),
             ((''SEP001122334455'', ''meetmeopts''), ''abc'')] (category, variable)"

definition configured_env :: "unit pbx_env" where
  "configured_env = example_env\<lparr>pbx_variable_retrieve := example_retrieve\<rparr>"

text \<open>
  An example for the buttons: every character array has forty bytes, a name without
  subscription part is its own main identifier, no feature is known, allocation
  succeeds and \<^verbatim>\<open>LINE\<close> is the first button type.
\<close>

definition example_button_env :: button_env where
  "example_button_env =
     \<lparr>sizeof_member = (\<lambda>_. 40),
      sccp_parseComposedId = (\<lambda>name sz. \<lparr>mainId = take (sz - 1) name,
                                         subscriptionId = \<lparr>sub_number = [], sub_name = [], sub_aux = []\<rparr>\<rparr>),
      sccp_featureStr2featureID = (\<lambda>_. 0),
      calloc_fails = False,
      zero_button_type = LINE\<rparr>"

text \<open>A line button for line 100 with the option \<^verbatim>\<open>default\<close>, marked at the start of a reload.\<close>

definition example_button :: sccp_buttonconfig where
  "example_button =
     \<lparr>bc_index = 1, bc_pendingDelete = True, bc_pendingUpdate = False,
      bc_type = LINE, bc_label = ''100'',
      line_name = ''100'', line_subscriptionId = \<lparr>sub_number = [], sub_name = [], sub_aux = []\<rparr>,
      line_options = ''default'', speeddial_ext = [], speeddial_hint = [], service_url = [],
      feature_id = 0, feature_options = []\<rparr>"

text \<open>
  An example for the soft keys: a label table of four words, the empty label numbered
  zero, and fifty bytes for the name of a configuration.
\<close>

definition example_softkey_env :: softkey_env where
  "example_softkey_env =
     \<lparr>softKeyTemplate = [(''redial'', 1), (''newcall'', 2), (''hold'', 3), (''endcall'', 9)],
      SKINNY_LBL_EMPTY = 0,
      sizeof_name = 50\<rparr>"

definition example_softkeyset :: sccp_softKeySetConfiguration_t where
  "example_softkeyset =
     \<lparr>sk_name = ''softkeyset1'',
      sk_modes = (\<lambda>_. \<lparr>sm_id = 0, sm_ptr = None, sm_count = 0\<rparr>)
                 (1 := \<lparr>sm_id = 1, sm_ptr = Some [3, 9, 0, 0, 0, 0, 0, 0, 0, 0, 0, 0, 0, 0, 0, 0], sm_count = 2\<rparr>,
                  3 := \<lparr>sm_id = 3, sm_ptr = Some [9, 0, 0, 0, 0, 0, 0, 0, 0, 0, 0, 0, 0, 0, 0, 0], sm_count = 1\<rparr>),
      numberOfSoftKeySets = 4\<rparr>"

text \<open>A list of 38 labels, 265 characters long.\<close>

definition long_label_list :: string where
  "long_label_list = concat (replicate 37 ''redial,'') @ ''redial''"
section \<open>Properties\<close>

subsection \<open>Evaluation lemmas\<close>

lemmas flag_defs =
  SCCP_CONFIG_FLAG_IGNORE_def SCCP_CONFIG_FLAG_NONE_def SCCP_CONFIG_FLAG_DEPRECATED_def
  SCCP_CONFIG_FLAG_OBSOLETE_def SCCP_CONFIG_FLAG_CHANGED_def SCCP_CONFIG_FLAG_REQUIRED_def
  SCCP_CONFIG_FLAG_GET_DEVICE_DEFAULT_def SCCP_CONFIG_FLAG_GET_GLOBAL_DEFAULT_def

lemma char_of_lower [simp]:
  "char_of (97::nat) = CHR ''a''"
  "char_of (98::nat) = CHR ''b''"
  "char_of (99::nat) = CHR ''c''"
  "char_of (100::nat) = CHR ''d''"
  "char_of (101::nat) = CHR ''e''"
  "char_of (102::nat) = CHR ''f''"
  "char_of (103::nat) = CHR ''g''"
  "char_of (104::nat) = CHR ''h''"
  "char_of (105::nat) = CHR ''i''"
  "char_of (106::nat) = CHR ''j''"
  "char_of (107::nat) = CHR ''k''"
  "char_of (108::nat) = CHR ''l''"
  "char_of (109::nat) = CHR ''m''"
  "char_of (110::nat) = CHR ''n''"
  "char_of (111::nat) = CHR ''o''"
  "char_of (112::nat) = CHR ''p''"
  "char_of (113::nat) = CHR ''q''"
  "char_of (114::nat) = CHR ''r''"
  "char_of (115::nat) = CHR ''s''"
  "char_of (116::nat) = CHR ''t''"
  "char_of (117::nat) = CHR ''u''"
  "char_of (118::nat) = CHR ''v''"
  "char_of (119::nat) = CHR ''w''"
  "char_of (120::nat) = CHR ''x''"
  "char_of (121::nat) = CHR ''y''"
  "char_of (122::nat) = CHR ''z''"
  by code_simp+

lemma option_entry_sel [simp]:
  "opt_name (option_entry n r ty fl ch dv cv) = n"
  "opt_offset (option_entry n r ty fl ch dv cv) = fst r"
  "opt_size (option_entry n r ty fl ch dv cv) = snd r"
  "opt_type (option_entry n r ty fl ch dv cv) = ty"
  "opt_flags (option_entry n r ty fl ch dv cv) = fl"
  "opt_change (option_entry n r ty fl ch dv cv) = ch"
  "opt_defaultValue (option_entry n r ty fl ch dv cv) = dv"
  "opt_converter_f (option_entry n r ty fl ch dv cv) = cv"
  by (simp_all add: option_entry_def)

lemma sccp_find_segment_eval:
  "sccp_find_segment env SCCP_CONFIG_GLOBAL_SEGMENT =
     Some \<lparr>seg_name = ''global'', seg_segment = SCCP_CONFIG_GLOBAL_SEGMENT, seg_config = sccpGlobalConfigOptions env\<rparr>"
  "sccp_find_segment env SCCP_CONFIG_DEVICE_SEGMENT =
     Some \<lparr>seg_name = ''device'', seg_segment = SCCP_CONFIG_DEVICE_SEGMENT, seg_config = sccpDeviceConfigOptions env\<rparr>"
  "sccp_find_segment env SCCP_CONFIG_LINE_SEGMENT =
     Some \<lparr>seg_name = ''line'', seg_segment = SCCP_CONFIG_LINE_SEGMENT, seg_config = sccpLineConfigOptions env\<rparr>"
  "sccp_find_segment env SCCP_CONFIG_SOFTKEY_SEGMENT =
     Some \<lparr>seg_name = ''softkey'', seg_segment = SCCP_CONFIG_SOFTKEY_SEGMENT, seg_config = sccpSoftKeyConfigOptions env\<rparr>"
  by (simp_all add: sccp_find_segment_def sccpConfigSegments_def)

lemma sccp_find_segment_total: "sccp_find_segment env segment \<noteq> None"
  by (cases segment) (simp_all add: sccp_find_segment_eval)

lemma sccp_find_config_eval:
  "sccp_find_config env SCCP_CONFIG_GLOBAL_SEGMENT name =
     find (\<lambda>c. \<not> strcasecmp (opt_name c) name) (sccpGlobalConfigOptions env)"
  "sccp_find_config env SCCP_CONFIG_DEVICE_SEGMENT name =
     find (\<lambda>c. \<not> strcasecmp (opt_name c) name) (sccpDeviceConfigOptions env)"
  "sccp_find_config env SCCP_CONFIG_LINE_SEGMENT name =
     find (\<lambda>c. \<not> strcasecmp (opt_name c) name) (sccpLineConfigOptions env)"
  "sccp_find_config env SCCP_CONFIG_SOFTKEY_SEGMENT name =
     find (\<lambda>c. \<not> strcasecmp (opt_name c) name) (sccpSoftKeyConfigOptions env)"
  by (simp_all add: sccp_find_config_def sccp_find_segment_eval)

lemma example_env_sel [simp]:
  "offset_size example_env = example_offset_size"
  "value_changed_int example_env SCCP_CONFIG_CHANGE_NOCHANGE = 0"
  "value_changed_int example_env SCCP_CONFIG_CHANGE_CHANGED = 1"
  "value_changed_int example_env SCCP_CONFIG_CHANGE_INVALIDVALUE = 2"
  "configurationchange_int example_env SCCP_CONFIG_NOUPDATENEEDED = 0"
  "configurationchange_int example_env SCCP_CONFIG_NEEDDEVICERESET = 2"
  "sccp_true example_env = example_true"
  "converter_f example_env f g sz v segment = (g, 0)"
  "pbx_variable_retrieve example_env category variable = None"
  by (simp_all add: example_env_def)

lemma example_offset_positive: "0 < fst (example_offset_size segment member)"
proof -
  have "0 \<le> foldl (\<lambda>a c. 256 * a + int (of_char c)) a0 member" if "0 \<le> a0" for a0
    using that by (induction member arbitrary: a0) simp_all
  from this [of 0] show ?thesis by (simp add: example_offset_size_def)
qed

lemma example_size [simp]: "snd (example_offset_size segment member) = 40"
  by (simp add: example_offset_size_def)

lemma OBJ_REF_example [simp]:
  "0 < fst (G_OBJ_REF example_env x)" "snd (G_OBJ_REF example_env x) = 40"
  "0 < fst (D_OBJ_REF example_env x)" "snd (D_OBJ_REF example_env x) = 40"
  "0 < fst (L_OBJ_REF example_env x)" "snd (L_OBJ_REF example_env x) = 40"
  "0 < fst (S_OBJ_REF example_env x)" "snd (S_OBJ_REF example_env x) = 40"
  by (simp_all add: G_OBJ_REF_def D_OBJ_REF_def L_OBJ_REF_def S_OBJ_REF_def example_offset_positive)

lemma OBJ_REF_example_not_le [simp]:
  "\<not> fst (G_OBJ_REF example_env x) \<le> 0" "\<not> fst (D_OBJ_REF example_env x) \<le> 0"
  "\<not> fst (L_OBJ_REF example_env x) \<le> 0" "\<not> fst (S_OBJ_REF example_env x) \<le> 0"
  by (simp_all add: not_le)

lemma configured_env_sel [simp]:
  "offset_size configured_env = example_offset_size"
  "value_changed_int configured_env SCCP_CONFIG_CHANGE_NOCHANGE = 0"
  "value_changed_int configured_env SCCP_CONFIG_CHANGE_CHANGED = 1"
  "value_changed_int configured_env SCCP_CONFIG_CHANGE_INVALIDVALUE = 2"
  "configurationchange_int configured_env SCCP_CONFIG_NOUPDATENEEDED = 0"
  "configurationchange_int configured_env SCCP_CONFIG_NEEDDEVICERESET = 2"
  "sccp_true configured_env = example_true"
  "converter_f configured_env f g sz v segment = (g, 0)"
  "pbx_variable_retrieve configured_env = example_retrieve"
  by (simp_all add: configured_env_def example_env_def)

lemma OBJ_REF_configured [simp]:
  "0 < fst (G_OBJ_REF configured_env x)" "snd (G_OBJ_REF configured_env x) = 40"
  "0 < fst (D_OBJ_REF configured_env x)" "snd (D_OBJ_REF configured_env x) = 40"
  "0 < fst (L_OBJ_REF configured_env x)" "snd (L_OBJ_REF configured_env x) = 40"
  "\<not> fst (G_OBJ_REF configured_env x) \<le> 0" "\<not> fst (D_OBJ_REF configured_env x) \<le> 0"
  "\<not> fst (L_OBJ_REF configured_env x) \<le> 0"
  by (simp_all add: G_OBJ_REF_def D_OBJ_REF_def L_OBJ_REF_def example_offset_positive not_le)

subsection \<open>Deprecated and changed options\<close>

text \<open>
  C1. The claim is that an option flagged deprecated or changed is warned about and then
  applied like an unflagged option of its data type. In the code the cases
  \<^verbatim>\<open>SCCP_CONFIG_FLAG_CHANGED\<close> and \<^verbatim>\<open>SCCP_CONFIG_FLAG_DEPRECATED\<close> of the first
  \<^verbatim>\<open>switch\<close> have no \<^verbatim>\<open>break\<close> and reach the \<^verbatim>\<open>return\<close> of the obsolete case: for an
  option whose flag word is one of the two, the function returns no-update-needed and
  leaves the object as it was, whatever the value.
\<close>

theorem C1_deprecated_or_changed_option_is_skipped:
  assumes "sccp_find_config env segment name = Some opt"
    and "opt_flags opt = SCCP_CONFIG_FLAG_DEPRECATED \<or> opt_flags opt = SCCP_CONFIG_FLAG_CHANGED"
  shows "sccp_config_object_setValue env obj name val segment =
           Some (obj, configurationchange_int env SCCP_CONFIG_NOUPDATENEEDED)"
  using assms by (auto simp: sccp_config_object_setValue_def)

text \<open>
  The line option \<^verbatim>\<open>test2\<close> is deprecated and shares the member \<^verbatim>\<open>regexten\<close> with the
  unflagged option \<^verbatim>\<open>regexten\<close>: the same value is stored through the second and
  dropped through the first.
\<close>

theorem C1_deprecated_or_changed_option_is_skipped_witness:
  "sccp_find_config example_env SCCP_CONFIG_LINE_SEGMENT ''test2'' =
     Some (option_entry ''test2'' (L_OBJ_REF example_env ''regexten'') SCCP_CONFIG_DATATYPE_STRING
             SCCP_CONFIG_FLAG_DEPRECATED SCCP_CONFIG_NOUPDATENEEDED None None)
   \<and> sccp_config_object_setValue example_env example_object ''test2'' (Some ''1234'') SCCP_CONFIG_LINE_SEGMENT =
       Some (example_object, 0)
   \<and> sccp_config_object_setValue example_env example_object ''regexten'' (Some ''1234'') SCCP_CONFIG_LINE_SEGMENT =
       Some (example_object\<lparr>string_at := (string_at example_object)
                              (fst (L_OBJ_REF example_env ''regexten'') := ''1234'')\<rparr>, 1)"
proof -
  let ?opt = "option_entry ''test2'' (L_OBJ_REF example_env ''regexten'') SCCP_CONFIG_DATATYPE_STRING
                SCCP_CONFIG_FLAG_DEPRECATED SCCP_CONFIG_NOUPDATENEEDED None None"
  have found: "sccp_find_config example_env SCCP_CONFIG_LINE_SEGMENT ''test2'' = Some ?opt"
    by (simp add: sccp_find_config_eval sccpLineConfigOptions_def strcasecmp_def tolower_def)
  have flag: "opt_flags ?opt = SCCP_CONFIG_FLAG_DEPRECATED \<or> opt_flags ?opt = SCCP_CONFIG_FLAG_CHANGED"
    by simp
  have skipped: "sccp_config_object_setValue example_env example_object ''test2'' (Some ''1234'')
                   SCCP_CONFIG_LINE_SEGMENT = Some (example_object, 0)"
    using C1_deprecated_or_changed_option_is_skipped [OF found flag, of example_object "Some ''1234''"]
    by simp
  have found': "sccp_find_config example_env SCCP_CONFIG_LINE_SEGMENT ''regexten'' =
      Some (option_entry ''regexten'' (L_OBJ_REF example_env ''regexten'') SCCP_CONFIG_DATATYPE_STRING
              SCCP_CONFIG_FLAG_NONE SCCP_CONFIG_NOUPDATENEEDED None None)"
    by (simp add: sccp_find_config_eval sccpLineConfigOptions_def strcasecmp_def tolower_def)
  have applied: "sccp_config_object_setValue example_env example_object ''regexten'' (Some ''1234'')
                   SCCP_CONFIG_LINE_SEGMENT =
       Some (example_object\<lparr>string_at := (string_at example_object)
                              (fst (L_OBJ_REF example_env ''regexten'') := ''1234'')\<rparr>, 1)"
    by (simp add: sccp_config_object_setValue_def setValue_by_type_def found' flag_defs
          strcasecmp_def pbx_copy_string_def example_object_def)
  from found skipped applied show ?thesis by simp
qed

subsection \<open>Change detection on strings\<close>

text \<open>
  C10. For an option of type string or string pointer, a non-empty value that differs
  from the stored string only in the case of its letters is classified as
  no-update-needed and the object, hence the stored spelling, is left as it was.
  The constants of \<^verbatim>\<open>sccp_value_changed_t\<close> are taken to be distinct.
\<close>

theorem C10_string_change_detection_ignores_case:
  assumes "value_changed_int env SCCP_CONFIG_CHANGE_CHANGED \<noteq> value_changed_int env SCCP_CONFIG_CHANGE_NOCHANGE"
    and "sccp_find_config env segment name = Some opt"
    and "opt_type opt = SCCP_CONFIG_DATATYPE_STRING \<and> string_at obj (opt_offset opt) = stored
         \<or> opt_type opt = SCCP_CONFIG_DATATYPE_STRINGPTR \<and> stringptr_at obj (opt_offset opt) = Some stored"
    and "v \<noteq> []"
    and "map tolower v = map tolower stored"
  shows "sccp_config_object_setValue env obj name (Some v) segment =
           Some (obj, configurationchange_int env SCCP_CONFIG_NOUPDATENEEDED)"
  using assms
  by (cases v) (auto simp: sccp_config_object_setValue_def setValue_by_type_def strcasecmp_def Let_def)

theorem C10_string_change_detection_ignores_case_witness:
  "value_changed_int example_env SCCP_CONFIG_CHANGE_CHANGED \<noteq> value_changed_int example_env SCCP_CONFIG_CHANGE_NOCHANGE
   \<and> sccp_find_config example_env SCCP_CONFIG_LINE_SEGMENT ''description'' =
       Some (option_entry ''description'' (L_OBJ_REF example_env ''description'') SCCP_CONFIG_DATATYPE_STRING
               SCCP_CONFIG_FLAG_NONE SCCP_CONFIG_NOUPDATENEEDED None None)
   \<and> ''FRONT desk'' \<noteq> ''Front Desk''
   \<and> map tolower ''FRONT desk'' = map tolower ''Front Desk''
   \<and> sccp_config_object_setValue example_env (example_object\<lparr>string_at := (\<lambda>_. ''Front Desk'')\<rparr>)
         ''description'' (Some ''FRONT desk'') SCCP_CONFIG_LINE_SEGMENT =
       Some (example_object\<lparr>string_at := (\<lambda>_. ''Front Desk'')\<rparr>, 0)"
proof -
  let ?opt = "option_entry ''description'' (L_OBJ_REF example_env ''description'') SCCP_CONFIG_DATATYPE_STRING
                SCCP_CONFIG_FLAG_NONE SCCP_CONFIG_NOUPDATENEEDED None None"
  let ?obj = "example_object\<lparr>string_at := (\<lambda>_. ''Front Desk'')\<rparr>"
  have h1: "value_changed_int example_env SCCP_CONFIG_CHANGE_CHANGED
              \<noteq> value_changed_int example_env SCCP_CONFIG_CHANGE_NOCHANGE"
    by simp
  have h2: "sccp_find_config example_env SCCP_CONFIG_LINE_SEGMENT ''description'' = Some ?opt"
    by (simp add: sccp_find_config_eval sccpLineConfigOptions_def strcasecmp_def tolower_def)
  have h3: "opt_type ?opt = SCCP_CONFIG_DATATYPE_STRING \<and> string_at ?obj (opt_offset ?opt) = ''Front Desk''
            \<or> opt_type ?opt = SCCP_CONFIG_DATATYPE_STRINGPTR \<and> stringptr_at ?obj (opt_offset ?opt) = Some ''Front Desk''"
    by simp
  have h4: "''FRONT desk'' \<noteq> []"
    by simp
  have h5: "map tolower ''FRONT desk'' = map tolower ''Front Desk''"
    by (simp add: tolower_def)
  from C10_string_change_detection_ignores_case [OF h1 h2 h3 h4 h5] h1 h2 h5
  show ?thesis by simp
qed

subsection \<open>Applying a pair twice\<close>

text \<open>
  C7. The claim is that the second application of a pair always reports no change.
  A string option stores at most \<open>size - 1\<close> characters and compares the stored string
  with the whole value, so a value that does not fit is reported as changed on every
  application: with forty bytes for the member \<^verbatim>\<open>label\<close> of a line, a label of
  forty-four characters is stored cut to thirty-nine and reported as changed both times.
\<close>

theorem C7_truncated_string_changes_again_counterexample:
  "sccp_config_object_setValue example_env example_object ''label''
       (Some ''Reception desk, ground floor, north entrance'') SCCP_CONFIG_LINE_SEGMENT =
     Some (example_object\<lparr>string_at := (string_at example_object)
             (fst (L_OBJ_REF example_env ''label'') := ''Reception desk, ground floor, north ent'')\<rparr>, 1)
   \<and> sccp_config_object_setValue example_env
       (example_object\<lparr>string_at := (string_at example_object)
             (fst (L_OBJ_REF example_env ''label'') := ''Reception desk, ground floor, north ent'')\<rparr>)
       ''label'' (Some ''Reception desk, ground floor, north entrance'') SCCP_CONFIG_LINE_SEGMENT =
     Some (example_object\<lparr>string_at := (string_at example_object)
             (fst (L_OBJ_REF example_env ''label'') := ''Reception desk, ground floor, north ent'')\<rparr>, 1)
   \<and> configurationchange_int example_env SCCP_CONFIG_NOUPDATENEEDED \<noteq> 1"
proof -
  have found: "sccp_find_config example_env SCCP_CONFIG_LINE_SEGMENT ''label'' =
      Some (option_entry ''label'' (L_OBJ_REF example_env ''label'') SCCP_CONFIG_DATATYPE_STRING
              SCCP_CONFIG_FLAG_REQUIRED SCCP_CONFIG_NEEDDEVICERESET None None)"
    by (simp add: sccp_find_config_eval sccpLineConfigOptions_def strcasecmp_def tolower_def)
  show ?thesis
    by (simp add: sccp_config_object_setValue_def setValue_by_type_def found flag_defs
          strcasecmp_def tolower_def pbx_copy_string_def example_object_def)
qed

text \<open>
  What holds: for an option that is not generic, and for a string option when the value
  is shorter than the member, the first application returns and the second application
  of the same value reports no-update-needed and changes nothing. A generic option
  reports what its converter reports; the converters that insert into a list (permitted
  hosts, add-ons) report a change on every call.
\<close>

theorem C7_second_application_reports_no_change:
  assumes "value_changed_int env SCCP_CONFIG_CHANGE_CHANGED \<noteq> value_changed_int env SCCP_CONFIG_CHANGE_NOCHANGE"
    and "sccp_find_config env segment name = Some opt"
    and "opt_type opt \<noteq> SCCP_CONFIG_DATATYPE_GENERIC"
    and "opt_type opt = SCCP_CONFIG_DATATYPE_STRING \<longrightarrow> length v < opt_size opt"
  shows "\<exists>obj1 r1. sccp_config_object_setValue env obj name (Some v) segment = Some (obj1, r1)
           \<and> sccp_config_object_setValue env obj1 name (Some v) segment =
               Some (obj1, configurationchange_int env SCCP_CONFIG_NOUPDATENEEDED)"
  using assms
  by (cases v; cases "opt_type opt")
     (auto simp: sccp_config_object_setValue_def setValue_by_type_def strcasecmp_def Let_def
        pbx_copy_string_def sccp_strlen_zero_def split: option.splits)

theorem C7_second_application_reports_no_change_witness:
  "value_changed_int example_env SCCP_CONFIG_CHANGE_CHANGED \<noteq> value_changed_int example_env SCCP_CONFIG_CHANGE_NOCHANGE
   \<and> sccp_find_config example_env SCCP_CONFIG_LINE_SEGMENT ''incominglimit'' =
       Some (option_entry ''incominglimit'' (L_OBJ_REF example_env ''incominglimit'') SCCP_CONFIG_DATATYPE_INT
               SCCP_CONFIG_FLAG_NONE SCCP_CONFIG_NOUPDATENEEDED None None)
   \<and> (\<exists>obj1 r1. sccp_config_object_setValue example_env example_object ''incominglimit'' (Some ''2'')
                    SCCP_CONFIG_LINE_SEGMENT = Some (obj1, r1)
         \<and> int_at obj1 (fst (L_OBJ_REF example_env ''incominglimit'')) = 2
         \<and> sccp_config_object_setValue example_env obj1 ''incominglimit'' (Some ''2'')
                    SCCP_CONFIG_LINE_SEGMENT = Some (obj1, 0))"
proof -
  let ?opt = "option_entry ''incominglimit'' (L_OBJ_REF example_env ''incominglimit'') SCCP_CONFIG_DATATYPE_INT
                SCCP_CONFIG_FLAG_NONE SCCP_CONFIG_NOUPDATENEEDED None None"
  have h1: "value_changed_int example_env SCCP_CONFIG_CHANGE_CHANGED
              \<noteq> value_changed_int example_env SCCP_CONFIG_CHANGE_NOCHANGE"
    by simp
  have h2: "sccp_find_config example_env SCCP_CONFIG_LINE_SEGMENT ''incominglimit'' = Some ?opt"
    by (simp add: sccp_find_config_eval sccpLineConfigOptions_def strcasecmp_def tolower_def)
  have h3: "opt_type ?opt \<noteq> SCCP_CONFIG_DATATYPE_GENERIC"
    by simp
  have h4: "opt_type ?opt = SCCP_CONFIG_DATATYPE_STRING \<longrightarrow> length ''2'' < opt_size ?opt"
    by simp
  have first: "sccp_config_object_setValue example_env example_object ''incominglimit'' (Some ''2'')
                 SCCP_CONFIG_LINE_SEGMENT =
      Some (example_object\<lparr>int_at := (int_at example_object)
              (fst (L_OBJ_REF example_env ''incominglimit'') := 2)\<rparr>, 0)"
    by (simp add: sccp_config_object_setValue_def setValue_by_type_def h2 flag_defs
          atoi_def strtol_def isspace_def isdigit_def example_object_def)
  from C7_second_application_reports_no_change [OF h1 h2 h3 h4, of example_object] first h1 h2
  show ?thesis by auto
qed

subsection \<open>The functions return\<close>

lemma setValue_by_type_Some:
  "setValue_by_type env obj opt (Some v) segment changed0 changes0 \<noteq> None"
  by (cases v; cases "opt_type opt")
     (auto simp: setValue_by_type_def Let_def split: option.splits)

lemma setValue_Some: "sccp_config_object_setValue env obj name (Some v) segment \<noteq> None"
  by (auto simp: sccp_config_object_setValue_def Let_def setValue_by_type_Some split: option.splits)

lemma set_defaults_entry_Some: "set_defaults_entry env obj segment dst val \<noteq> None"
  by (auto simp: set_defaults_entry_def setValue_Some split: option.splits)

lemma set_defaults_loop_Some:
  "(\<forall>i\<in>set idx. i < length dst \<and> i < length already)
     \<Longrightarrow> set_defaults_loop env segment dst already idx st \<noteq> None"
proof (induction idx arbitrary: st)
  case Nil
  show ?case by simp
next
  case (Cons i idx)
  obtain st' where "set_defaults_entry env (fst st) segment (dst ! i) (snd st) = Some st'"
    using set_defaults_entry_Some [of env "fst st" segment "dst ! i" "snd st"] by auto
  with Cons show ?case by auto
qed

lemma set_defaults_Some:
  assumes "segment \<noteq> SCCP_CONFIG_SOFTKEY_SEGMENT"
    and "length already = length (seg_config (the (sccp_find_segment env segment)))"
  shows "sccp_config_set_defaults env obj segment already n \<noteq> None"
  using assms
  by (cases segment)
     (auto simp: sccp_config_set_defaults_def sccp_find_segment_eval set_defaults_loop_Some)

lemma length_mark_alreadySet [simp]:
  "length (mark_alreadySet opts name already) = min (length opts) (length already)"
  by (simp add: mark_alreadySet_def)

lemma apply_variables_length:
  "apply_variables env segment opts vs (obj, res, already) = Some (obj', res', already')
     \<Longrightarrow> length already = length opts \<Longrightarrow> length already' = length opts"
proof (induction vs arbitrary: obj res already)
  case Nil
  then show ?case by simp
next
  case (Cons v vs)
  then show ?case by (auto split: option.splits)
qed

lemma apply_variables_append:
  "apply_variables env segment opts (xs @ ys) st =
     (case apply_variables env segment opts xs st of
        None \<Rightarrow> None
      | Some st' \<Rightarrow> apply_variables env segment opts ys st')"
proof (induction xs arbitrary: st)
  case Nil
  show ?case by simp
next
  case (Cons x xs)
  obtain obj res already where st: "st = (obj, res, already)"
    by (cases st) auto
  show ?case
    by (simp add: st Cons split: option.splits)
qed

text \<open>The result code of a pass is the one the loop over the pairs has accumulated.\<close>

lemma applyLineConfiguration_code:
  "map_option snd (sccp_config_applyLineConfiguration env l v) =
     map_option (\<lambda>st. fst (snd st))
       (apply_variables env SCCP_CONFIG_LINE_SEGMENT (sccpLineConfigOptions env) v
          (if pendingDelete l
           then l\<lparr>generic_at := (generic_at l)(fst (L_OBJ_REF env ''variables'') := null_pointer env)\<rparr>
           else l,
           configurationchange_int env SCCP_CONFIG_NOUPDATENEEDED,
           replicate (length (sccpLineConfigOptions env)) 0))"
  (is "_ = map_option _ (apply_variables _ _ ?opts _ (?l0, ?c0, ?a0))")
proof (cases "apply_variables env SCCP_CONFIG_LINE_SEGMENT ?opts v (?l0, ?c0, ?a0)")
  case None
  then show ?thesis
    by (simp add: sccp_config_applyLineConfiguration_def Let_def)
next
  case (Some st1)
  obtain l1 res already where st1: "st1 = (l1, res, already)"
    by (cases st1) auto
  have len: "length already = length ?opts"
    using apply_variables_length [OF Some [unfolded st1]] by simp
  have "sccp_config_set_defaults env l1 SCCP_CONFIG_LINE_SEGMENT already (length already) \<noteq> None"
    by (rule set_defaults_Some) (simp_all add: sccp_find_segment_eval len)
  then obtain l' where "sccp_config_set_defaults env l1 SCCP_CONFIG_LINE_SEGMENT already (length already) = Some l'"
    by auto
  with Some st1 show ?thesis
    by (simp add: sccp_config_applyLineConfiguration_def Let_def)
qed

lemma applyDeviceConfiguration_code:
  "map_option snd (sccp_config_applyDeviceConfiguration env d v) =
     map_option (\<lambda>st. fst (snd st))
       (apply_variables env SCCP_CONFIG_DEVICE_SEGMENT (sccpDeviceConfigOptions env) v
          (if pendingDelete d
           then d\<lparr>generic_at := (generic_at d)
                     (fst (D_OBJ_REF env ''addons'') := list_head_init env,
                      fst (D_OBJ_REF env ''variables'') := null_pointer env,
                      fst (D_OBJ_REF env ''permithosts'') := list_head_init env,
                      fst (D_OBJ_REF env ''ha'') := null_pointer env)\<rparr>
           else d,
           configurationchange_int env SCCP_CONFIG_NOUPDATENEEDED,
           replicate (length (sccpDeviceConfigOptions env)) 0))"
  (is "_ = map_option _ (apply_variables _ _ ?opts _ (?d0, ?c0, ?a0))")
proof (cases "apply_variables env SCCP_CONFIG_DEVICE_SEGMENT ?opts v (?d0, ?c0, ?a0)")
  case None
  then show ?thesis
    by (simp add: sccp_config_applyDeviceConfiguration_def Let_def)
next
  case (Some st1)
  obtain d1 res already where st1: "st1 = (d1, res, already)"
    by (cases st1) auto
  have len: "length already = length ?opts"
    using apply_variables_length [OF Some [unfolded st1]] by simp
  have "sccp_config_set_defaults env d1 SCCP_CONFIG_DEVICE_SEGMENT already (length already) \<noteq> None"
    by (rule set_defaults_Some) (simp_all add: sccp_find_segment_eval len)
  then obtain d' where "sccp_config_set_defaults env d1 SCCP_CONFIG_DEVICE_SEGMENT already (length already) = Some d'"
    by auto
  with Some st1 show ?thesis
    by (simp add: sccp_config_applyDeviceConfiguration_def Let_def)
qed

subsection \<open>Marking and accumulation commute\<close>

lemma mark_alreadySet_commute:
  "mark_alreadySet opts n (mark_alreadySet opts m already) =
   mark_alreadySet opts m (mark_alreadySet opts n already)"
proof (induction opts arbitrary: already)
  case Nil
  show ?case by (simp add: mark_alreadySet_def)
next
  case (Cons c opts)
  show ?case
  proof (cases already)
    case Nil
    then show ?thesis by (simp add: mark_alreadySet_def)
  next
    case (Cons a as)
    with Cons.IH [of as] show ?thesis by (simp add: mark_alreadySet_def)
  qed
qed

lemma apply_variables_extra_code:
  "apply_variables env segment opts vs (obj, res OR x, mark_alreadySet opts n already) =
     map_option (\<lambda>st. (fst st, fst (snd st) OR x, mark_alreadySet opts n (snd (snd st))))
       (apply_variables env segment opts vs (obj, res, already))"
proof (induction vs arbitrary: obj res already)
  case Nil
  show ?case by simp
next
  case (Cons v vs)
  show ?case
  proof (cases "sccp_config_object_setValue env obj (fst v) (snd v) segment")
    case None
    then show ?thesis by simp
  next
    case (Some r)
    have e1: "(res OR x) OR snd r = (res OR snd r) OR x"
      by (simp add: ac_simps)
    have e2: "mark_alreadySet opts (fst v) (mark_alreadySet opts n already) =
              mark_alreadySet opts n (mark_alreadySet opts (fst v) already)"
      by (rule mark_alreadySet_commute)
    show ?thesis
      by (simp add: Some e1 e2 Cons.IH)
  qed
qed

subsection \<open>Required options\<close>

text \<open>
  C2. The claim is that a required option whose value is empty, or which is missing
  from its section, is recorded as an invalid value. The code tests \<^verbatim>\<open>NULL == value\<close>:
  an empty string is not \<^verbatim>\<open>NULL\<close> and is applied like any other value, and an option
  that is missing never reaches the test, since \<^verbatim>\<open>sccp_config_set_defaults\<close> only
  applies a default that is not empty and drops the result code. For the required line
  option \<^verbatim>\<open>pin\<close>, a pass that supplies the empty string and a pass that supplies
  nothing at all both return no-update-needed, which is not the invalid-value code.
\<close>

theorem C2_empty_or_missing_required_option_counterexample:
  "map_option snd (sccp_config_applyLineConfiguration example_env example_object [(''pin'', Some [])]) =
     Some (configurationchange_int example_env SCCP_CONFIG_NOUPDATENEEDED)
   \<and> map_option snd (sccp_config_applyLineConfiguration example_env example_object []) =
     Some (configurationchange_int example_env SCCP_CONFIG_NOUPDATENEEDED)
   \<and> configurationchange_int example_env SCCP_CONFIG_NOUPDATENEEDED AND
       value_changed_int example_env SCCP_CONFIG_CHANGE_INVALIDVALUE = 0
   \<and> value_changed_int example_env SCCP_CONFIG_CHANGE_INVALIDVALUE \<noteq> 0"
proof -
  have found: "sccp_find_config example_env SCCP_CONFIG_LINE_SEGMENT ''pin'' =
      Some (option_entry ''pin'' (L_OBJ_REF example_env ''pin'') SCCP_CONFIG_DATATYPE_STRING
              SCCP_CONFIG_FLAG_REQUIRED SCCP_CONFIG_NOUPDATENEEDED None None)"
    by (simp add: sccp_find_config_eval sccpLineConfigOptions_def strcasecmp_def tolower_def)
  have pair: "sccp_config_object_setValue example_env example_object ''pin'' (Some []) SCCP_CONFIG_LINE_SEGMENT =
      Some (example_object, 0)"
    by (simp add: sccp_config_object_setValue_def setValue_by_type_def found flag_defs
          strcasecmp_def example_object_def)
  have not_deleted: "\<not> pendingDelete example_object"
    by (simp add: example_object_def)
  show ?thesis
    by (simp add: applyLineConfiguration_code pair not_deleted)
qed

text \<open>
  What holds: for an option whose flag word is exactly \<^verbatim>\<open>required\<close>, a pair whose value
  is \<^verbatim>\<open>NULL\<close> returns the invalid-value code and leaves the object as it was, and the
  pass goes on: the loop over the pairs ends in the state it reaches without that pair,
  with the invalid-value code joined to the result by bitwise or and the option marked
  as supplied; the result code of the line pass is the one of the pass without the pair,
  joined with the invalid-value code.
\<close>

theorem C2_required_null_value_is_invalid_and_pass_continues:
  assumes "sccp_find_config env SCCP_CONFIG_LINE_SEGMENT name = Some opt"
    and "opt_flags opt = SCCP_CONFIG_FLAG_REQUIRED"
    and "0 < opt_offset opt"
  shows "sccp_config_object_setValue env obj name None SCCP_CONFIG_LINE_SEGMENT =
           Some (obj, value_changed_int env SCCP_CONFIG_CHANGE_INVALIDVALUE)
       \<and> apply_variables env SCCP_CONFIG_LINE_SEGMENT (sccpLineConfigOptions env) (xs @ (name, None) # ys) st =
           map_option
             (\<lambda>st'. (fst st', fst (snd st') OR value_changed_int env SCCP_CONFIG_CHANGE_INVALIDVALUE,
                     mark_alreadySet (sccpLineConfigOptions env) name (snd (snd st'))))
             (apply_variables env SCCP_CONFIG_LINE_SEGMENT (sccpLineConfigOptions env) (xs @ ys) st)
       \<and> map_option snd (sccp_config_applyLineConfiguration env obj (xs @ (name, None) # ys)) =
           map_option (\<lambda>r. snd r OR value_changed_int env SCCP_CONFIG_CHANGE_INVALIDVALUE)
             (sccp_config_applyLineConfiguration env obj (xs @ ys))"
proof -
  let ?INV = "value_changed_int env SCCP_CONFIG_CHANGE_INVALIDVALUE"
  let ?opts = "sccpLineConfigOptions env"
  let ?run = "apply_variables env SCCP_CONFIG_LINE_SEGMENT ?opts"
  have pair: "sccp_config_object_setValue env o' name None SCCP_CONFIG_LINE_SEGMENT = Some (o', ?INV)" for o'
    using assms by (simp add: sccp_config_object_setValue_def flag_defs)
  have loop: "?run (xs @ (name, None) # ys) s =
      map_option (\<lambda>st'. (fst st', fst (snd st') OR ?INV, mark_alreadySet ?opts name (snd (snd st'))))
        (?run (xs @ ys) s)" for s
  proof (cases "?run xs s")
    case None
    then show ?thesis by (simp add: apply_variables_append)
  next
    case (Some s1)
    obtain o1 r1 a1 where s1: "s1 = (o1, r1, a1)"
      by (cases s1) auto
    show ?thesis
      by (simp add: apply_variables_append Some s1 pair apply_variables_extra_code)
  qed
  have code: "map_option snd (sccp_config_applyLineConfiguration env obj (xs @ (name, None) # ys)) =
      map_option (\<lambda>r. snd r OR ?INV) (sccp_config_applyLineConfiguration env obj (xs @ ys))"
  proof -
    have "map_option (\<lambda>r. snd r OR ?INV) (sccp_config_applyLineConfiguration env obj (xs @ ys)) =
          map_option (\<lambda>c. c OR ?INV) (map_option snd (sccp_config_applyLineConfiguration env obj (xs @ ys)))"
      by (simp add: option.map_comp comp_def)
    then show ?thesis
      by (simp add: applyLineConfiguration_code loop option.map_comp comp_def)
  qed
  from pair loop code show ?thesis by blast
qed

theorem C2_required_null_value_is_invalid_and_pass_continues_witness:
  "sccp_find_config example_env SCCP_CONFIG_LINE_SEGMENT ''cid_num'' =
     Some (option_entry ''cid_num'' (L_OBJ_REF example_env ''cid_num'') SCCP_CONFIG_DATATYPE_STRING
             SCCP_CONFIG_FLAG_REQUIRED SCCP_CONFIG_NOUPDATENEEDED None None)
   \<and> 0 < fst (L_OBJ_REF example_env ''cid_num'')
   \<and> sccp_config_object_setValue example_env example_object ''cid_num'' None SCCP_CONFIG_LINE_SEGMENT =
       Some (example_object, 2)
   \<and> map_option snd (sccp_config_applyLineConfiguration example_env example_object
         ([(''description'', Some ''Lobby'')] @ (''cid_num'', None) # [(''incominglimit'', Some ''2'')])) =
       map_option (\<lambda>r. snd r OR 2) (sccp_config_applyLineConfiguration example_env example_object
         ([(''description'', Some ''Lobby'')] @ [(''incominglimit'', Some ''2'')]))"
proof -
  let ?opt = "option_entry ''cid_num'' (L_OBJ_REF example_env ''cid_num'') SCCP_CONFIG_DATATYPE_STRING
                SCCP_CONFIG_FLAG_REQUIRED SCCP_CONFIG_NOUPDATENEEDED None None"
  have h1: "sccp_find_config example_env SCCP_CONFIG_LINE_SEGMENT ''cid_num'' = Some ?opt"
    by (simp add: sccp_find_config_eval sccpLineConfigOptions_def strcasecmp_def tolower_def)
  have h2: "opt_flags ?opt = SCCP_CONFIG_FLAG_REQUIRED"
    by simp
  have h3: "0 < opt_offset ?opt"
    by simp
  from C2_required_null_value_is_invalid_and_pass_continues [OF h1 h2 h3,
      of example_object "[(''description'', Some ''Lobby'')]" "[(''incominglimit'', Some ''2'')]"] h1
  show ?thesis by simp
qed

subsection \<open>Propagation of the reset classification\<close>

text \<open>
  C8. The claim is that a changed option marked needs-device-reset makes the pass return
  the reset classification. The string case (like the single-character case) assigns
  \<^verbatim>\<open>SCCP_CONFIG_CHANGE_CHANGED\<close> to \<^verbatim>\<open>changes\<close>, the variable that is returned, and not
  to \<^verbatim>\<open>changed\<close>, the variable that is tested before the table's reset classification
  is taken: for a string option that changes, the device pass returns the code of
  \<^verbatim>\<open>SCCP_CONFIG_CHANGE_CHANGED\<close> joined to the initial no-update-needed, whatever the
  table says about a reset.
\<close>

theorem C8_changed_string_option_returns_changed_not_reset:
  assumes "value_changed_int env SCCP_CONFIG_CHANGE_CHANGED \<noteq> value_changed_int env SCCP_CONFIG_CHANGE_NOCHANGE"
    and "sccp_find_config env SCCP_CONFIG_DEVICE_SEGMENT name = Some opt"
    and "opt_type opt = SCCP_CONFIG_DATATYPE_STRING"
    and "opt_flags opt = SCCP_CONFIG_FLAG_NONE"
    and "opt_change opt = SCCP_CONFIG_NEEDDEVICERESET"
    and "0 < opt_offset opt"
    and "strcasecmp (string_at d (opt_offset opt)) v"
  shows "map_option snd (sccp_config_applyDeviceConfiguration env d [(name, Some v)]) =
           Some (configurationchange_int env SCCP_CONFIG_NOUPDATENEEDED
                 OR value_changed_int env SCCP_CONFIG_CHANGE_CHANGED)"
  using assms
  by (simp add: applyDeviceConfiguration_code sccp_config_object_setValue_def
        setValue_by_type_def flag_defs)

theorem C8_changed_string_option_returns_changed_not_reset_witness:
  "value_changed_int example_env SCCP_CONFIG_CHANGE_CHANGED \<noteq> value_changed_int example_env SCCP_CONFIG_CHANGE_NOCHANGE
   \<and> sccp_find_config example_env SCCP_CONFIG_DEVICE_SEGMENT ''description'' =
       Some (option_entry ''description'' (D_OBJ_REF example_env ''description'') SCCP_CONFIG_DATATYPE_STRING
               SCCP_CONFIG_FLAG_NONE SCCP_CONFIG_NEEDDEVICERESET None None)
   \<and> strcasecmp (string_at example_object (fst (D_OBJ_REF example_env ''description''))) ''Lobby''
   \<and> map_option snd (sccp_config_applyDeviceConfiguration example_env example_object
         [(''description'', Some ''Lobby'')]) = Some 1
   \<and> configurationchange_int example_env SCCP_CONFIG_NEEDDEVICERESET = 2
   \<and> (1::int) AND 2 = 0"
proof -
  let ?opt = "option_entry ''description'' (D_OBJ_REF example_env ''description'') SCCP_CONFIG_DATATYPE_STRING
                SCCP_CONFIG_FLAG_NONE SCCP_CONFIG_NEEDDEVICERESET None None"
  have h1: "value_changed_int example_env SCCP_CONFIG_CHANGE_CHANGED
              \<noteq> value_changed_int example_env SCCP_CONFIG_CHANGE_NOCHANGE"
    by simp
  have h2: "sccp_find_config example_env SCCP_CONFIG_DEVICE_SEGMENT ''description'' = Some ?opt"
    by (simp add: sccp_find_config_eval sccpDeviceConfigOptions_def strcasecmp_def tolower_def)
  have h3: "opt_type ?opt = SCCP_CONFIG_DATATYPE_STRING"
    by simp
  have h4: "opt_flags ?opt = SCCP_CONFIG_FLAG_NONE"
    by simp
  have h5: "opt_change ?opt = SCCP_CONFIG_NEEDDEVICERESET"
    by simp
  have h6: "0 < opt_offset ?opt"
    by simp
  have h7: "strcasecmp (string_at example_object (opt_offset ?opt)) ''Lobby''"
    by (simp add: strcasecmp_def example_object_def)
  from C8_changed_string_option_returns_changed_not_reset [OF h1 h2 h3 h4 h5 h6 h7] h1 h2 h7
  show ?thesis by simp
qed

subsection \<open>What a default leaves alone\<close>

lemma setValue_int_at_other:
  assumes "sccp_config_object_setValue env obj name val segment = Some (obj', r)"
    and "\<And>opt. sccp_find_config env segment name = Some opt \<Longrightarrow>
            opt_type opt = SCCP_CONFIG_DATATYPE_INT \<Longrightarrow> opt_offset opt \<noteq> k"
  shows "int_at obj' k = int_at obj k"
proof (cases "sccp_find_config env segment name")
  case None
  with assms(1) show ?thesis
    by (simp add: sccp_config_object_setValue_def)
next
  case (Some opt)
  from assms(2) [OF Some] have other: "opt_type opt = SCCP_CONFIG_DATATYPE_INT \<Longrightarrow> opt_offset opt \<noteq> k" .
  from assms(1) Some other show ?thesis
    by (cases "opt_type opt")
       (auto simp: sccp_config_object_setValue_def setValue_by_type_def Let_def
          split: if_splits option.splits list.splits)
qed

lemma set_defaults_entry_int_at_other:
  assumes "set_defaults_entry env obj segment dst val = Some st'"
    and "\<And>opt. sccp_find_config env segment (opt_name dst) = Some opt \<Longrightarrow>
            opt_type opt = SCCP_CONFIG_DATATYPE_INT \<Longrightarrow> opt_offset opt \<noteq> k"
  shows "int_at (fst st') k = int_at obj k"
  using assms(1) setValue_int_at_other [of env obj "opt_name dst" _ segment _ _ k, OF _ assms(2)]
  by (auto simp: set_defaults_entry_def split: option.splits if_splits)

lemma set_defaults_loop_int_at_other:
  assumes "set_defaults_loop env segment dst already idx st = Some st'"
    and "\<And>i opt. i \<in> set idx \<Longrightarrow> sccp_find_config env segment (opt_name (dst ! i)) = Some opt \<Longrightarrow>
            opt_type opt = SCCP_CONFIG_DATATYPE_INT \<Longrightarrow> opt_offset opt \<noteq> k"
  shows "int_at (fst st') k = int_at (fst st) k"
  using assms
proof (induction idx arbitrary: st)
  case Nil
  then show ?case by simp
next
  case (Cons i idx)
  have rest: "opt_offset opt \<noteq> k"
    if "j \<in> set idx" "sccp_find_config env segment (opt_name (dst ! j)) = Some opt"
       "opt_type opt = SCCP_CONFIG_DATATYPE_INT" for j opt
    using Cons.prems(2) [of j opt] that by simp
  have here: "opt_offset opt \<noteq> k"
    if "sccp_find_config env segment (opt_name (dst ! i)) = Some opt"
       "opt_type opt = SCCP_CONFIG_DATATYPE_INT" for opt
    using Cons.prems(2) [of i opt] that by simp
  show ?case
  proof (cases "already ! i = 0 \<and> (opt_flags (dst ! i) AND SCCP_CONFIG_FLAG_OBSOLETE) = 0")
    case False
    with Cons.prems(1) have "set_defaults_loop env segment dst already idx st = Some st'"
      by (auto split: if_splits)
    from Cons.IH [OF this rest] show ?thesis .
  next
    case True
    with Cons.prems(1) obtain st1 where
      e: "set_defaults_entry env (fst st) segment (dst ! i) (snd st) = Some st1" and
      l: "set_defaults_loop env segment dst already idx st1 = Some st'"
      by (auto split: if_splits option.splits)
    have "int_at (fst st1) k = int_at (fst st) k"
      using set_defaults_entry_int_at_other [OF e here] .
    moreover have "int_at (fst st') k = int_at (fst st1) k"
      using Cons.IH [OF l rest] .
    ultimately show ?thesis by simp
  qed
qed

lemma set_defaults_loop_append:
  "set_defaults_loop env segment dst already (xs @ ys) st =
     (case set_defaults_loop env segment dst already xs st of
        None \<Rightarrow> None
      | Some st' \<Rightarrow> set_defaults_loop env segment dst already ys st')"
  by (induction xs arbitrary: st) (auto split: option.splits)

lemma mark_alreadySet_nth:
  "i < length opts \<Longrightarrow> i < length already \<Longrightarrow>
     mark_alreadySet opts name already ! i =
       (if \<not> strcasecmp (opt_name (opts ! i)) name then 1 else already ! i)"
  by (simp add: mark_alreadySet_def)

lemma find_config_in_table:
  assumes "find (\<lambda>c. \<not> strcasecmp (opt_name c) name) opts = Some opt"
  shows "opt \<in> set opts \<and> \<not> strcasecmp (opt_name opt) name"
  using assms by (auto simp: find_Some_iff)

subsection \<open>Inheriting from the device section\<close>

text \<open>
  C3. The claim is that for an option flagged inherit-from-device-default a value found
  in the device's section of the configuration file is the value that is applied. In
  the code the case \<^verbatim>\<open>SCCP_CONFIG_FLAG_GET_DEVICE_DEFAULT\<close> has no \<^verbatim>\<open>break\<close>: control runs
  into the case \<^verbatim>\<open>SCCP_CONFIG_FLAG_GET_GLOBAL_DEFAULT\<close>, whose first statement assigns
  the result of the lookup in \<^verbatim>\<open>[general]\<close> to \<^verbatim>\<open>value\<close>. The resolved value is the one
  of the general section (or the default literal of the global option of that name, or
  the option's own default literal) and does not depend on the device's section.
\<close>

theorem C3_device_section_value_is_discarded:
  assumes "opt_flags dst = SCCP_CONFIG_FLAG_GET_DEVICE_DEFAULT"
  shows "default_value_switch env obj dst val =
           (case default_from_segment env ''general'' SCCP_CONFIG_GLOBAL_SEGMENT (opt_name dst) of
              Some v \<Rightarrow> Some v
            | None \<Rightarrow> opt_defaultValue dst)"
  using assms by (simp add: default_value_switch_def Let_def split: option.splits)

text \<open>
  The line option \<^verbatim>\<open>meetmeopts\<close> inherits from the device; the device's section says
  \<^verbatim>\<open>meetmeopts=abc\<close> and the general section has no such key: the line receives
  \<^verbatim>\<open>qxd\<close>, the default literal of the global option.
\<close>

theorem C3_device_section_value_is_discarded_witness:
  "opt_flags (option_entry ''meetmeopts'' (L_OBJ_REF configured_env ''meetmeopts'') SCCP_CONFIG_DATATYPE_STRING
                SCCP_CONFIG_FLAG_GET_DEVICE_DEFAULT SCCP_CONFIG_NOUPDATENEEDED None None) =
     SCCP_CONFIG_FLAG_GET_DEVICE_DEFAULT
   \<and> option_entry ''meetmeopts'' (L_OBJ_REF configured_env ''meetmeopts'') SCCP_CONFIG_DATATYPE_STRING
        SCCP_CONFIG_FLAG_GET_DEVICE_DEFAULT SCCP_CONFIG_NOUPDATENEEDED None None
       \<in> set (sccpLineConfigOptions configured_env)
   \<and> pbx_variable_retrieve configured_env (device_id example_object) ''meetmeopts'' = Some ''abc''
   \<and> default_value_switch configured_env example_object
        (option_entry ''meetmeopts'' (L_OBJ_REF configured_env ''meetmeopts'') SCCP_CONFIG_DATATYPE_STRING
           SCCP_CONFIG_FLAG_GET_DEVICE_DEFAULT SCCP_CONFIG_NOUPDATENEEDED None None) None = Some ''qxd''"
proof -
  let ?dst = "option_entry ''meetmeopts'' (L_OBJ_REF configured_env ''meetmeopts'') SCCP_CONFIG_DATATYPE_STRING
                SCCP_CONFIG_FLAG_GET_DEVICE_DEFAULT SCCP_CONFIG_NOUPDATENEEDED None None"
  have h1: "opt_flags ?dst = SCCP_CONFIG_FLAG_GET_DEVICE_DEFAULT"
    by simp
  have h2: "?dst \<in> set (sccpLineConfigOptions configured_env)"
    by (simp add: sccpLineConfigOptions_def)
  have h3: "pbx_variable_retrieve configured_env (device_id example_object) ''meetmeopts'' = Some ''abc''"
    by (simp add: example_retrieve_def example_object_def)
  have g1: "sccp_find_config configured_env SCCP_CONFIG_GLOBAL_SEGMENT ''meetmeopts'' =
      Some (option_entry ''meetmeopts'' (G_OBJ_REF configured_env ''meetmeopts'') SCCP_CONFIG_DATATYPE_STRING
              SCCP_CONFIG_FLAG_NONE SCCP_CONFIG_NOUPDATENEEDED (Some ''qxd'') None)"
    by (simp add: sccp_find_config_eval sccpGlobalConfigOptions_def strcasecmp_def tolower_def)
  have general: "default_from_segment configured_env ''general'' SCCP_CONFIG_GLOBAL_SEGMENT ''meetmeopts'' = Some ''qxd''"
    by (simp add: default_from_segment_def example_retrieve_def g1)
  from C3_device_section_value_is_discarded [OF h1, of configured_env example_object None] h1 h2 h3 general
  show ?thesis by simp
qed

subsection \<open>Inheriting from the general section\<close>

lemma device_table_length: "length (sccpDeviceConfigOptions env) = 48"
  by (simp add: sccpDeviceConfigOptions_def)

lemma device_table_keepalive:
  "sccpDeviceConfigOptions env ! 6 =
     option_entry ''keepalive'' (D_OBJ_REF env ''keepalive'') SCCP_CONFIG_DATATYPE_INT
       SCCP_CONFIG_FLAG_GET_GLOBAL_DEFAULT SCCP_CONFIG_NEEDDEVICERESET None None"
  by (simp add: sccpDeviceConfigOptions_def)

lemma device_find_keepalive:
  "sccp_find_config env SCCP_CONFIG_DEVICE_SEGMENT ''keepalive'' =
     Some (option_entry ''keepalive'' (D_OBJ_REF env ''keepalive'') SCCP_CONFIG_DATATYPE_INT
             SCCP_CONFIG_FLAG_GET_GLOBAL_DEFAULT SCCP_CONFIG_NEEDDEVICERESET None None)"
  by (simp add: sccp_find_config_eval sccpDeviceConfigOptions_def strcasecmp_def tolower_def)

lemma device_int_options_all:
  "list_all (\<lambda>opt. opt_type opt = SCCP_CONFIG_DATATYPE_INT \<longrightarrow>
       opt_name opt = ''keepalive'' \<and> opt_offset opt = fst (D_OBJ_REF env ''keepalive'')
         \<or> opt_offset opt = fst (D_OBJ_REF env ''tz_offset'')) (sccpDeviceConfigOptions env)"
  by (simp add: sccpDeviceConfigOptions_def)

lemma device_int_options:
  assumes "opt \<in> set (sccpDeviceConfigOptions env)" and "opt_type opt = SCCP_CONFIG_DATATYPE_INT"
  shows "opt_name opt = ''keepalive'' \<and> opt_offset opt = fst (D_OBJ_REF env ''keepalive'')
         \<or> opt_offset opt = fst (D_OBJ_REF env ''tz_offset'')"
  using device_int_options_all [of env] assms unfolding list_all_iff by blast

lemma device_names_after_keepalive:
  "list_all (\<lambda>c. strcasecmp ''keepalive'' (opt_name c)) (drop 7 (sccpDeviceConfigOptions env))"
  by (simp add: sccpDeviceConfigOptions_def strcasecmp_def tolower_def)

lemma atoi_45: "atoi ''45'' = 45"
  by (simp add: atoi_def strtol_def isspace_def isdigit_def)

lemma upt_48_split: "[0..<48] = [0..<6] @ 6 # [7..<48]"
  by (simp add: upt_rec [of 6 48] upt_add_eq_append [of 0 6 42, simplified] del: upt_Suc)

text \<open>
  The scenario: a device section that has \<^verbatim>\<open>devicetype=7960\<close> and no \<^verbatim>\<open>keepalive\<close>,
  while the general section has \<^verbatim>\<open>keepalive=45\<close>. The member \<^verbatim>\<open>keepalive\<close> of the device
  is taken to lie at a positive offset, and not at the offset of \<^verbatim>\<open>tz_offset\<close>, the member
  of the only other integer option of the device table.
\<close>

lemma keepalive_scenario:
  assumes cfg: "pbx_variable_retrieve env ''general'' ''keepalive'' = Some ''45''"
    and pos: "0 < fst (D_OBJ_REF env ''keepalive'')"
    and apart: "fst (D_OBJ_REF env ''tz_offset'') \<noteq> fst (D_OBJ_REF env ''keepalive'')"
  shows "\<exists>d' res. sccp_config_applyDeviceConfiguration env d [(''devicetype'', Some ''7960'')] = Some (d', res)
           \<and> int_at d' (fst (D_OBJ_REF env ''keepalive'')) = 45"
proof -
  let ?k = "fst (D_OBJ_REF env ''keepalive'')"
  let ?dev = "sccpDeviceConfigOptions env"
  let ?seg = "SCCP_CONFIG_DEVICE_SEGMENT"
  let ?d0 = "if pendingDelete d
             then d\<lparr>generic_at := (generic_at d)
                       (fst (D_OBJ_REF env ''addons'') := list_head_init env,
                        fst (D_OBJ_REF env ''variables'') := null_pointer env,
                        fst (D_OBJ_REF env ''permithosts'') := list_head_init env,
                        fst (D_OBJ_REF env ''ha'') := null_pointer env)\<rparr>
             else d"
  define already where "already = mark_alreadySet ?dev ''devicetype'' (replicate (length ?dev) 0)"
  define before6 :: "nat list" where "before6 = [0..<6]"
  define after6 :: "nat list" where "after6 = [7..<48]"
  let ?loop = "set_defaults_loop env ?seg ?dev already"
  have split: "[0..<48] = before6 @ 6 # after6"
    unfolding before6_def after6_def by (rule upt_48_split)
  have in_before: "i < 48" if "i \<in> set before6" for i
    using that by (simp add: before6_def del: upt_rec_numeral)
  have in_after: "7 \<le> i \<and> i < 48" if "i \<in> set after6" for i
    using that by (simp add: after6_def del: upt_rec_numeral)
  obtain d1 r1 where supplied:
    "sccp_config_object_setValue env ?d0 ''devicetype'' (Some ''7960'') ?seg = Some (d1, r1)"
    using setValue_Some [of env ?d0 "''devicetype''" "''7960''" ?seg] by auto
  have len: "length already = 48" "length ?dev = 48"
    by (simp_all add: already_def device_table_length)
  \<comment> \<open>the options before \<^verbatim>\<open>keepalive\<close>\<close>
  have "?loop before6 (d1, Some []) \<noteq> None"
    by (rule set_defaults_loop_Some) (use in_before len in auto)
  then obtain st6 where before: "?loop before6 (d1, Some []) = Some st6"
    by auto
  \<comment> \<open>the option \<^verbatim>\<open>keepalive\<close> itself\<close>
  have not_set: "already ! 6 = 0"
    unfolding already_def
    by (simp add: mark_alreadySet_nth device_table_length device_table_keepalive strcasecmp_def tolower_def)
  have resolved: "default_value_switch env (fst st6) (?dev ! 6) (snd st6) = Some ''45''"
    by (simp add: default_value_switch_def default_from_segment_def device_table_keepalive cfg)
  obtain d7 r7 where applied:
    "sccp_config_object_setValue env (fst st6) ''keepalive'' (Some ''45'') ?seg = Some (d7, r7)"
    using setValue_Some [of env "fst st6" "''keepalive''" "''45''" ?seg] by auto
  have value7: "int_at d7 ?k = 45"
    using applied pos
    by (auto simp: sccp_config_object_setValue_def setValue_by_type_def device_find_keepalive
          flag_defs atoi_45 Let_def split: if_splits)
  have entry6: "set_defaults_entry env (fst st6) ?seg (?dev ! 6) (snd st6) = Some (d7, None)"
    using resolved applied by (simp add: set_defaults_entry_def device_table_keepalive)
  have at6: "?loop (6 # after6) st6 = ?loop after6 (d7, None)"
    using not_set entry6 len
    by (simp add: device_table_keepalive flag_defs)
  \<comment> \<open>the options after it\<close>
  have "?loop after6 (d7, None) \<noteq> None"
    by (rule set_defaults_loop_Some) (use in_after len in auto)
  then obtain st' where after: "?loop after6 (d7, None) = Some st'"
    by auto
  have other: "opt_offset opt \<noteq> ?k"
    if i: "i \<in> set after6" and found: "sccp_find_config env ?seg (opt_name (?dev ! i)) = Some opt"
      and int: "opt_type opt = SCCP_CONFIG_DATATYPE_INT" for i opt
  proof -
    from found have mem: "opt \<in> set ?dev" and name: "\<not> strcasecmp (opt_name opt) (opt_name (?dev ! i))"
      using find_config_in_table [of "opt_name (?dev ! i)" ?dev opt]
      by (simp_all add: sccp_find_config_eval)
    from in_after [OF i] have "?dev ! i = drop 7 ?dev ! (i - 7)" "i - 7 < length (drop 7 ?dev)"
      by (auto simp: len)
    then have "?dev ! i \<in> set (drop 7 ?dev)"
      by (metis nth_mem)
    with device_names_after_keepalive [of env]
    have differs: "strcasecmp ''keepalive'' (opt_name (?dev ! i))"
      by (simp add: list_all_iff)
    from device_int_options [OF mem int] name differs apart show ?thesis
      by auto
  qed
  have kept: "int_at (fst st') ?k = 45"
    using set_defaults_loop_int_at_other [OF after other] value7 by simp
  have loop: "?loop [0..<48] (d1, Some []) = Some st'"
    unfolding split by (simp only: set_defaults_loop_append before at6 after option.case)
  have defaults: "sccp_config_set_defaults env d1 ?seg already (length already) = Some (fst st')"
    unfolding sccp_config_set_defaults_def
    by (simp add: sccp_find_segment_eval len loop del: upt_rec_numeral upt_Suc)
  have "sccp_config_applyDeviceConfiguration env d [(''devicetype'', Some ''7960'')] =
          Some (fst st', configurationchange_int env SCCP_CONFIG_NOUPDATENEEDED OR r1)"
    using supplied defaults
    by (simp add: sccp_config_applyDeviceConfiguration_def Let_def already_def)
  with kept show ?thesis by blast
qed

text \<open>
  C5. The claim is that for every option flagged inherit-from-global-default the value of
  a same-named key of the general section is the one that is applied. Two inputs refute
  it as stated. The \<^verbatim>\<open>switch\<close> compares the whole flag word: the device option \<^verbatim>\<open>nat\<close>
  carries the flag together with the deprecated flag and takes the \<^verbatim>\<open>default\<close> branch,
  so \<^verbatim>\<open>nat=on\<close> of the general section is not applied. And a resolved value that is the
  empty string is never applied, so an empty \<^verbatim>\<open>imageversion=\<close> of the general section
  does not clear the image version of a device.
\<close>

theorem C5_combined_flag_or_empty_value_counterexample:
  "option_entry ''nat'' (D_OBJ_REF configured_env ''nat'') SCCP_CONFIG_DATATYPE_BOOLEAN
       (SCCP_CONFIG_FLAG_DEPRECATED OR SCCP_CONFIG_FLAG_GET_GLOBAL_DEFAULT) SCCP_CONFIG_NOUPDATENEEDED None None
     \<in> set (sccpDeviceConfigOptions configured_env)
   \<and> (SCCP_CONFIG_FLAG_DEPRECATED OR SCCP_CONFIG_FLAG_GET_GLOBAL_DEFAULT) AND SCCP_CONFIG_FLAG_GET_GLOBAL_DEFAULT \<noteq> 0
   \<and> pbx_variable_retrieve configured_env ''general'' ''nat'' = Some ''on''
   \<and> set_defaults_entry configured_env example_object SCCP_CONFIG_DEVICE_SEGMENT
        (option_entry ''nat'' (D_OBJ_REF configured_env ''nat'') SCCP_CONFIG_DATATYPE_BOOLEAN
           (SCCP_CONFIG_FLAG_DEPRECATED OR SCCP_CONFIG_FLAG_GET_GLOBAL_DEFAULT) SCCP_CONFIG_NOUPDATENEEDED None None)
        None = Some (example_object, None)
   \<and> sccp_config_object_setValue configured_env example_object ''nat'' (Some ''on'') SCCP_CONFIG_DEVICE_SEGMENT =
       Some (example_object\<lparr>boolean_at := (boolean_at example_object)
                              (fst (D_OBJ_REF configured_env ''nat'') := - 1)\<rparr>, 0)
   \<and> boolean_at example_object (fst (D_OBJ_REF configured_env ''nat'')) = 0
   \<and> option_entry ''imageversion'' (D_OBJ_REF configured_env ''imageversion'') SCCP_CONFIG_DATATYPE_STRING
        SCCP_CONFIG_FLAG_GET_GLOBAL_DEFAULT SCCP_CONFIG_NEEDDEVICERESET None None
     \<in> set (sccpDeviceConfigOptions configured_env)
   \<and> pbx_variable_retrieve configured_env ''general'' ''imageversion'' = Some []
   \<and> set_defaults_entry configured_env (example_object\<lparr>string_at := (\<lambda>_. ''P00308000500'')\<rparr>)
        SCCP_CONFIG_DEVICE_SEGMENT
        (option_entry ''imageversion'' (D_OBJ_REF configured_env ''imageversion'') SCCP_CONFIG_DATATYPE_STRING
           SCCP_CONFIG_FLAG_GET_GLOBAL_DEFAULT SCCP_CONFIG_NEEDDEVICERESET None None)
        None = Some (example_object\<lparr>string_at := (\<lambda>_. ''P00308000500'')\<rparr>, None)
   \<and> sccp_config_object_setValue configured_env (example_object\<lparr>string_at := (\<lambda>_. ''P00308000500'')\<rparr>)
        ''imageversion'' (Some []) SCCP_CONFIG_DEVICE_SEGMENT =
       Some (example_object\<lparr>string_at := (\<lambda>_. ''P00308000500'')
                              (fst (D_OBJ_REF configured_env ''imageversion'') := [])\<rparr>, 1)"
proof -
  have nat_found: "sccp_find_config configured_env SCCP_CONFIG_DEVICE_SEGMENT ''nat'' =
      Some (option_entry ''nat'' (D_OBJ_REF configured_env ''nat'') SCCP_CONFIG_DATATYPE_BOOLEAN
              (SCCP_CONFIG_FLAG_DEPRECATED OR SCCP_CONFIG_FLAG_GET_GLOBAL_DEFAULT)
              SCCP_CONFIG_NOUPDATENEEDED None None)"
    by (simp add: sccp_find_config_eval sccpDeviceConfigOptions_def strcasecmp_def tolower_def)
  have image_found: "sccp_find_config configured_env SCCP_CONFIG_DEVICE_SEGMENT ''imageversion'' =
      Some (option_entry ''imageversion'' (D_OBJ_REF configured_env ''imageversion'') SCCP_CONFIG_DATATYPE_STRING
              SCCP_CONFIG_FLAG_GET_GLOBAL_DEFAULT SCCP_CONFIG_NEEDDEVICERESET None None)"
    by (simp add: sccp_find_config_eval sccpDeviceConfigOptions_def strcasecmp_def tolower_def)
  have c1: "option_entry ''nat'' (D_OBJ_REF configured_env ''nat'') SCCP_CONFIG_DATATYPE_BOOLEAN
       (SCCP_CONFIG_FLAG_DEPRECATED OR SCCP_CONFIG_FLAG_GET_GLOBAL_DEFAULT) SCCP_CONFIG_NOUPDATENEEDED None None
     \<in> set (sccpDeviceConfigOptions configured_env)"
    by (simp add: sccpDeviceConfigOptions_def)
  have c2: "(SCCP_CONFIG_FLAG_DEPRECATED OR SCCP_CONFIG_FLAG_GET_GLOBAL_DEFAULT) AND SCCP_CONFIG_FLAG_GET_GLOBAL_DEFAULT \<noteq> 0"
    by (simp add: flag_defs)
  have c3: "pbx_variable_retrieve configured_env ''general'' ''nat'' = Some ''on''"
    by (simp add: example_retrieve_def)
  have c4: "set_defaults_entry configured_env example_object SCCP_CONFIG_DEVICE_SEGMENT
        (option_entry ''nat'' (D_OBJ_REF configured_env ''nat'') SCCP_CONFIG_DATATYPE_BOOLEAN
           (SCCP_CONFIG_FLAG_DEPRECATED OR SCCP_CONFIG_FLAG_GET_GLOBAL_DEFAULT) SCCP_CONFIG_NOUPDATENEEDED None None)
        None = Some (example_object, None)"
    by (simp add: set_defaults_entry_def default_value_switch_def flag_defs)
  have c5: "sccp_config_object_setValue configured_env example_object ''nat'' (Some ''on'') SCCP_CONFIG_DEVICE_SEGMENT =
       Some (example_object\<lparr>boolean_at := (boolean_at example_object)
                              (fst (D_OBJ_REF configured_env ''nat'') := - 1)\<rparr>, 0)"
    by (simp add: sccp_config_object_setValue_def setValue_by_type_def nat_found flag_defs
          example_true_def strcasecmp_def tolower_def example_object_def)
  have c6: "boolean_at example_object (fst (D_OBJ_REF configured_env ''nat'')) = 0"
    by (simp add: example_object_def)
  have c7: "option_entry ''imageversion'' (D_OBJ_REF configured_env ''imageversion'') SCCP_CONFIG_DATATYPE_STRING
        SCCP_CONFIG_FLAG_GET_GLOBAL_DEFAULT SCCP_CONFIG_NEEDDEVICERESET None None
     \<in> set (sccpDeviceConfigOptions configured_env)"
    by (simp add: sccpDeviceConfigOptions_def)
  have c8: "pbx_variable_retrieve configured_env ''general'' ''imageversion'' = Some []"
    by (simp add: example_retrieve_def)
  have c9: "set_defaults_entry configured_env (example_object\<lparr>string_at := (\<lambda>_. ''P00308000500'')\<rparr>)
        SCCP_CONFIG_DEVICE_SEGMENT
        (option_entry ''imageversion'' (D_OBJ_REF configured_env ''imageversion'') SCCP_CONFIG_DATATYPE_STRING
           SCCP_CONFIG_FLAG_GET_GLOBAL_DEFAULT SCCP_CONFIG_NEEDDEVICERESET None None)
        None = Some (example_object\<lparr>string_at := (\<lambda>_. ''P00308000500'')\<rparr>, None)"
    by (simp add: set_defaults_entry_def default_value_switch_def default_from_segment_def
          example_retrieve_def flag_defs)
  have c10: "sccp_config_object_setValue configured_env (example_object\<lparr>string_at := (\<lambda>_. ''P00308000500'')\<rparr>)
        ''imageversion'' (Some []) SCCP_CONFIG_DEVICE_SEGMENT =
       Some (example_object\<lparr>string_at := (\<lambda>_. ''P00308000500'')
                              (fst (D_OBJ_REF configured_env ''imageversion'') := [])\<rparr>, 1)"
    by (simp add: sccp_config_object_setValue_def setValue_by_type_def image_found flag_defs
          strcasecmp_def pbx_copy_string_def example_object_def)
  from c1 c2 c3 c4 c5 c6 c7 c8 c9 c10 show ?thesis by blast
qed

text \<open>
  What holds: when the flag word of an option that was not supplied is exactly
  inherit-from-global-default and the general section has a same-named key with a
  value that is not empty, that value is the resolved one, whatever the option's own
  default literal, and it goes through \<^verbatim>\<open>sccp_config_object_setValue\<close>; and in the
  scenario of the device with \<^verbatim>\<open>devicetype=7960\<close> the pass returns with the keep-alive of
  the device equal to 45.
\<close>

theorem C5_general_section_value_is_applied:
  "(opt_flags dst = SCCP_CONFIG_FLAG_GET_GLOBAL_DEFAULT
      \<and> pbx_variable_retrieve env ''general'' (opt_name dst) = Some v \<and> v \<noteq> [] \<longrightarrow>
        default_value_switch env obj dst val = Some v
      \<and> set_defaults_entry env obj segment dst val =
          map_option (\<lambda>r. (fst r, None))
            (sccp_config_object_setValue env obj (opt_name dst) (Some v) segment))
   \<and> (pbx_variable_retrieve env ''general'' ''keepalive'' = Some ''45''
      \<and> 0 < fst (D_OBJ_REF env ''keepalive'')
      \<and> fst (D_OBJ_REF env ''tz_offset'') \<noteq> fst (D_OBJ_REF env ''keepalive'') \<longrightarrow>
        (\<exists>d' res. sccp_config_applyDeviceConfiguration env d [(''devicetype'', Some ''7960'')] = Some (d', res)
           \<and> int_at d' (fst (D_OBJ_REF env ''keepalive'')) = 45))"
proof (intro conjI impI)
  assume a: "opt_flags dst = SCCP_CONFIG_FLAG_GET_GLOBAL_DEFAULT
      \<and> pbx_variable_retrieve env ''general'' (opt_name dst) = Some v \<and> v \<noteq> []"
  then show resolved: "default_value_switch env obj dst val = Some v"
    by (simp add: default_value_switch_def default_from_segment_def flag_defs)
  from a resolved show "set_defaults_entry env obj segment dst val =
      map_option (\<lambda>r. (fst r, None)) (sccp_config_object_setValue env obj (opt_name dst) (Some v) segment)"
    by (simp add: set_defaults_entry_def split: option.splits)
next
  assume "pbx_variable_retrieve env ''general'' ''keepalive'' = Some ''45''
      \<and> 0 < fst (D_OBJ_REF env ''keepalive'')
      \<and> fst (D_OBJ_REF env ''tz_offset'') \<noteq> fst (D_OBJ_REF env ''keepalive'')"
  then show "\<exists>d' res. sccp_config_applyDeviceConfiguration env d [(''devicetype'', Some ''7960'')] = Some (d', res)
           \<and> int_at d' (fst (D_OBJ_REF env ''keepalive'')) = 45"
    using keepalive_scenario [of env d] by blast
qed

theorem C5_general_section_value_is_applied_witness:
  "opt_flags (option_entry ''keepalive'' (D_OBJ_REF configured_env ''keepalive'') SCCP_CONFIG_DATATYPE_INT
                SCCP_CONFIG_FLAG_GET_GLOBAL_DEFAULT SCCP_CONFIG_NEEDDEVICERESET None None) =
     SCCP_CONFIG_FLAG_GET_GLOBAL_DEFAULT
   \<and> pbx_variable_retrieve configured_env ''general'' ''keepalive'' = Some ''45''
   \<and> ''45'' \<noteq> []
   \<and> 0 < fst (D_OBJ_REF configured_env ''keepalive'')
   \<and> fst (D_OBJ_REF configured_env ''tz_offset'') \<noteq> fst (D_OBJ_REF configured_env ''keepalive'')
   \<and> default_value_switch configured_env example_object
        (option_entry ''keepalive'' (D_OBJ_REF configured_env ''keepalive'') SCCP_CONFIG_DATATYPE_INT
           SCCP_CONFIG_FLAG_GET_GLOBAL_DEFAULT SCCP_CONFIG_NEEDDEVICERESET None None) None = Some ''45''
   \<and> (\<exists>d' res. sccp_config_applyDeviceConfiguration configured_env example_object
                   [(''devicetype'', Some ''7960'')] = Some (d', res)
         \<and> int_at d' (fst (D_OBJ_REF configured_env ''keepalive'')) = 45)"
proof -
  let ?dst = "option_entry ''keepalive'' (D_OBJ_REF configured_env ''keepalive'') SCCP_CONFIG_DATATYPE_INT
                SCCP_CONFIG_FLAG_GET_GLOBAL_DEFAULT SCCP_CONFIG_NEEDDEVICERESET None None"
  have h1: "opt_flags ?dst = SCCP_CONFIG_FLAG_GET_GLOBAL_DEFAULT"
    by simp
  have h2: "pbx_variable_retrieve configured_env ''general'' ''keepalive'' = Some ''45''"
    by (simp add: example_retrieve_def)
  have h3: "''45'' \<noteq> []"
    by simp
  have h4: "0 < fst (D_OBJ_REF configured_env ''keepalive'')"
    by simp
  have h5: "fst (D_OBJ_REF configured_env ''tz_offset'') \<noteq> fst (D_OBJ_REF configured_env ''keepalive'')"
    by (simp add: D_OBJ_REF_def example_offset_size_def)
  from C5_general_section_value_is_applied
         [of ?dst configured_env "''45''" example_object None SCCP_CONFIG_DEVICE_SEGMENT example_object]
       h1 h2 h3 h4 h5
  show ?thesis by simp
qed

subsection \<open>Merging a line button\<close>

lemma addButton_traverse_found:
  assumes "\<forall>c\<in>set pre. \<not> (bc_pendingDelete c \<and> bc_type c = LINE \<and> bc_label c = n)"
    and "bc_pendingDelete e" and "bc_type e = LINE" and "bc_label e = n"
  shows "\<exists>h'. addButton_traverse (pre @ e # post) pos 0 LINE (Some n) h =
           Some (Some (pos + length pre), bc_index e, h')"
  using assms(1)
proof (induction pre arbitrary: pos h)
  case Nil
  with assms(2-4) show ?case by (simp add: strcmp_def)
next
  case (Cons c pre)
  from Cons.prems have "\<forall>c\<in>set pre. \<not> (bc_pendingDelete c \<and> bc_type c = LINE \<and> bc_label c = n)"
    by simp
  from Cons.IH [OF this, of "Suc pos" "bc_index c"] Cons.prems show ?case
    by (auto simp: strcmp_def)
qed

text \<open>
  C4. The first half of the claim holds: a line button that is identical to the one
  found for it is reported as no change. The second half does not: when the existing
  line button agrees in label, line name and subscription identifier, both branches of
  the test of the options assign \<^verbatim>\<open>SCCP_CONFIG_CHANGE_NOCHANGE\<close> and leave the
  \<^verbatim>\<open>switch\<close>, so the result is no-change whatever the options are, and the stored
  options are kept. (The speed-dial and feature cases have one branch only and go on to
  store the new values.) The entry is the first one marked for deletion with this type
  and label, which is how a call with index \<open>0\<close> finds it.
\<close>

theorem C4_line_button_options_are_never_compared:
  assumes "\<forall>c\<in>set pre. \<not> (bc_pendingDelete c \<and> bc_type c = LINE \<and> bc_label c = n)"
    and "bc_pendingDelete e" and "bc_type e = LINE" and "bc_label e = n"
    and "0 \<le> bc_index e" and "n \<noteq> []"
    and "line_name e = mainId (sccp_parseComposedId benv n 80)"
    and "map tolower (sub_number (line_subscriptionId e)) =
         map tolower (sub_number (subscriptionId (sccp_parseComposedId benv n 80)))"
    and "sub_name (line_subscriptionId e) = sub_name (subscriptionId (sccp_parseComposedId benv n 80))"
    and "sub_aux (line_subscriptionId e) = sub_aux (subscriptionId (sccp_parseComposedId benv n 80))"
  shows "sccp_config_addButton env benv (pre @ e # post) 0 LINE (Some n) options args =
           Some (pre @ e\<lparr>bc_pendingDelete := False, bc_pendingUpdate := True\<rparr> # post,
                 value_changed_int env SCCP_CONFIG_CHANGE_NOCHANGE)"
proof -
  obtain h' where traverse:
    "addButton_traverse (pre @ e # post) 0 0 LINE (Some n) 0 = Some (Some (length pre), bc_index e, h')"
    using addButton_traverse_found [OF assms(1-4), of post 0 0] by auto
  show ?thesis
    using assms(3-10)
    by (simp add: sccp_config_addButton_def traverse Let_def addButton_switch_def
          sccp_strlen_zero_def sccp_strcmp_def sccp_strcasecmp_def)
qed

text \<open>
  The button of line 100 carries the option \<^verbatim>\<open>default\<close>; inserting it again with the
  option \<^verbatim>\<open>silent\<close> reports no change and keeps \<^verbatim>\<open>default\<close>.
\<close>

theorem C4_line_button_options_are_never_compared_witness:
  "bc_pendingDelete example_button \<and> bc_type example_button = LINE \<and> bc_label example_button = ''100''
   \<and> line_options example_button = ''default''
   \<and> sccp_config_addButton example_env example_button_env [example_button] 0 LINE (Some ''100'')
        (Some ''silent'') None =
       Some ([example_button\<lparr>bc_pendingDelete := False, bc_pendingUpdate := True\<rparr>], 0)
   \<and> line_options (example_button\<lparr>bc_pendingDelete := False, bc_pendingUpdate := True\<rparr>) = ''default''
   \<and> sccp_config_addButton example_env example_button_env [example_button] 0 LINE (Some ''100'')
        (Some ''default'') None =
       Some ([example_button\<lparr>bc_pendingDelete := False, bc_pendingUpdate := True\<rparr>], 0)"
proof -
  have h1: "\<forall>c\<in>set []. \<not> (bc_pendingDelete c \<and> bc_type c = LINE \<and> bc_label c = ''100'')"
    by simp
  have h2: "bc_pendingDelete example_button" and h3: "bc_type example_button = LINE"
    and h4: "bc_label example_button = ''100''" and h5: "0 \<le> bc_index example_button"
    and h6: "''100'' \<noteq> []"
    by (simp_all add: example_button_def)
  have h7: "line_name example_button = mainId (sccp_parseComposedId example_button_env ''100'' 80)"
    by (simp add: example_button_def example_button_env_def)
  have h8: "map tolower (sub_number (line_subscriptionId example_button)) =
            map tolower (sub_number (subscriptionId (sccp_parseComposedId example_button_env ''100'' 80)))"
    by (simp add: example_button_def example_button_env_def)
  have h9: "sub_name (line_subscriptionId example_button) =
            sub_name (subscriptionId (sccp_parseComposedId example_button_env ''100'' 80))"
    by (simp add: example_button_def example_button_env_def)
  have h10: "sub_aux (line_subscriptionId example_button) =
             sub_aux (subscriptionId (sccp_parseComposedId example_button_env ''100'' 80))"
    by (simp add: example_button_def example_button_env_def)
  have opts: "line_options example_button = ''default''"
    by (simp add: example_button_def)
  from C4_line_button_options_are_never_compared [OF h1 h2 h3 h4 h5 h6 h7 h8 h9 h10,
         of example_env "[]" "Some ''silent''" None]
       C4_line_button_options_are_never_compared [OF h1 h2 h3 h4 h5 h6 h7 h8 h9 h10,
         of example_env "[]" "Some ''default''" None]
       h2 h3 h4 opts
  show ?thesis by simp
qed

subsection \<open>Soft key sets: the stored array\<close>

lemma readSoftSet_loop_props:
  assumes "length ks = 16" and "i < 16"
  shows "i \<le> snd (readSoftSet_loop senv ks i sp) \<and> snd (readSoftSet_loop senv ks i sp) < 16
       \<and> length (fst (readSoftSet_loop senv ks i sp)) = 16
       \<and> (\<forall>j. snd (readSoftSet_loop senv ks i sp) \<le> j \<longrightarrow> fst (readSoftSet_loop senv ks i sp) ! j = ks ! j)
       \<and> (sp \<noteq> None \<and> i + 1 < 16 \<longrightarrow> i < snd (readSoftSet_loop senv ks i sp))"
  using assms
proof (induction senv ks i sp rule: readSoftSet_loop.induct)
  case (1 senv softkeyset i splitter)
  show ?case
  proof (cases "strsep splitter (CHR '','')")
    case None
    then have "splitter = None"
      by (simp add: strsep_def split: option.splits)
    with None "1.prems" show ?thesis
      by (subst (1 2 3 4 5 6) readSoftSet_loop.simps) simp
  next
    case (Some t)
    show ?thesis
    proof (cases "i + 1 < StationMaxSoftKeySetDefinition")
      case False
      with Some "1.prems" show ?thesis
        by (subst (1 2 3 4 5 6) readSoftSet_loop.simps) (simp add: StationMaxSoftKeySetDefinition_def)
    next
      case True
      let ?ks1 = "softkeyset[i := nat (sccp_config_getSoftkeyLbl senv (fst t) mod 256)]"
      let ?r = "readSoftSet_loop senv ?ks1 (i + 1) (snd t)"
      have unfold: "readSoftSet_loop senv softkeyset i splitter = ?r"
        using Some True by (subst readSoftSet_loop.simps) simp
      from True have "i + 1 < 16"
        by (simp add: StationMaxSoftKeySetDefinition_def)
      with "1.IH" [OF Some True] "1.prems"
      have ih: "i + 1 \<le> snd ?r \<and> snd ?r < 16 \<and> length (fst ?r) = 16
                \<and> (\<forall>j. snd ?r \<le> j \<longrightarrow> fst ?r ! j = ?ks1 ! j)"
        by simp
      then show ?thesis
        unfolding unfold by auto
    qed
  qed
qed

lemma foldl_update_length: "length (foldl (\<lambda>ks j. ks[j := v]) ks js) = length ks"
  by (induction js arbitrary: ks) simp_all

lemma foldl_update_nth:
  "k < length ks \<Longrightarrow> foldl (\<lambda>ks j. ks[j := v]) ks js ! k = (if k \<in> set js then v else ks ! k)"
  by (induction js arbitrary: ks) (auto simp: nth_list_update)

text \<open>
  What \<^verbatim>\<open>sccp_config_readSoftSet\<close> returns on the zeroed array that
  \<^verbatim>\<open>sccp_config_softKeySet\<close> allocates: at least one and at most fifteen labels, the slots
  above the count set to the empty label, and the slot at the count, which neither loop
  writes, still zero.
\<close>

lemma readSoftSet_calloc:
  assumes "length d < 256"
  shows "\<exists>ks n. sccp_config_readSoftSet senv (replicate StationMaxSoftKeySetDefinition 0) (Some d) = Some (ks, n)
           \<and> 0 < n \<and> n < 16 \<and> length ks = 16 \<and> ks ! n = 0
           \<and> (\<forall>j. n < j \<and> j < 16 \<longrightarrow> ks ! j = nat (SKINNY_LBL_EMPTY senv mod 256))"
proof -
  let ?r = "readSoftSet_loop senv (replicate 16 0) 0 (Some d)"
  have props: "0 < snd ?r \<and> snd ?r < 16 \<and> length (fst ?r) = 16
               \<and> (\<forall>j. snd ?r \<le> j \<longrightarrow> fst ?r ! j = replicate 16 0 ! j)"
    using readSoftSet_loop_props [of "replicate 16 0" 0 senv "Some d"] by simp
  then have "fst ?r ! snd ?r = 0"
    by simp
  with props assms show ?thesis
    by (simp add: sccp_config_readSoftSet_def StationMaxSoftKeySetDefinition_def Let_def
          foldl_update_length foldl_update_nth)
qed

lemma readSoftSet_overrun:
  "256 \<le> length d \<Longrightarrow> sccp_config_readSoftSet senv softkeyset (Some d) = None"
  by (simp add: sccp_config_readSoftSet_def)

text \<open>
  C6. The builder copies the label list with \<^verbatim>\<open>strcpy\<close> into a buffer of 256 bytes and
  never looks at its length. A list that fits (at most 255 characters) is stored
  bounded and padded: sixteen slots, a count from 1 to 15 (so at most 32), the empty
  label in every slot above the count, and in the slot at the count the zero of
  \<^verbatim>\<open>calloc\<close> (the padding loop starts one above the count). A list of 256 characters
  or more overruns the buffer: the call has no defined result, and no bounded, padded
  array is stored.
\<close>

theorem C6_label_list_of_256_bytes_overruns_buffer:
  assumes "i < length SoftKeyModes" and "SoftKeyModes ! i = keyMode"
  shows "if length d < 256
         then \<exists>cfg' ks. softKeySet_store senv cfg keyMode (Some d) i = Some cfg'
                \<and> sm_ptr (sk_modes cfg' i) = Some ks
                \<and> length ks = StationMaxSoftKeySetDefinition
                \<and> 0 < sm_count (sk_modes cfg' i)
                \<and> sm_count (sk_modes cfg' i) < StationMaxSoftKeySetDefinition
                \<and> sm_count (sk_modes cfg' i) \<le> 32
                \<and> ks ! sm_count (sk_modes cfg' i) = 0
                \<and> (\<forall>j. sm_count (sk_modes cfg' i) < j \<and> j < StationMaxSoftKeySetDefinition
                       \<longrightarrow> ks ! j = nat (SKINNY_LBL_EMPTY senv mod 256))
         else sccp_config_readSoftSet senv (replicate StationMaxSoftKeySetDefinition 0) (Some d) = None
                \<and> softKeySet_store senv cfg keyMode (Some d) i = None"
proof (cases "length d < 256")
  case True
  obtain ks n where r: "sccp_config_readSoftSet senv (replicate StationMaxSoftKeySetDefinition 0) (Some d) = Some (ks, n)"
    and n: "0 < n" "n < 16" and len: "length ks = 16" and zero: "ks ! n = 0"
    and pad: "\<forall>j. n < j \<and> j < 16 \<longrightarrow> ks ! j = nat (SKINNY_LBL_EMPTY senv mod 256)"
    using readSoftSet_calloc [OF True, of senv] by blast
  with True assms(2) show ?thesis
    by (simp add: softKeySet_store_def StationMaxSoftKeySetDefinition_def)
next
  case False
  then have "sccp_config_readSoftSet senv (replicate StationMaxSoftKeySetDefinition 0) (Some d) = None"
    by (simp add: readSoftSet_overrun)
  with False assms(2) show ?thesis
    by (simp add: softKeySet_store_def)
qed

theorem C6_label_list_of_256_bytes_overruns_buffer_witness:
  "length long_label_list = 265
   \<and> softKeySet_store example_softkey_env example_softkeyset KEYMODE_ONHOOK (Some long_label_list) 0 = None
   \<and> length ''redial,newcall,bogus'' = 20
   \<and> softKeySet_store example_softkey_env example_softkeyset KEYMODE_ONHOOK (Some ''redial,newcall,bogus'') 0 =
       Some (example_softkeyset\<lparr>sk_modes := (sk_modes example_softkeyset)
               (0 := \<lparr>sm_id = 0, sm_ptr = Some [1, 2, 0, 0, 0, 0, 0, 0, 0, 0, 0, 0, 0, 0, 0, 0], sm_count = 3\<rparr>)\<rparr>)"
proof -
  have h1: "(0::nat) < length SoftKeyModes"
    by (simp add: SoftKeyModes_def)
  have h2: "SoftKeyModes ! 0 = KEYMODE_ONHOOK"
    by (simp add: SoftKeyModes_def)
  have empty: "SKINNY_LBL_EMPTY example_softkey_env = 0"
    by (simp add: example_softkey_env_def)
  have long: "length long_label_list = 265"
    by (simp add: long_label_list_def length_concat sum_list_replicate)
  have loop: "readSoftSet_loop example_softkey_env (replicate 16 0) 0 (Some ''redial,newcall,bogus'') =
      ([1, 2, 0, 0, 0, 0, 0, 0, 0, 0, 0, 0, 0, 0, 0, 0], 3)"
    by (simp add: readSoftSet_loop.simps strsep_def StationMaxSoftKeySetDefinition_def
          sccp_config_getSoftkeyLbl_def example_softkey_env_def strcasecmp_def tolower_def
          numeral_eq_Suc)
  have stored: "softKeySet_store example_softkey_env example_softkeyset KEYMODE_ONHOOK
        (Some ''redial,newcall,bogus'') 0 =
      Some (example_softkeyset\<lparr>sk_modes := (sk_modes example_softkeyset)
              (0 := \<lparr>sm_id = 0, sm_ptr = Some [1, 2, 0, 0, 0, 0, 0, 0, 0, 0, 0, 0, 0, 0, 0, 0], sm_count = 3\<rparr>)\<rparr>)"
    by (simp add: softKeySet_store_def h2 sccp_config_readSoftSet_def StationMaxSoftKeySetDefinition_def
          loop empty KEYMODE_ONHOOK_def upt_rec)
  from C6_label_list_of_256_bytes_overruns_buffer [OF h1 h2, of long_label_list
         example_softkey_env example_softkeyset]
  have overrun: "softKeySet_store example_softkey_env example_softkeyset KEYMODE_ONHOOK
        (Some long_label_list) 0 = None"
    by (simp add: long)
  from C6_label_list_of_256_bytes_overruns_buffer [OF h1 h2, of "''redial,newcall,bogus''"
         example_softkey_env example_softkeyset]
  have "\<exists>cfg'. softKeySet_store example_softkey_env example_softkeyset KEYMODE_ONHOOK
        (Some ''redial,newcall,bogus'') 0 = Some cfg'"
    by auto
  with stored long overrun show ?thesis
    by simp
qed
subsection \<open>Soft key sets: a second invocation\<close>

lemma SoftKeyModes_nth:
  assumes "m < 12"
  shows "SoftKeyModes ! m = int m"
proof -
  have eq: "SoftKeyModes = map int [0..<12]"
    by (simp add: SoftKeyModes_def KEYMODE_ONHOOK_def KEYMODE_CONNECTED_def KEYMODE_ONHOLD_def
          KEYMODE_RINGIN_def KEYMODE_OFFHOOK_def KEYMODE_CONNTRANS_def KEYMODE_DIGITSFOLL_def
          KEYMODE_CONNCONF_def KEYMODE_RINGOUT_def KEYMODE_OFFHOOKFEAT_def KEYMODE_INUSEHINT_def
          KEYMODE_ONHOOKSTEALABLE_def upt_rec)
  have "map int [0..<12] ! m = int ([0..<12] ! m)"
    using assms by (intro nth_map) (simp del: upt_rec_numeral)
  also have "[0..<12] ! m = m"
    using assms by (simp del: upt_rec_numeral)
  finally show ?thesis
    by (simp only: eq)
qed

lemma SoftKeyModes_length: "length SoftKeyModes = 12"
  by (simp add: SoftKeyModes_def)

lemma readSoftSet_Some:
  assumes "case val of None \<Rightarrow> True | Some d \<Rightarrow> length d < 256"
  shows "sccp_config_readSoftSet senv (replicate StationMaxSoftKeySetDefinition 0) val \<noteq> None"
proof (cases val)
  case None
  then show ?thesis by (simp add: sccp_config_readSoftSet_def)
next
  case (Some d)
  with assms have "length d < 256" by simp
  with Some show ?thesis
    by (simp add: sccp_config_readSoftSet_def Let_def)
qed

lemma softKeySet_store_Some:
  assumes "case val of None \<Rightarrow> True | Some d \<Rightarrow> length d < 256"
  shows "softKeySet_store senv cfg keyMode val i \<noteq> None"
proof -
  obtain r where "sccp_config_readSoftSet senv (replicate StationMaxSoftKeySetDefinition 0) val = Some r"
    using readSoftSet_Some [OF assms, where senv = senv] by auto
  then show ?thesis
    by (simp add: softKeySet_store_def)
qed

lemma softKeySet_store_keeps:
  assumes "softKeySet_store senv cfg keyMode val i = Some cfg'"
  shows "sk_name cfg' = sk_name cfg"
    and "m \<noteq> i \<or> SoftKeyModes ! i \<noteq> keyMode \<Longrightarrow> sk_modes cfg' m = sk_modes cfg m"
  using assms by (auto simp: softKeySet_store_def split: if_splits option.splits)

lemma softKeySet_modes_Some:
  assumes "case val of None \<Rightarrow> True | Some d \<Rightarrow> length d < 256"
  shows "softKeySet_modes senv keyMode val idx cfg \<noteq> None"
proof (induction idx arbitrary: cfg)
  case Nil
  show ?case by simp
next
  case (Cons i idx)
  obtain cfg1 where "softKeySet_store senv cfg keyMode val i = Some cfg1"
    using softKeySet_store_Some [OF assms, where senv = senv and cfg = cfg and keyMode = keyMode and i = i]
    by auto
  with Cons.IH [of cfg1] show ?case by simp
qed

lemma softKeySet_modes_keeps:
  assumes "softKeySet_modes senv keyMode val idx cfg = Some cfg'"
  shows "sk_name cfg' = sk_name cfg
       \<and> ((m \<in> set idx \<longrightarrow> SoftKeyModes ! m \<noteq> keyMode) \<longrightarrow> sk_modes cfg' m = sk_modes cfg m)"
  using assms
proof (induction idx arbitrary: cfg)
  case Nil
  then show ?case by simp
next
  case (Cons i idx)
  from Cons.prems obtain cfg1 where
    s: "softKeySet_store senv cfg keyMode val i = Some cfg1" and
    r: "softKeySet_modes senv keyMode val idx cfg1 = Some cfg'"
    by (auto split: option.splits)
  from Cons.IH [OF r] softKeySet_store_keeps(1) [OF s] softKeySet_store_keeps(2) [OF s, of m]
  show ?case
    by auto
qed

lemma softKeySet_keyMode_range:
  "softKeySet_keyMode name = - 1 \<or> (0 \<le> softKeySet_keyMode name \<and> softKeySet_keyMode name \<le> 10)"
  by (simp add: softKeySet_keyMode_def KEYMODE_ONHOOK_def KEYMODE_CONNECTED_def KEYMODE_ONHOLD_def
        KEYMODE_RINGIN_def KEYMODE_OFFHOOK_def KEYMODE_CONNTRANS_def KEYMODE_DIGITSFOLL_def
        KEYMODE_CONNCONF_def KEYMODE_RINGOUT_def KEYMODE_OFFHOOKFEAT_def KEYMODE_INUSEHINT_def)

lemma softKeySet_variables_Some:
  "(\<forall>v\<in>set vs. softKeySet_keyMode (fst v) = - 1
               \<or> (case snd v of None \<Rightarrow> True | Some d \<Rightarrow> length d < 256)) \<Longrightarrow>
     softKeySet_variables senv vs cfg \<noteq> None"
proof (induction vs arbitrary: cfg)
  case Nil
  show ?case by simp
next
  case (Cons v vs)
  from Cons.prems have rest: "\<forall>v\<in>set vs. softKeySet_keyMode (fst v) = - 1
               \<or> (case snd v of None \<Rightarrow> True | Some d \<Rightarrow> length d < 256)"
    by simp
  show ?case
  proof (cases "softKeySet_keyMode (fst v) = - 1")
    case True
    with Cons.IH [OF rest] show ?thesis by simp
  next
    case False
    with Cons.prems have here: "case snd v of None \<Rightarrow> True | Some d \<Rightarrow> length d < 256"
      by simp
    let ?km = "softKeySet_keyMode (fst v)"
    let ?cfg1 = "if numberOfSoftKeySets cfg < ?km + 1 then cfg\<lparr>numberOfSoftKeySets := ?km + 1\<rparr> else cfg"
    obtain cfg2 where "softKeySet_modes senv ?km (snd v) [0..<length SoftKeyModes] ?cfg1 = Some cfg2"
      using softKeySet_modes_Some [OF here, where senv = senv and keyMode = ?km
              and idx = "[0..<length SoftKeyModes]" and cfg = ?cfg1]
      by auto
    with Cons.IH [OF rest] show ?thesis
      by (simp add: Let_def)
  qed
qed

lemma softKeySet_variables_keeps:
  assumes "softKeySet_variables senv vs cfg = Some cfg'"
  shows "sk_name cfg' = sk_name cfg
       \<and> ((\<forall>v\<in>set vs. softKeySet_keyMode (fst v) \<noteq> int m) \<longrightarrow> sk_modes cfg' m = sk_modes cfg m)"
  using assms
proof (induction vs arbitrary: cfg)
  case Nil
  then show ?case by simp
next
  case (Cons v vs)
  show ?case
  proof (cases "softKeySet_keyMode (fst v) = - 1")
    case True
    with Cons.prems have "softKeySet_variables senv vs cfg = Some cfg'"
      by simp
    from Cons.IH [OF this] show ?thesis by simp
  next
    case False
    let ?km = "softKeySet_keyMode (fst v)"
    let ?cfg1 = "if numberOfSoftKeySets cfg < ?km + 1 then cfg\<lparr>numberOfSoftKeySets := ?km + 1\<rparr> else cfg"
    from False Cons.prems obtain cfg2 where
      s: "softKeySet_modes senv ?km (snd v) [0..<length SoftKeyModes] ?cfg1 = Some cfg2" and
      r: "softKeySet_variables senv vs cfg2 = Some cfg'"
      by (auto simp: Let_def split: option.splits)
    have untouched: "m \<in> set [0..<length SoftKeyModes] \<longrightarrow> SoftKeyModes ! m \<noteq> ?km" if "?km \<noteq> int m"
      using that by (simp add: SoftKeyModes_length SoftKeyModes_nth del: upt_rec_numeral)
    from softKeySet_modes_keeps [OF s, of m] untouched
    have "sk_name cfg2 = sk_name cfg" and "?km \<noteq> int m \<Longrightarrow> sk_modes cfg2 m = sk_modes cfg m"
      by auto
    with Cons.IH [OF r] show ?thesis by auto
  qed
qed

lemma softKeySet_find_Some:
  "softKeySet_find cs name pos = Some p \<Longrightarrow>
     pos \<le> p \<and> p - pos < length cs \<and> \<not> strcasecmp (sk_name (cs ! (p - pos))) name"
proof (induction cs arbitrary: pos)
  case Nil
  then show ?case by simp
next
  case (Cons c cs)
  show ?case
  proof (cases "strcasecmp (sk_name c) name")
    case False
    with Cons.prems show ?thesis by simp
  next
    case True
    with Cons.prems have "softKeySet_find cs name (Suc pos) = Some p"
      by simp
    from Cons.IH [OF this] show ?thesis
      by (auto simp: Suc_diff_le)
  qed
qed

lemma softKeySet_find_exists:
  "\<exists>c\<in>set cs. \<not> strcasecmp (sk_name c) name \<Longrightarrow> \<exists>p. softKeySet_find cs name pos = Some p"
  by (induction cs arbitrary: pos) auto

lemma softKeySet_find_first:
  "softKeySet_find cs name pos = Some p \<Longrightarrow> q < p - pos \<Longrightarrow> strcasecmp (sk_name (cs ! q)) name"
proof (induction cs arbitrary: pos q)
  case Nil
  then show ?case by simp
next
  case (Cons c cs)
  show ?case
  proof (cases "strcasecmp (sk_name c) name")
    case False
    with Cons.prems show ?thesis by simp
  next
    case True
    with Cons.prems have found: "softKeySet_find cs name (Suc pos) = Some p"
      by simp
    show ?thesis
    proof (cases q)
      case 0
      with True show ?thesis by simp
    next
      case (Suc q')
      with Cons.prems(2) have "q' < p - Suc pos"
        by simp
      from Cons.IH [OF found this] Suc show ?thesis
        by simp
    qed
  qed
qed

text \<open>A value that overruns the buffer: the loop over the key modes has no result.\<close>

lemma softKeySet_modes_None:
  assumes "sccp_config_readSoftSet senv (replicate StationMaxSoftKeySetDefinition 0) val = None"
    and "SoftKeyModes ! i = keyMode"
  shows "i \<in> set idx \<Longrightarrow> softKeySet_modes senv keyMode val idx cfg = None"
proof (induction idx arbitrary: cfg)
  case Nil
  then show ?case by simp
next
  case (Cons j idx)
  show ?case
  proof (cases "SoftKeyModes ! j = keyMode")
    case True
    with assms(1) have "softKeySet_store senv cfg keyMode val j = None"
      by (simp add: softKeySet_store_def)
    then show ?thesis by simp
  next
    case False
    with assms(2) have "j \<noteq> i"
      by auto
    with Cons.prems have "i \<in> set idx"
      by simp
    from Cons.IH [OF this] False show ?thesis
      by (simp add: softKeySet_store_def)
  qed
qed

lemma softKeySet_variables_None:
  "\<exists>v\<in>set vs. softKeySet_keyMode (fst v) \<noteq> - 1
               \<and> \<not> (case snd v of None \<Rightarrow> True | Some d \<Rightarrow> length d < 256) \<Longrightarrow>
     softKeySet_variables senv vs cfg = None"
proof (induction vs arbitrary: cfg)
  case Nil
  then show ?case by simp
next
  case (Cons v vs)
  let ?km = "softKeySet_keyMode (fst v)"
  let ?cfg1 = "if numberOfSoftKeySets cfg < ?km + 1 then cfg\<lparr>numberOfSoftKeySets := ?km + 1\<rparr> else cfg"
  show ?case
  proof (cases "?km \<noteq> - 1 \<and> \<not> (case snd v of None \<Rightarrow> True | Some d \<Rightarrow> length d < 256)")
    case True
    then obtain d where d: "snd v = Some d" "256 \<le> length d"
      by (auto split: option.splits)
    then have overrun: "sccp_config_readSoftSet senv (replicate StationMaxSoftKeySetDefinition 0) (snd v) = None"
      by (simp add: sccp_config_readSoftSet_def)
    from True softKeySet_keyMode_range [of "fst v"] have range: "0 \<le> ?km" "?km \<le> 10"
      by auto
    then have idx: "nat ?km \<in> set [0..<length SoftKeyModes]"
      by (simp add: SoftKeyModes_length del: upt_rec_numeral)
    from range have "SoftKeyModes ! nat ?km = ?km"
      by (simp add: SoftKeyModes_nth)
    from softKeySet_modes_None [OF overrun this idx, of ?cfg1] True show ?thesis
      by (simp add: Let_def)
  next
    case False
    with Cons.prems have "\<exists>v\<in>set vs. softKeySet_keyMode (fst v) \<noteq> - 1
               \<and> \<not> (case snd v of None \<Rightarrow> True | Some d \<Rightarrow> length d < 256)"
      by auto
    from Cons.IH [OF this] show ?thesis
      by (simp add: Let_def split: option.splits)
  qed
qed

text \<open>
  A value that fits: the key mode it names receives the array and the count that
  \<^verbatim>\<open>sccp_config_readSoftSet\<close> produces on a fresh zeroed array (no array and the count
  zero when nothing was read).
\<close>

lemma softKeySet_modes_replaces:
  assumes "sccp_config_readSoftSet senv (replicate StationMaxSoftKeySetDefinition 0) val = Some (ks, n)"
    and "m < 12"
  shows "softKeySet_modes senv (int m) val idx cfg = Some cfg' \<Longrightarrow> \<forall>i\<in>set idx. i < 12 \<Longrightarrow>
         m \<in> set idx \<or> (sm_ptr (sk_modes cfg m) = (if 0 < n then Some ks else None)
                          \<and> sm_count (sk_modes cfg m) = n \<and> (0 < n \<longrightarrow> sm_id (sk_modes cfg m) = m)) \<Longrightarrow>
         sm_ptr (sk_modes cfg' m) = (if 0 < n then Some ks else None)
           \<and> sm_count (sk_modes cfg' m) = n \<and> (0 < n \<longrightarrow> sm_id (sk_modes cfg' m) = m)"
proof (induction idx arbitrary: cfg)
  case Nil
  then show ?case by simp
next
  case (Cons i idx)
  from Cons.prems(1) obtain cfg1 where
    s: "softKeySet_store senv cfg (int m) val i = Some cfg1" and
    r: "softKeySet_modes senv (int m) val idx cfg1 = Some cfg'"
    by (auto split: option.splits)
  from Cons.prems(2) have i: "i < 12" and rest: "\<forall>i\<in>set idx. i < 12"
    by simp_all
  show ?case
  proof (cases "i = m")
    case True
    with s assms have "sm_ptr (sk_modes cfg1 m) = (if 0 < n then Some ks else None)
        \<and> sm_count (sk_modes cfg1 m) = n \<and> (0 < n \<longrightarrow> sm_id (sk_modes cfg1 m) = m)"
      by (auto simp: softKeySet_store_def SoftKeyModes_nth split: if_splits)
    then show ?thesis
      using Cons.IH [OF r rest] by simp
  next
    case False
    with i have "SoftKeyModes ! i \<noteq> int m"
      by (simp add: SoftKeyModes_nth)
    with s have "cfg1 = cfg"
      by (simp add: softKeySet_store_def)
    with False Cons.prems(3) Cons.IH [OF r rest] show ?thesis
      by auto
  qed
qed

lemma softKeySet_variables_append:
  "softKeySet_variables senv (xs @ ys) cfg =
     (case softKeySet_variables senv xs cfg of
        None \<Rightarrow> None
      | Some c \<Rightarrow> softKeySet_variables senv ys c)"
  by (induction xs arbitrary: cfg) (auto simp: Let_def split: option.splits)

lemma softKeySet_variables_replaces:
  assumes run: "softKeySet_variables senv (pre @ v # post) cfg = Some cfg'"
    and km: "softKeySet_keyMode (fst v) = int m"
    and last: "\<forall>w\<in>set post. softKeySet_keyMode (fst w) \<noteq> int m"
  shows "\<exists>ks n. sccp_config_readSoftSet senv (replicate StationMaxSoftKeySetDefinition 0) (snd v) = Some (ks, n)
           \<and> sm_ptr (sk_modes cfg' m) = (if 0 < n then Some ks else None)
           \<and> sm_count (sk_modes cfg' m) = n
           \<and> (0 < n \<longrightarrow> sm_id (sk_modes cfg' m) = m)"
proof -
  from run obtain c1 where c1: "softKeySet_variables senv pre cfg = Some c1"
    and step: "softKeySet_variables senv (v # post) c1 = Some cfg'"
    by (auto simp: softKeySet_variables_append split: option.splits)
  from km softKeySet_keyMode_range [of "fst v"] have m: "m < 12"
    by auto
  let ?c1 = "if numberOfSoftKeySets c1 < int m + 1 then c1\<lparr>numberOfSoftKeySets := int m + 1\<rparr> else c1"
  from step km obtain c2 where
    modes: "softKeySet_modes senv (int m) (snd v) [0..<length SoftKeyModes] ?c1 = Some c2" and
    post: "softKeySet_variables senv post c2 = Some cfg'"
    by (auto simp: Let_def split: option.splits)
  have idx: "m \<in> set [0..<length SoftKeyModes]"
    using m by (simp add: SoftKeyModes_length del: upt_rec_numeral)
  have "sccp_config_readSoftSet senv (replicate StationMaxSoftKeySetDefinition 0) (snd v) \<noteq> None"
  proof
    assume "sccp_config_readSoftSet senv (replicate StationMaxSoftKeySetDefinition 0) (snd v) = None"
    from softKeySet_modes_None [OF this SoftKeyModes_nth [OF m] idx, of ?c1] modes show False
      by simp
  qed
  then obtain ks n where
    r: "sccp_config_readSoftSet senv (replicate StationMaxSoftKeySetDefinition 0) (snd v) = Some (ks, n)"
    by auto
  have bound: "\<forall>i\<in>set [0..<length SoftKeyModes]. i < 12"
    by (simp add: SoftKeyModes_length del: upt_rec_numeral)
  from softKeySet_modes_replaces [OF r m modes bound] idx
  have c2: "sm_ptr (sk_modes c2 m) = (if 0 < n then Some ks else None)
      \<and> sm_count (sk_modes c2 m) = n \<and> (0 < n \<longrightarrow> sm_id (sk_modes c2 m) = m)"
    by blast
  from softKeySet_variables_keeps [OF post, of m] last have "sk_modes cfg' m = sk_modes c2 m"
    by simp
  with r c2 show ?thesis
    by simp
qed

text \<open>
  C9. When the name matches an existing configuration (ignoring the case of letters)
  and every value of a recognised key mode fits the 256 bytes it is copied into,
  \<^verbatim>\<open>sccp_config_softKeySet\<close> returns with a list of the same length and the same names:
  no entry is inserted. Only the first matching configuration is touched. In it, every
  key mode that the input names holds the array and the count read from the last value
  given for it, and every key mode that the input does not name keeps what it had. When
  a value of a recognised key mode has 256 characters or more, \<^verbatim>\<open>strcpy\<close> overruns the
  buffer of \<^verbatim>\<open>sccp_config_readSoftSet\<close> and the call has no defined result: nothing is
  updated.
\<close>

theorem C9_matching_softkeyset_is_updated_in_place_unless_a_value_overruns:
  assumes "\<exists>c\<in>set softKeySetConfig. \<not> strcasecmp (sk_name c) name"
  shows "if \<forall>v\<in>set variable. softKeySet_keyMode (fst v) = - 1
                \<or> (case snd v of None \<Rightarrow> True | Some d \<Rightarrow> length d < 256)
         then \<exists>p cfgs'. sccp_config_softKeySet senv softKeySetConfig variable name = Some cfgs'
           \<and> p < length softKeySetConfig
           \<and> \<not> strcasecmp (sk_name (softKeySetConfig ! p)) name
           \<and> (\<forall>q<p. strcasecmp (sk_name (softKeySetConfig ! q)) name)
           \<and> length cfgs' = length softKeySetConfig
           \<and> map sk_name cfgs' = map sk_name softKeySetConfig
           \<and> (\<forall>q. q \<noteq> p \<longrightarrow> cfgs' ! q = softKeySetConfig ! q)
           \<and> (\<forall>m. (\<forall>v\<in>set variable. softKeySet_keyMode (fst v) \<noteq> int m)
                  \<longrightarrow> sk_modes (cfgs' ! p) m = sk_modes (softKeySetConfig ! p) m)
           \<and> (\<forall>m pre v post.
                  variable = pre @ v # post \<and> softKeySet_keyMode (fst v) = int m
                  \<and> (\<forall>w\<in>set post. softKeySet_keyMode (fst w) \<noteq> int m)
                  \<longrightarrow> (\<exists>ks n. sccp_config_readSoftSet senv
                                  (replicate StationMaxSoftKeySetDefinition 0) (snd v) = Some (ks, n)
                         \<and> sm_ptr (sk_modes (cfgs' ! p) m) = (if 0 < n then Some ks else None)
                         \<and> sm_count (sk_modes (cfgs' ! p) m) = n
                         \<and> (0 < n \<longrightarrow> sm_id (sk_modes (cfgs' ! p) m) = m)))
         else sccp_config_softKeySet senv softKeySetConfig variable name = None"
proof -
  obtain p where found: "softKeySet_find softKeySetConfig name 0 = Some p"
    using softKeySet_find_exists [OF assms, of 0] by auto
  from softKeySet_find_Some [OF found]
  have p: "p < length softKeySetConfig" and match: "\<not> strcasecmp (sk_name (softKeySetConfig ! p)) name"
    by simp_all
  have first: "\<forall>q<p. strcasecmp (sk_name (softKeySetConfig ! q)) name"
    using softKeySet_find_first [OF found] by simp
  show ?thesis
  proof (cases "\<forall>v\<in>set variable. softKeySet_keyMode (fst v) = - 1
                  \<or> (case snd v of None \<Rightarrow> True | Some d \<Rightarrow> length d < 256)")
    case True
    obtain cfg where run: "softKeySet_variables senv variable (softKeySetConfig ! p) = Some cfg"
      using softKeySet_variables_Some [OF True, of senv "softKeySetConfig ! p"] by auto
    have name: "sk_name cfg = sk_name (softKeySetConfig ! p)"
      using softKeySet_variables_keeps [OF run, of 0] by simp
    have modes: "sk_modes cfg m = sk_modes (softKeySetConfig ! p) m"
      if "\<forall>v\<in>set variable. softKeySet_keyMode (fst v) \<noteq> int m" for m
      using softKeySet_variables_keeps [OF run, of m] that by simp
    have replaced: "\<exists>ks n. sccp_config_readSoftSet senv
            (replicate StationMaxSoftKeySetDefinition 0) (snd v) = Some (ks, n)
          \<and> sm_ptr (sk_modes cfg m) = (if 0 < n then Some ks else None)
          \<and> sm_count (sk_modes cfg m) = n
          \<and> (0 < n \<longrightarrow> sm_id (sk_modes cfg m) = m)"
      if "variable = pre @ v # post" "softKeySet_keyMode (fst v) = int m"
         "\<forall>w\<in>set post. softKeySet_keyMode (fst w) \<noteq> int m" for m pre v post
      using softKeySet_variables_replaces [of senv pre v post "softKeySetConfig ! p" cfg m] run that
      by simp
    have result: "sccp_config_softKeySet senv softKeySetConfig variable name = Some (softKeySetConfig[p := cfg])"
      by (simp add: sccp_config_softKeySet_def found run)
    have names: "map sk_name (softKeySetConfig[p := cfg]) = map sk_name softKeySetConfig"
      using p name by (simp add: map_update list_update_same_conv)
    have here: "softKeySetConfig[p := cfg] ! p = cfg"
      using p by simp
    define cfgs' where "cfgs' = softKeySetConfig[p := cfg]"
    have c1: "sccp_config_softKeySet senv softKeySetConfig variable name = Some cfgs'"
      using result by (simp add: cfgs'_def)
    have c2: "length cfgs' = length softKeySetConfig"
      by (simp add: cfgs'_def)
    have c3: "map sk_name cfgs' = map sk_name softKeySetConfig"
      using names by (simp add: cfgs'_def)
    have c4: "\<forall>q. q \<noteq> p \<longrightarrow> cfgs' ! q = softKeySetConfig ! q"
      by (simp add: cfgs'_def)
    have at_p: "cfgs' ! p = cfg"
      using here by (simp add: cfgs'_def)
    have c5: "\<forall>m. (\<forall>v\<in>set variable. softKeySet_keyMode (fst v) \<noteq> int m)
                  \<longrightarrow> sk_modes (cfgs' ! p) m = sk_modes (softKeySetConfig ! p) m"
      using modes by (simp only: at_p) blast
    have c6: "\<forall>m pre v post.
                  variable = pre @ v # post \<and> softKeySet_keyMode (fst v) = int m
                  \<and> (\<forall>w\<in>set post. softKeySet_keyMode (fst w) \<noteq> int m)
                  \<longrightarrow> (\<exists>ks n. sccp_config_readSoftSet senv
                                  (replicate StationMaxSoftKeySetDefinition 0) (snd v) = Some (ks, n)
                         \<and> sm_ptr (sk_modes (cfgs' ! p) m) = (if 0 < n then Some ks else None)
                         \<and> sm_count (sk_modes (cfgs' ! p) m) = n
                         \<and> (0 < n \<longrightarrow> sm_id (sk_modes (cfgs' ! p) m) = m))"
      unfolding at_p using replaced by (intro allI impI) (elim conjE, rule replaced)
    have ex: "\<exists>p cfgs'. sccp_config_softKeySet senv softKeySetConfig variable name = Some cfgs'
           \<and> p < length softKeySetConfig
           \<and> \<not> strcasecmp (sk_name (softKeySetConfig ! p)) name
           \<and> (\<forall>q<p. strcasecmp (sk_name (softKeySetConfig ! q)) name)
           \<and> length cfgs' = length softKeySetConfig
           \<and> map sk_name cfgs' = map sk_name softKeySetConfig
           \<and> (\<forall>q. q \<noteq> p \<longrightarrow> cfgs' ! q = softKeySetConfig ! q)
           \<and> (\<forall>m. (\<forall>v\<in>set variable. softKeySet_keyMode (fst v) \<noteq> int m)
                  \<longrightarrow> sk_modes (cfgs' ! p) m = sk_modes (softKeySetConfig ! p) m)
           \<and> (\<forall>m pre v post.
                  variable = pre @ v # post \<and> softKeySet_keyMode (fst v) = int m
                  \<and> (\<forall>w\<in>set post. softKeySet_keyMode (fst w) \<noteq> int m)
                  \<longrightarrow> (\<exists>ks n. sccp_config_readSoftSet senv
                                  (replicate StationMaxSoftKeySetDefinition 0) (snd v) = Some (ks, n)
                         \<and> sm_ptr (sk_modes (cfgs' ! p) m) = (if 0 < n then Some ks else None)
                         \<and> sm_count (sk_modes (cfgs' ! p) m) = n
                         \<and> (0 < n \<longrightarrow> sm_id (sk_modes (cfgs' ! p) m) = m)))"
      using c1 p match first c2 c3 c4 c5 c6
      by (intro exI [of _ p] exI [of _ cfgs'] conjI)
    show ?thesis
      by (subst if_P [OF True]) (rule ex)
  next
    case False
    then have "\<exists>v\<in>set variable. softKeySet_keyMode (fst v) \<noteq> - 1
               \<and> \<not> (case snd v of None \<Rightarrow> True | Some d \<Rightarrow> length d < 256)"
      by auto
    from softKeySet_variables_None [OF this, of senv "softKeySetConfig ! p"]
    have "sccp_config_softKeySet senv softKeySetConfig variable name = None"
      by (simp add: sccp_config_softKeySet_def found)
    then show ?thesis
      by (subst if_not_P [OF False])
  qed
qed

theorem C9_matching_softkeyset_is_updated_in_place_unless_a_value_overruns_witness:
  "\<not> strcasecmp (sk_name example_softkeyset) ''SoftKeySet1''
   \<and> sm_ptr (sk_modes example_softkeyset 1) = Some [3, 9, 0, 0, 0, 0, 0, 0, 0, 0, 0, 0, 0, 0, 0, 0]
   \<and> sccp_config_softKeySet example_softkey_env [example_softkeyset]
        [(''Connected'', Some ''hold,endcall,newcall'')] ''SoftKeySet1'' =
       Some [example_softkeyset\<lparr>sk_modes := (sk_modes example_softkeyset)
               (1 := \<lparr>sm_id = 1, sm_ptr = Some [3, 9, 2, 0, 0, 0, 0, 0, 0, 0, 0, 0, 0, 0, 0, 0], sm_count = 3\<rparr>)\<rparr>]
   \<and> length long_label_list = 265
   \<and> sccp_config_softKeySet example_softkey_env [example_softkeyset]
        [(''onhook'', Some long_label_list)] ''SoftKeySet1'' = None"
proof -
  have h1: "\<exists>c\<in>set [example_softkeyset]. \<not> strcasecmp (sk_name c) ''SoftKeySet1''"
    by (simp add: example_softkeyset_def strcasecmp_def tolower_def)
  have fits: "\<forall>v\<in>set [(''Connected'', Some ''hold,endcall,newcall'')]. softKeySet_keyMode (fst v) = - 1
                \<or> (case snd v of None \<Rightarrow> True | Some d \<Rightarrow> length d < 256)"
    by simp
  have long: "length long_label_list = 265"
    by (simp add: long_label_list_def length_concat sum_list_replicate)
  have onhook: "softKeySet_keyMode ''onhook'' = 0"
    by (simp add: softKeySet_keyMode_def strcasecmp_def tolower_def KEYMODE_ONHOOK_def)
  have overruns: "\<not> (\<forall>v\<in>set [(''onhook'', Some long_label_list)]. softKeySet_keyMode (fst v) = - 1
                \<or> (case snd v of None \<Rightarrow> True | Some d \<Rightarrow> length d < 256))"
    by (simp add: onhook long)
  have old: "sm_ptr (sk_modes example_softkeyset 1) = Some [3, 9, 0, 0, 0, 0, 0, 0, 0, 0, 0, 0, 0, 0, 0, 0]"
    by (simp add: example_softkeyset_def)
  have empty: "SKINNY_LBL_EMPTY example_softkey_env = 0"
    by (simp add: example_softkey_env_def)
  have loop: "readSoftSet_loop example_softkey_env (replicate 16 0) 0 (Some ''hold,endcall,newcall'') =
      ([3, 9, 2, 0, 0, 0, 0, 0, 0, 0, 0, 0, 0, 0, 0, 0], 3)"
    by (simp add: readSoftSet_loop.simps strsep_def StationMaxSoftKeySetDefinition_def
          sccp_config_getSoftkeyLbl_def example_softkey_env_def strcasecmp_def tolower_def
          numeral_eq_Suc)
  have read: "sccp_config_readSoftSet example_softkey_env (replicate StationMaxSoftKeySetDefinition 0)
        (Some ''hold,endcall,newcall'') = Some ([3, 9, 2, 0, 0, 0, 0, 0, 0, 0, 0, 0, 0, 0, 0, 0], 3)"
    by (simp add: sccp_config_readSoftSet_def StationMaxSoftKeySetDefinition_def loop empty upt_rec)
  have connected: "softKeySet_keyMode ''Connected'' = 1"
    by (simp add: softKeySet_keyMode_def strcasecmp_def tolower_def KEYMODE_CONNECTED_def)
  have number: "numberOfSoftKeySets example_softkeyset = 4"
    by (simp add: example_softkeyset_def)
  have modes: "softKeySet_modes example_softkey_env 1 (Some ''hold,endcall,newcall'')
        [0..<length SoftKeyModes] example_softkeyset =
      Some (example_softkeyset\<lparr>sk_modes := (sk_modes example_softkeyset)
              (1 := \<lparr>sm_id = 1, sm_ptr = Some [3, 9, 2, 0, 0, 0, 0, 0, 0, 0, 0, 0, 0, 0, 0, 0], sm_count = 3\<rparr>)\<rparr>)"
    by (simp add: SoftKeyModes_def upt_rec softKeySet_store_def read KEYMODE_ONHOOK_def
          KEYMODE_CONNECTED_def KEYMODE_ONHOLD_def KEYMODE_RINGIN_def KEYMODE_OFFHOOK_def
          KEYMODE_CONNTRANS_def KEYMODE_DIGITSFOLL_def KEYMODE_CONNCONF_def KEYMODE_RINGOUT_def
          KEYMODE_OFFHOOKFEAT_def KEYMODE_INUSEHINT_def KEYMODE_ONHOOKSTEALABLE_def)
  have match: "\<not> strcasecmp (sk_name example_softkeyset) ''SoftKeySet1''"
    using h1 by simp
  have updated: "sccp_config_softKeySet example_softkey_env [example_softkeyset]
        [(''Connected'', Some ''hold,endcall,newcall'')] ''SoftKeySet1'' =
      Some [example_softkeyset\<lparr>sk_modes := (sk_modes example_softkeyset)
              (1 := \<lparr>sm_id = 1, sm_ptr = Some [3, 9, 2, 0, 0, 0, 0, 0, 0, 0, 0, 0, 0, 0, 0, 0], sm_count = 3\<rparr>)\<rparr>]"
    by (simp add: sccp_config_softKeySet_def match connected number modes)
  from C9_matching_softkeyset_is_updated_in_place_unless_a_value_overruns [OF h1,
         of "[(''Connected'', Some ''hold,endcall,newcall'')]" example_softkey_env]
  have "\<exists>cfgs'. sccp_config_softKeySet example_softkey_env [example_softkeyset]
        [(''Connected'', Some ''hold,endcall,newcall'')] ''SoftKeySet1'' = Some cfgs'
        \<and> length cfgs' = length [example_softkeyset]"
    by (subst (asm) if_P [OF fits]) blast
  moreover
  from C9_matching_softkeyset_is_updated_in_place_unless_a_value_overruns [OF h1,
         of "[(''onhook'', Some long_label_list)]" example_softkey_env]
  have "sccp_config_softKeySet example_softkey_env [example_softkeyset]
        [(''onhook'', Some long_label_list)] ''SoftKeySet1'' = None"
    by (subst (asm) if_not_P [OF overruns])
  ultimately show ?thesis
    using match updated old long by simp
qed

end
